(* ===== verification/Prelude.thy ===== *)
theory Prelude
  imports Main "HOL-Library.Sublist" "HOL-Library.Product_Lexorder"
begin

text \<open>
  Shared vocabulary of the development.  The Python program signals every failure by
  raising; the model makes each raise a value.  \<open>exc\<close> names the exception classes
  the repository can raise or let through, \<open>'a result\<close> is a pure computation that
  either raises (\<open>Inl\<close>) or returns (\<open>Inr\<close>), and \<open>ebind\<close> is Python's
  sequencing: the first raise aborts the rest.  \<open>map_exc\<close> and \<open>filter_exc\<close> are
  list comprehensions \<open>[f(x) for x in xs]\<close> and \<open>[x for x in xs if p(x)]\<close>
  whose body may raise: left to right, stopping at the first exception.
  The named collection \<open>model_simps\<close> gathers the evaluation rules that the
  component theories hand to \<open>simp\<close>.
\<close>

named_theorems model_simps "evaluation rules of the model's operations"

datatype exc = ValueError | KeyError | SystemExit | RequestException | OverflowError

type_synonym 'a result = "exc + 'a"

definition ebind :: "'a result \<Rightarrow> ('a \<Rightarrow> 'b result) \<Rightarrow> 'b result" where
  "ebind r f = (case r of Inl e \<Rightarrow> Inl e | Inr a \<Rightarrow> f a)"

fun map_exc :: "('a \<Rightarrow> 'b result) \<Rightarrow> 'a list \<Rightarrow> 'b list result" where
  "map_exc f [] = Inr []"
| "map_exc f (x # xs) = ebind (f x) (\<lambda>y. ebind (map_exc f xs) (\<lambda>ys. Inr (y # ys)))"

fun filter_exc :: "('a \<Rightarrow> bool result) \<Rightarrow> 'a list \<Rightarrow> 'a list result" where
  "filter_exc p [] = Inr []"
| "filter_exc p (x # xs) =
     ebind (p x) (\<lambda>b. ebind (filter_exc p xs) (\<lambda>ys. Inr (if b then x # ys else ys)))"

text \<open>\<open>except Exception\<close> catches every exception but \<open>SystemExit\<close>, which
  \<open>exit()\<close> raises and which derives from \<open>BaseException\<close> only.\<close>

definition is_exception :: "exc \<Rightarrow> bool" where
  "is_exception e \<longleftrightarrow> e \<noteq> SystemExit"

subsection \<open>The error monad\<close>

lemma ebind_Inl [simp, model_simps]: "ebind (Inl e) f = Inl e"
  by (simp add: ebind_def)

lemma ebind_Inr [simp, model_simps]: "ebind (Inr a) f = f a"
  by (simp add: ebind_def)

lemma ebind_eq_Inr: "ebind r f = Inr b \<longleftrightarrow> (\<exists>a. r = Inr a \<and> f a = Inr b)"
  by (cases r) simp_all

lemma ebind_eq_Inl: "ebind r f = Inl e \<longleftrightarrow> r = Inl e \<or> (\<exists>a. r = Inr a \<and> f a = Inl e)"
  by (cases r) simp_all

lemma ebind_Inr_right [simp]: "ebind r Inr = r"
  by (cases r) simp_all

subsection \<open>Comprehensions whose body raises\<close>

lemma map_exc_Inr_iff:
  "map_exc f xs = Inr ys \<longleftrightarrow> list_all2 (\<lambda>x y. f x = Inr y) xs ys"
proof (induction xs arbitrary: ys)
  case Nil
  then show ?case by auto
next
  case (Cons x xs)
  then show ?case
    by (cases ys) (auto simp: ebind_eq_Inr)
qed

lemma map_exc_total:
  "(\<And>x. x \<in> set xs \<Longrightarrow> f x = Inr (g x)) \<Longrightarrow> map_exc f xs = Inr (map g xs)"
  by (induction xs) simp_all

lemma map_exc_length: "map_exc f xs = Inr ys \<Longrightarrow> length ys = length xs"
  by (auto simp: map_exc_Inr_iff dest: list_all2_lengthD)

lemma map_exc_nth:
  "map_exc f xs = Inr ys \<Longrightarrow> i < length xs \<Longrightarrow> f (xs ! i) = Inr (ys ! i)"
  by (auto simp: map_exc_Inr_iff dest: list_all2_nthD)

lemma map_exc_Inl:
  "map_exc f xs = Inl e \<Longrightarrow> \<exists>x \<in> set xs. f x = Inl e"
  by (induction xs) (auto simp: ebind_eq_Inl)

lemma map_exc_raises:
  "x \<in> set xs \<Longrightarrow> f x = Inl e \<Longrightarrow> \<exists>e'. map_exc f xs = Inl e'"
  by (induction xs) (auto simp: ebind_def split: sum.splits)

lemma filter_exc_total:
  "(\<And>x. x \<in> set xs \<Longrightarrow> p x = Inr (q x)) \<Longrightarrow> filter_exc p xs = Inr (filter q xs)"
  by (induction xs) simp_all

lemma filter_exc_Inr:
  "filter_exc p xs = Inr ys \<Longrightarrow> ys = filter (\<lambda>x. p x = Inr True) xs \<and> (\<forall>x \<in> set xs. \<exists>b. p x = Inr b)"
proof (induction xs arbitrary: ys)
  case Nil
  then show ?case by simp
next
  case (Cons x xs)
  from Cons.prems obtain b ys' where
    px: "p x = Inr b" and rest: "filter_exc p xs = Inr ys'" and
    ys: "ys = (if b then x # ys' else ys')"
    by (auto simp: ebind_eq_Inr)
  from Cons.IH [OF rest] px ys show ?case by auto
qed

lemma filter_exc_Inl:
  "filter_exc p xs = Inl e \<Longrightarrow> \<exists>x \<in> set xs. p x = Inl e"
  by (induction xs) (auto simp: ebind_eq_Inl)

lemma filter_exc_raises:
  "x \<in> set xs \<Longrightarrow> p x = Inl e \<Longrightarrow> \<exists>e'. filter_exc p xs = Inl e'"
  by (induction xs) (auto simp: ebind_def split: sum.splits)

lemma filter_exc_subseq: "filter_exc p xs = Inr ys \<Longrightarrow> subseq ys xs"
  by (auto dest: filter_exc_Inr)

end
