(* ===== verification/Py_Builtins.thy ===== *)
theory Py_Builtins
  imports Prelude
begin

text \<open>
  The Python builtins the repository's string handling rests on, over 8-bit
  characters (every string the program handles is ASCII: dates, class names,
  phone numbers):
  \<^item> \<open>is_py_space\<close>: \<open>str.isspace\<close> on ASCII (tab to carriage return, the
    separators 0x1c to 0x1f, space);
  \<^item> \<open>py_strip\<close>: \<open>str.strip()\<close>;  \<open>py_split c\<close>: \<open>str.split(c)\<close> for a
    one-character separator;  \<open>py_words\<close>: \<open>str.split()\<close>;
  \<^item> \<open>py_int\<close>: \<open>int(s)\<close> on a string: surrounding whitespace, an optional sign,
    decimal digits with single underscores between them, \<open>ValueError\<close> otherwise;
  \<^item> \<open>show_nat\<close> and \<open>zpad\<close>: the decimal rendering behind \<open>"%02d"\<close>-style
    fields of \<open>strftime\<close>.
  \<^item> \<open>py_str_int\<close>: \<open>str()\<close> of an \<open>int\<close>; \<open>py_repr_list\<close>: \<open>str()\<close> of a list of
    strings, as an f-string renders it.
\<close>

definition is_py_space :: "char \<Rightarrow> bool" where
  "is_py_space c \<longleftrightarrow> (let n = of_char c :: nat in (9 \<le> n \<and> n \<le> 13) \<or> (28 \<le> n \<and> n \<le> 32))"

definition py_strip :: "string \<Rightarrow> string" where
  "py_strip s = rev (dropWhile is_py_space (rev (dropWhile is_py_space s)))"

fun split_when :: "('a \<Rightarrow> bool) \<Rightarrow> 'a list \<Rightarrow> 'a list list" where
  "split_when P [] = [[]]"
| "split_when P (x # xs) =
     (if P x then [] # split_when P xs
      else (case split_when P xs of [] \<Rightarrow> [[x]] | w # ws \<Rightarrow> (x # w) # ws))"

definition py_split :: "char \<Rightarrow> string \<Rightarrow> string list" where
  "py_split c s = split_when (\<lambda>x. x = c) s"

fun py_join :: "string \<Rightarrow> string list \<Rightarrow> string" where
  "py_join sep [] = []"
| "py_join sep [w] = w"
| "py_join sep (w # ws) = w @ sep @ py_join sep ws"

definition py_words :: "string \<Rightarrow> string list" where
  "py_words s = filter (\<lambda>w. w \<noteq> []) (split_when is_py_space s)"

definition is_digit :: "char \<Rightarrow> bool" where
  "is_digit c \<longleftrightarrow> (let n = of_char c :: nat in 48 \<le> n \<and> n \<le> 57)"

definition digit_val :: "char \<Rightarrow> nat" where
  "digit_val c = of_char c - 48"

definition digits_value :: "string \<Rightarrow> nat" where
  "digits_value s = foldl (\<lambda>acc c. 10 * acc + digit_val c) 0 s"

text \<open>Python's grammar for the digits of a decimal literal: \<open>digit (["_"] digit)*\<close>.\<close>

fun dec_digits :: "string \<Rightarrow> bool" where
  "dec_digits [] = False"
| "dec_digits [c] = is_digit c"
| "dec_digits (c # d # cs) =
     (is_digit c \<and> (if d = CHR ''_'' then dec_digits cs else dec_digits (d # cs)))"

definition py_int :: "string \<Rightarrow> int result" where
  "py_int s =
     (let t = py_strip s in
      if t \<noteq> [] \<and> hd t = CHR ''-'' then
        (if dec_digits (tl t) then Inr (- int (digits_value (filter is_digit (tl t))))
         else Inl ValueError)
      else if t \<noteq> [] \<and> hd t = CHR ''+'' then
        (if dec_digits (tl t) then Inr (int (digits_value (filter is_digit (tl t))))
         else Inl ValueError)
      else if dec_digits t then Inr (int (digits_value (filter is_digit t)))
      else Inl ValueError)"

definition digit_char :: "nat \<Rightarrow> char" where
  "digit_char n = char_of (48 + n)"

fun show_nat :: "nat \<Rightarrow> string" where
  "show_nat n = (if n < 10 then [digit_char n] else show_nat (n div 10) @ [digit_char (n mod 10)])"

definition zpad :: "nat \<Rightarrow> string \<Rightarrow> string" where
  "zpad w s = replicate (w - length s) CHR ''0'' @ s"

text \<open>\<open>str(i)\<close> of a Python \<open>int\<close>.\<close>

definition py_str_int :: "int \<Rightarrow> string" where
  "py_str_int i = (if i < 0 then CHR ''-'' # show_nat (nat (- i)) else show_nat (nat i))"

text \<open>\<open>repr()\<close> of a \<open>str\<close> and \<open>str()\<close> of a list of them, as an f-string renders
  \<open>{free_dates}\<close>: single quotes unless the text has a single and no double quote;
  backslash, the quote, tab, newline and carriage return escaped, the other control
  characters as \<open>\\xNN\<close> (lower-case hex).\<close>

definition hex_char :: "nat \<Rightarrow> char" where
  "hex_char n = (if n < 10 then digit_char n else char_of (87 + n))"

definition repr_char :: "char \<Rightarrow> char \<Rightarrow> string" where
  "repr_char q c =
     (if c = CHR 0x5C then [CHR 0x5C, CHR 0x5C]
      else if c = q then [CHR 0x5C, q]
      else if c = CHR 0x09 then [CHR 0x5C, CHR ''t'']
      else if c = CHR 0x0A then [CHR 0x5C, CHR ''n'']
      else if c = CHR 0x0D then [CHR 0x5C, CHR ''r'']
      else if of_char c < (32::nat) \<or> of_char c = (127::nat)
      then [CHR 0x5C, CHR ''x'', hex_char (of_char c div 16), hex_char (of_char c mod 16)]
      else [c])"

definition py_repr_str :: "string \<Rightarrow> string" where
  "py_repr_str s =
     (let q = (if CHR 0x27 \<in> set s \<and> CHR 0x22 \<notin> set s then CHR 0x22 else CHR 0x27)
      in q # concat (map (repr_char q) s) @ [q])"

definition py_repr_list :: "string list \<Rightarrow> string" where
  "py_repr_list xs = ''['' @ py_join '', '' (map py_repr_str xs) @ '']''"

declare show_nat.simps [simp del]

subsection \<open>Splitting\<close>

lemma split_when_nonempty [simp]: "split_when P xs \<noteq> []"
  by (induction xs) (auto split: list.split)

lemma split_when_no_sep: "\<not> (\<exists>x \<in> set xs. P x) \<Longrightarrow> split_when P xs = [xs]"
  by (induction xs) auto

lemma split_when_append_sep:
  "P c \<Longrightarrow> split_when P (xs @ c # ys) = split_when P xs @ split_when P ys"
proof (induction xs)
  case Nil
  then show ?case by simp
next
  case (Cons x xs)
  then show ?case
    by (cases "split_when P xs") auto
qed

lemma py_split_no_sep [simp]: "c \<notin> set s \<Longrightarrow> py_split c s = [s]"
  by (auto simp: py_split_def intro: split_when_no_sep)

lemma py_split_append_sep [simp]: "py_split c (xs @ c # ys) = py_split c xs @ py_split c ys"
  by (simp add: py_split_def split_when_append_sep)

lemma py_split_pieces: "w \<in> set (py_split c s) \<Longrightarrow> c \<notin> set w"
proof (induction s arbitrary: w)
  case Nil
  then show ?case by (simp add: py_split_def)
next
  case (Cons x xs)
  then show ?case
    by (auto simp: py_split_def split: if_splits list.splits)
qed

lemma py_join_Cons_hd [simp]: "py_join sep ((x # w) # ws) = x # py_join sep (w # ws)"
  by (cases ws) simp_all

text \<open>Joining the pieces with the separator gives the string back.\<close>

lemma py_split_join: "py_join [c] (py_split c s) = s"
proof (induction s)
  case Nil
  then show ?case by (simp add: py_split_def)
next
  case (Cons x xs)
  show ?case
  proof (cases "x = c")
    case True
    with Cons show ?thesis
      by (cases "py_split c xs") (auto simp: py_split_def)
  next
    case False
    with Cons show ?thesis
      by (cases "py_split c xs") (auto simp: py_split_def)
  qed
qed

subsection \<open>Stripping\<close>

lemma py_strip_Nil [simp]: "py_strip [] = []"
  by (simp add: py_strip_def)

lemma py_strip_fixed:
  "s = [] \<or> (\<not> is_py_space (hd s) \<and> \<not> is_py_space (last s)) \<Longrightarrow> py_strip s = s"
proof (cases "s = []")
  case False
  assume h: "s = [] \<or> (\<not> is_py_space (hd s) \<and> \<not> is_py_space (last s))"
  with False have "dropWhile is_py_space s = s" by (simp add: dropWhile_eq_self_iff)
  moreover from h False have "dropWhile is_py_space (rev s) = rev s"
    by (simp add: dropWhile_eq_self_iff hd_rev)
  ultimately show ?thesis by (simp add: py_strip_def)
qed (simp add: py_strip_def)

lemma py_strip_ends:
  assumes "py_strip s \<noteq> []"
  shows "\<not> is_py_space (hd (py_strip s))" and "\<not> is_py_space (last (py_strip s))"
proof -
  let ?t = "dropWhile is_py_space s"
  let ?u = "dropWhile is_py_space (rev ?t)"
  from assms have u: "?u \<noteq> []" unfolding py_strip_def by (metis Nil_is_rev_conv)
  have t: "?t \<noteq> []"
  proof
    assume "?t = []"
    with u show False by simp
  qed
  have "hd (py_strip s) = last ?u" using u by (simp add: py_strip_def hd_rev)
  also have "\<dots> = last (rev ?t)"
    using u by (metis append_take_drop_id dropWhile_eq_drop last_appendR)
  also have "\<dots> = hd ?t" using t by (simp add: last_rev)
  finally show "\<not> is_py_space (hd (py_strip s))" using t by (simp add: hd_dropWhile)
  have "last (py_strip s) = hd ?u" using u by (simp add: py_strip_def last_rev)
  then show "\<not> is_py_space (last (py_strip s))" using u by (simp add: hd_dropWhile)
qed

lemma py_strip_idem [simp]: "py_strip (py_strip s) = py_strip s"
  using py_strip_ends [of s] by (intro py_strip_fixed) auto

lemma py_strip_concat:
  "\<forall>w \<in> set ws. w \<noteq> [] \<and> py_strip w = w \<Longrightarrow> py_strip (concat ws) = concat ws"
proof (cases ws)
  case (Cons w ws')
  assume h: "\<forall>w \<in> set ws. w \<noteq> [] \<and> py_strip w = w"
  then have hd_ok: "\<not> is_py_space (hd w)" using Cons py_strip_ends(1) [of w] by auto
  obtain vs v where snoc: "ws = vs @ [v]" using Cons by (metis rev_exhaust list.distinct(1))
  with h have last_ok: "\<not> is_py_space (last v)" using py_strip_ends(2) [of v] by auto
  have "hd (concat ws) = hd w" using Cons h by simp
  moreover have "last (concat ws) = last v" using snoc h by simp
  ultimately show ?thesis using hd_ok last_ok by (intro py_strip_fixed) simp
qed (simp add: py_strip_def)


subsection \<open>Digits\<close>

lemma digit_char_lits [simp]:
  "digit_char 0 = CHR ''0''" "digit_char 1 = CHR ''1''" "digit_char (Suc 0) = CHR ''1''"
  "digit_char 2 = CHR ''2''" "digit_char 3 = CHR ''3''" "digit_char 4 = CHR ''4''"
  "digit_char 5 = CHR ''5''" "digit_char 6 = CHR ''6''" "digit_char 7 = CHR ''7''"
  "digit_char 8 = CHR ''8''" "digit_char 9 = CHR ''9''"
  unfolding digit_char_def by code_simp+

lemma is_digit_digit_char [simp]: "n < 10 \<Longrightarrow> is_digit (digit_char n)"
  by (simp add: is_digit_def digit_char_def)

lemma digit_val_digit_char [simp]: "n < 10 \<Longrightarrow> digit_val (digit_char n) = n"
  by (simp add: digit_val_def digit_char_def)

lemma digit_char_not_space [simp]: "n < 10 \<Longrightarrow> \<not> is_py_space (digit_char n)"
  by (simp add: is_py_space_def digit_char_def)

lemma digit_not_space: "is_digit c \<Longrightarrow> \<not> is_py_space c"
  by (simp add: is_py_space_def is_digit_def Let_def)

lemma digit_char_ne_sym [simp]:
  "n < 10 \<Longrightarrow> digit_char n \<noteq> CHR ''-''"
  "n < 10 \<Longrightarrow> digit_char n \<noteq> CHR ''+''"
  "n < 10 \<Longrightarrow> digit_char n \<noteq> CHR ''_''"
  using is_digit_digit_char [of n] by (auto simp: is_digit_def)

lemma digits_value_snoc [simp]: "digits_value (xs @ [c]) = 10 * digits_value xs + digit_val c"
  by (simp add: digits_value_def)

lemma digits_value_zeros [simp]:
  "digits_value (replicate k CHR ''0'' @ s) = digits_value s"
proof -
  have "foldl (\<lambda>acc c. 10 * acc + digit_val c) 0 (replicate k CHR ''0'') = 0"
    by (induction k) (simp_all add: digit_val_def)
  then show ?thesis by (simp add: digits_value_def)
qed

lemma show_nat_digits: "c \<in> set (show_nat n) \<Longrightarrow> is_digit c"
proof (induction n rule: show_nat.induct)
  case (1 n)
  then show ?case
    by (subst (asm) show_nat.simps) (auto split: if_splits)
qed

lemma show_nat_nonempty [simp]: "show_nat n \<noteq> []"
  by (subst show_nat.simps) simp

text \<open>Read-show round trip for decimal numerals.\<close>

lemma digits_value_show_nat [simp]: "digits_value (show_nat n) = n"
proof (induction n rule: show_nat.induct)
  case (1 n)
  then show ?case
    by (subst show_nat.simps) (simp add: digits_value_def)
qed

lemma length_show_nat_le: "n < 10 ^ k \<Longrightarrow> length (show_nat n) \<le> max 1 k"
proof (induction n arbitrary: k rule: show_nat.induct)
  case (1 n)
  show ?case
  proof (cases "n < 10")
    case True
    then show ?thesis by (subst show_nat.simps) simp
  next
    case False
    with "1.prems" have "k \<noteq> 0" by (cases k) auto
    then obtain k' where k: "k = Suc k'" by (cases k) auto
    with "1.prems" have lt: "n div 10 < 10 ^ k'" by simp
    with False have "k' \<noteq> 0" by (cases k') auto
    with False lt "1.IH" [of k'] have "length (show_nat (n div 10)) \<le> k'" by simp
    with False k show ?thesis by (subst show_nat.simps) simp
  qed
qed

lemma dec_digits_all_digits: "s \<noteq> [] \<Longrightarrow> (\<forall>c \<in> set s. is_digit c) \<Longrightarrow> dec_digits s"
proof (induction s rule: dec_digits.induct)
  case (3 c d cs)
  then have "d \<noteq> CHR ''_''" by (auto simp: is_digit_def)
  with 3 show ?case by simp
qed simp_all

lemma py_strip_digits: "(\<forall>c \<in> set s. is_digit c) \<Longrightarrow> py_strip s = s"
proof -
  assume d: "\<forall>c \<in> set s. is_digit c"
  then have "dropWhile is_py_space s = s"
    by (cases s) (auto dest: digit_not_space)
  moreover from d have "dropWhile is_py_space (rev s) = rev s"
    by (cases "rev s") (auto dest: digit_not_space simp: in_set_conv_decomp
        dest!: arg_cong [where f = set])
  ultimately show ?thesis by (simp add: py_strip_def)
qed

text \<open>\<open>int()\<close> of a non-empty string of decimal digits is its value.\<close>

lemma py_int_digits:
  assumes "s \<noteq> []" and "\<forall>c \<in> set s. is_digit c"
  shows "py_int s = Inr (int (digits_value s))"
proof -
  have hd: "hd s \<noteq> CHR ''-'' \<and> hd s \<noteq> CHR ''+''"
    using assms by (cases s) (auto simp: is_digit_def)
  have "filter is_digit s = s" using assms(2) by (simp add: filter_id_conv)
  with assms hd show ?thesis
    by (simp add: py_int_def py_strip_digits dec_digits_all_digits)
qed

text \<open>\<open>int(str(i))\<close> is \<open>i\<close>, for negative \<open>i\<close> too.\<close>

lemma py_int_str_int: "py_int (py_str_int i) = Inr i"
proof (cases "i < 0")
  case False
  have "py_int (show_nat (nat i)) = Inr (int (digits_value (show_nat (nat i))))"
    by (rule py_int_digits) (auto dest: show_nat_digits)
  with False show ?thesis by (simp add: py_str_int_def)
next
  case True
  let ?s = "show_nat (nat (- i))"
  have d: "\<forall>c\<in>set ?s. is_digit c" by (auto dest: show_nat_digits)
  have "last ?s \<in> set ?s" by simp
  with d have "\<not> is_py_space (last (CHR ''-'' # ?s))" by (auto dest: digit_not_space)
  then have strip: "py_strip (CHR ''-'' # ?s) = CHR ''-'' # ?s"
    by (intro py_strip_fixed) (simp add: is_py_space_def)
  have "dec_digits ?s" by (rule dec_digits_all_digits) (simp_all add: d)
  moreover have "filter is_digit ?s = ?s" using d by (simp add: filter_id_conv)
  ultimately show ?thesis using True strip by (simp add: py_str_int_def py_int_def)
qed
lemma zpad_show_nat_digits: "c \<in> set (zpad w (show_nat n)) \<Longrightarrow> is_digit c"
  by (auto simp: zpad_def is_digit_def dest: show_nat_digits)

lemma digits_value_zpad [simp]: "digits_value (zpad w (show_nat n)) = n"
  by (simp add: zpad_def)

lemma zpad_nonempty [simp]: "zpad w (show_nat n) \<noteq> []"
  by (simp add: zpad_def)

lemma length_zpad: "length (show_nat n) \<le> w \<Longrightarrow> length (zpad w (show_nat n)) = w"
  by (simp add: zpad_def)

end
