(* ===== verification/Soup.thy ===== *)
theory Soup
  imports Py_Builtins
begin

text \<open>
  The parsed document as BeautifulSoup (with the \<open>html.parser\<close> builder) hands it to
  the repository: a forest of nodes in document order.  \<open>Tag name attrs children\<close>
  is an element with its attribute list (names lower-cased, one entry per name, as the
  builder's dictionary has them; the value of \<open>class\<close> is the raw attribute text,
  which bs4 splits at whitespace), \<open>Text\<close> a \<open>NavigableString\<close>, \<open>Comment\<close> a
  comment.  Turning the HTTP body into this tree is bs4's and is not modelled.
  \<^item> \<open>descendants\<close>: \<open>.descendants\<close>, every node below, in pre-order;
  \<^item> \<open>find_all_class c\<close>: \<open>soup.find_all(class_=c)\<close> for a class name without
    whitespace: the tags whose class list contains \<open>c\<close>, in document order;
  \<^item> \<open>find_tag\<close>: \<open>soup.find(name, {attr: value})\<close>, the first such tag or \<open>None\<close>;
  \<^item> \<open>tag_getitem\<close>: \<open>tag[key]\<close>, \<open>KeyError\<close> when the attribute is missing;
  \<^item> \<open>get_text_strip\<close>: \<open>tag.get_text(strip=True)\<close>: the text nodes below the tag,
    each stripped, the empty ones dropped, joined with the empty separator.
\<close>

datatype node = Text string | Comment string | Tag string "(string \<times> string) list" "node list"

fun descendants :: "node list \<Rightarrow> node list" where
  "descendants [] = []"
| "descendants (Text s # ns) = Text s # descendants ns"
| "descendants (Comment s # ns) = Comment s # descendants ns"
| "descendants (Tag t attrs cs # ns) = Tag t attrs cs # descendants cs @ descendants ns"

definition has_class :: "string \<Rightarrow> node \<Rightarrow> bool" where
  "has_class c n =
     (case n of
        Tag t attrs cs \<Rightarrow> (case map_of attrs ''class'' of Some v \<Rightarrow> c \<in> set (py_words v) | None \<Rightarrow> False)
      | _ \<Rightarrow> False)"

definition find_all_class :: "string \<Rightarrow> node list \<Rightarrow> node list" where
  "find_all_class c soup = filter (has_class c) (descendants soup)"

definition find_tag :: "string \<Rightarrow> string \<Rightarrow> string \<Rightarrow> node list \<Rightarrow> node option" where
  "find_tag name k v soup =
     find (\<lambda>n. case n of Tag t attrs cs \<Rightarrow> t = name \<and> map_of attrs k = Some v | _ \<Rightarrow> False)
       (descendants soup)"

definition tag_getitem :: "node \<Rightarrow> string \<Rightarrow> string result" where
  "tag_getitem n k =
     (case n of
        Tag t attrs cs \<Rightarrow> (case map_of attrs k of Some v \<Rightarrow> Inr v | None \<Rightarrow> Inl KeyError)
      | _ \<Rightarrow> Inl KeyError)"

definition text_strings :: "node list \<Rightarrow> string list" where
  "text_strings ns = concat (map (\<lambda>n. case n of Text s \<Rightarrow> [s] | _ \<Rightarrow> []) ns)"

definition get_text_strip :: "node \<Rightarrow> string" where
  "get_text_strip n =
     (case n of
        Tag t attrs cs \<Rightarrow> concat (filter (\<lambda>s. s \<noteq> []) (map py_strip (text_strings (descendants cs))))
      | Text s \<Rightarrow> py_strip s
      | Comment s \<Rightarrow> [])"

lemma descendants_append [simp]: "descendants (xs @ ys) = descendants xs @ descendants ys"
  by (induction xs rule: descendants.induct) simp_all

lemma find_all_class_append: "find_all_class c (xs @ ys) = find_all_class c xs @ find_all_class c ys"
  by (simp add: find_all_class_def)

text \<open>\<open>get_text(strip=True)\<close> has no surrounding whitespace.\<close>

lemma get_text_strip_stripped: "py_strip (get_text_strip n) = get_text_strip n"
proof (cases n)
  case (Tag t attrs cs)
  let ?ws = "filter (\<lambda>s. s \<noteq> []) (map py_strip (text_strings (descendants cs)))"
  have "\<forall>w \<in> set ?ws. w \<noteq> [] \<and> py_strip w = w" by auto
  then have "py_strip (concat ?ws) = concat ?ws" by (rule py_strip_concat)
  with Tag show ?thesis by (simp add: get_text_strip_def)
qed (simp_all add: get_text_strip_def)

end
