(* ===== verification/Calendar.thy ===== *)
theory Calendar
  imports Py_Builtins
begin

text \<open>
  The part of CPython's \<open>datetime.date\<close> the repository uses, transcribed from the
  reference implementation (\<open>Lib/datetime.py\<close>, which \<open>_datetimemodule.c\<close>
  follows): the proleptic Gregorian calendar, \<open>date(y, m, d)\<close> with its range checks,
  \<open>toordinal\<close>/\<open>fromordinal\<close> (\<open>_ymd2ord\<close>/\<open>_ord2ymd\<close> with the 400-, 100-
  and 4-year cycles), \<open>date + timedelta(days=i)\<close>, \<open>date - date\<close>, the comparison
  \<open><\<close> on \<open>(year, month, day)\<close> tuples, and \<open>strftime\<close>/\<open>strptime\<close> with the
  format \<open>"%d-%m-%Y"\<close> the repository uses.  The tables keep Python's shape; their
  unused slot 0 holds 0 instead of -1 (the model's numbers are \<open>nat\<close>).
\<close>

record date =
  year :: nat
  month :: nat
  day :: nat

definition MINYEAR :: nat where "MINYEAR = 1"
definition MAXYEAR :: nat where "MAXYEAR = 9999"
definition MAXORDINAL :: nat where "MAXORDINAL = 3652059"

definition DAYS_IN_MONTH :: "nat list" where
  "DAYS_IN_MONTH = [0, 31, 28, 31, 30, 31, 30, 31, 31, 30, 31, 30, 31]"

definition DAYS_BEFORE_MONTH :: "nat list" where
  "DAYS_BEFORE_MONTH = [0, 0, 31, 59, 90, 120, 151, 181, 212, 243, 273, 304, 334]"

definition is_leap :: "nat \<Rightarrow> bool" where
  "is_leap y \<longleftrightarrow> y mod 4 = 0 \<and> (y mod 100 \<noteq> 0 \<or> y mod 400 = 0)"

definition days_in_month :: "nat \<Rightarrow> nat \<Rightarrow> nat" where
  "days_in_month y m = (if m = 2 \<and> is_leap y then 29 else DAYS_IN_MONTH ! m)"

definition days_before_month :: "nat \<Rightarrow> nat \<Rightarrow> nat" where
  "days_before_month y m = DAYS_BEFORE_MONTH ! m + (if m > 2 \<and> is_leap y then 1 else 0)"

definition days_before_year :: "nat \<Rightarrow> nat" where
  "days_before_year y = (let y' = y - 1 in y' * 365 + y' div 4 - y' div 100 + y' div 400)"

definition toordinal :: "date \<Rightarrow> nat" where
  "toordinal d = days_before_year (year d) + days_before_month (year d) (month d) + day d"

definition valid_date :: "date \<Rightarrow> bool" where
  "valid_date d \<longleftrightarrow> MINYEAR \<le> year d \<and> year d \<le> MAXYEAR \<and> 1 \<le> month d \<and> month d \<le> 12 \<and>
     1 \<le> day d \<and> day d \<le> days_in_month (year d) (month d)"

text \<open>\<open>date(year, month, day)\<close>: \<open>_check_date_fields\<close>, one \<open>ValueError\<close> per range.\<close>

definition py_date :: "int \<Rightarrow> int \<Rightarrow> int \<Rightarrow> date result" where
  "py_date y m d =
     (if \<not> (int MINYEAR \<le> y \<and> y \<le> int MAXYEAR) then Inl ValueError
      else if \<not> (1 \<le> m \<and> m \<le> 12) then Inl ValueError
      else if \<not> (1 \<le> d \<and> d \<le> int (days_in_month (nat y) (nat m))) then Inl ValueError
      else Inr \<lparr>year = nat y, month = nat m, day = nat d\<rparr>)"

text \<open>\<open>_ord2ymd\<close>: the ordinal \<open>n\<close> (day 1 is 0001-01-01) back to a date.\<close>

definition fromordinal :: "nat \<Rightarrow> date" where
  "fromordinal n =
     (let n0 = n - 1;
          n400 = n0 div 146097; n1 = n0 mod 146097;
          n100 = n1 div 36524; n2 = n1 mod 36524;
          n4 = n2 div 1461; n3 = n2 mod 1461;
          n1y = n3 div 365; r = n3 mod 365;
          y = n400 * 400 + 1 + n100 * 100 + n4 * 4 + n1y
      in if n1y = 4 \<or> n100 = 4 then \<lparr>year = y - 1, month = 12, day = 31\<rparr>
         else
           (let leapyear = (n1y = 3 \<and> (n4 \<noteq> 24 \<or> n100 = 3));
                mo = drop_bit 5 (r + 50);
                preceding = DAYS_BEFORE_MONTH ! mo + (if mo > 2 \<and> leapyear then 1 else 0)
            in if preceding > r then
                 (let mo' = mo - 1;
                      preceding' = preceding -
                        (DAYS_IN_MONTH ! mo' + (if mo' = 2 \<and> leapyear then 1 else 0))
                  in \<lparr>year = y, month = mo', day = r - preceding' + 1\<rparr>)
               else \<lparr>year = y, month = mo, day = r - preceding + 1\<rparr>))"

text \<open>\<open>date + timedelta(days=i)\<close> and \<open>date - date\<close> (a \<open>timedelta\<close>; the model
  keeps its \<open>.days\<close>).\<close>

definition add_days :: "date \<Rightarrow> int \<Rightarrow> date result" where
  "add_days d i =
     (let ord = int (toordinal d) + i in
      if 0 < ord \<and> ord \<le> int MAXORDINAL then Inr (fromordinal (nat ord)) else Inl OverflowError)"

definition date_sub :: "date \<Rightarrow> date \<Rightarrow> int" where
  "date_sub a b = int (toordinal a) - int (toordinal b)"

text \<open>\<open>date.__lt__\<close>: \<open>_cmp\<close> compares the tuples \<open>(year, month, day)\<close>.\<close>

definition date_less :: "date \<Rightarrow> date \<Rightarrow> bool" where
  "date_less a b \<longleftrightarrow> (year a, month a, day a) < (year b, month b, day b)"

text \<open>\<open>strftime("%d-%m-%Y")\<close>: two-digit day and month; \<open>%Y\<close> is the C library's,
  the year in decimal (glibc pads nothing below 1000).\<close>

definition strftime_dmY :: "date \<Rightarrow> string" where
  "strftime_dmY d =
     zpad 2 (show_nat (day d)) @ ''-'' @ zpad 2 (show_nat (month d)) @ ''-'' @ show_nat (year d)"

text \<open>\<open>strptime(s, "%d-%m-%Y")\<close>: \<open>_strptime\<close> matches the compiled regular expression
  \<^verbatim>\<open>(?P<d>3[0-1]|[1-2]\d|0[1-9]|[1-9]| [1-9])-(?P<m>1[0-2]|0[1-9]|[1-9])-(?P<Y>\d\d\d\d)\<close>
  against a prefix, rejects unconverted trailing data, converts each group with
  \<open>int()\<close> (day, month, year: the groups' order) and builds the date, whose range
  checks reject days past the month's end.  No group contains \<open>-\<close>, so the match is
  exactly a split into three pieces at the dashes.\<close>

definition is_nzdigit :: "char \<Rightarrow> bool" where
  "is_nzdigit c \<longleftrightarrow> is_digit c \<and> c \<noteq> CHR ''0''"

definition re_day :: "string \<Rightarrow> bool" where
  "re_day s =
     (case s of
        [a, b] \<Rightarrow> (a = CHR ''3'' \<and> (b = CHR ''0'' \<or> b = CHR ''1''))
                 \<or> ((a = CHR ''1'' \<or> a = CHR ''2'') \<and> is_digit b)
                 \<or> (a = CHR ''0'' \<and> is_nzdigit b)
                 \<or> (a = CHR '' '' \<and> is_nzdigit b)
      | [a] \<Rightarrow> is_nzdigit a
      | _ \<Rightarrow> False)"

definition re_month :: "string \<Rightarrow> bool" where
  "re_month s =
     (case s of
        [a, b] \<Rightarrow> (a = CHR ''1'' \<and> (b = CHR ''0'' \<or> b = CHR ''1'' \<or> b = CHR ''2''))
                 \<or> (a = CHR ''0'' \<and> is_nzdigit b)
      | [a] \<Rightarrow> is_nzdigit a
      | _ \<Rightarrow> False)"

definition re_year :: "string \<Rightarrow> bool" where
  "re_year s \<longleftrightarrow> length s = 4 \<and> list_all is_digit s"

definition strptime_dmY :: "string \<Rightarrow> date result" where
  "strptime_dmY s =
     (case py_split CHR ''-'' s of
        [ds, ms, ys] \<Rightarrow>
          (if re_day ds \<and> re_month ms \<and> re_year ys then
             ebind (py_int ds) (\<lambda>d. ebind (py_int ms) (\<lambda>m. ebind (py_int ys) (\<lambda>y.
               py_date y m d)))
           else Inl ValueError)
      | _ \<Rightarrow> Inl ValueError)"

subsection \<open>Calendar arithmetic\<close>

lemma div_unique_nat: "r < k \<Longrightarrow> (k * q + r) div k = (q::nat)"
  by simp

lemma mod_unique_nat: "r < k \<Longrightarrow> (k * q + r) mod k = (r::nat)"
  by simp

lemma dby_decomp:
  assumes "b \<le> 3" "c \<le> 24" "d \<le> 3"
  shows "days_before_year (400 * a + 100 * b + 4 * c + d + 1) = 146097 * a + 36524 * b + 1461 * c + 365 * d"
proof -
  let ?y = "400 * a + 100 * b + 4 * c + d"
  have d4: "?y div 4 = 100 * a + 25 * b + c"
  proof -
    have "?y = 4 * (100 * a + 25 * b + c) + d" by simp
    moreover have "d < 4" using assms by simp
    ultimately show ?thesis by (metis div_unique_nat)
  qed
  have d100: "?y div 100 = 4 * a + b"
  proof -
    have "?y = 100 * (4 * a + b) + (4 * c + d)" by simp
    moreover have "4 * c + d < 100" using assms by simp
    ultimately show ?thesis by (metis div_unique_nat)
  qed
  have d400: "?y div 400 = a"
  proof -
    have "?y = 400 * a + (100 * b + 4 * c + d)" by simp
    moreover have "100 * b + 4 * c + d < 400" using assms by simp
    ultimately show ?thesis by (metis div_unique_nat)
  qed
  show ?thesis by (simp add: days_before_year_def d4 d100 d400)
qed

lemma leap_decomp:
  assumes "b \<le> 3" "c \<le> 24" "d \<le> 3"
  shows "is_leap (400 * a + 100 * b + 4 * c + d + 1) \<longleftrightarrow> d = 3 \<and> (c \<noteq> 24 \<or> b = 3)"
proof (cases "d = 3")
  case False
  have "400 * a + 100 * b + 4 * c + d + 1 = 4 * (100 * a + 25 * b + c) + (d + 1)" by simp
  moreover have "d + 1 < 4" using assms False by simp
  ultimately have "(400 * a + 100 * b + 4 * c + d + 1) mod 4 = d + 1" by (metis mod_unique_nat)
  with False show ?thesis by (simp add: is_leap_def)
next
  case d: True
  have m4: "(400 * a + 100 * b + 4 * c + d + 1) mod 4 = 0"
  proof -
    have "400 * a + 100 * b + 4 * c + d + 1 = 4 * (100 * a + 25 * b + c + 1)" using d by simp
    then show ?thesis by simp
  qed
  show ?thesis
  proof (cases "c = 24")
    case False
    have "400 * a + 100 * b + 4 * c + d + 1 = 100 * (4 * a + b) + 4 * (c + 1)" using d by simp
    moreover have "4 * (c + 1) < 100" using assms False by simp
    ultimately have "(400 * a + 100 * b + 4 * c + d + 1) mod 100 = 4 * (c + 1)" by (metis mod_unique_nat)
    with m4 d False show ?thesis by (simp add: is_leap_def)
  next
    case c: True
    have y: "400 * a + 100 * b + 4 * c + d + 1 = 400 * a + 100 * (b + 1)" using c d by simp
    show ?thesis
    proof (cases "b = 3")
      case True
      with y have "400 * a + 100 * b + 4 * c + d + 1 = 400 * (a + 1)" by simp
      with m4 d c True show ?thesis by (simp add: is_leap_def)
    next
      case False
      with assms have "100 * (b + 1) < 400" by simp
      with y have "(400 * a + 100 * b + 4 * c + d + 1) mod 400 = 100 * (b + 1)" by (metis mod_unique_nat)
      with d c False show ?thesis by (simp add: is_leap_def)
    qed
  qed
qed

lemma dby_Suc:
  assumes "1 \<le> y"
  shows "days_before_year (Suc y) = days_before_year y + (if is_leap y then 366 else 365)"
proof -
  from assms obtain x where y: "y = Suc x" by (cases y) auto
  then have x: "y - 1 = x" by simp
  have k: "\<And>k::nat. y div k = x div k + (if y mod k = 0 then 1 else 0)"
    using y by (simp add: div_Suc)
  define A B C where "A = x div 4" and "B = x div 100" and "C = x div 400"
  have le: "B \<le> A" unfolding A_def B_def by (rule div_le_mono2) simp_all
  have m100: "y mod 100 = 0 \<Longrightarrow> y mod 4 = 0"
    using mod_mod_cancel [of 4 100 y] by simp
  have m400: "y mod 400 = 0 \<Longrightarrow> y mod 100 = 0"
    using mod_mod_cancel [of 100 400 y] by simp
  have "days_before_year (Suc y) =
          y * 365 + (A + (if y mod 4 = 0 then 1 else 0)) - (B + (if y mod 100 = 0 then 1 else 0))
          + (C + (if y mod 400 = 0 then 1 else 0))"
    unfolding days_before_year_def Let_def A_def B_def C_def by (simp only: diff_Suc_1 k)
  moreover have "days_before_year y = x * 365 + A - B + C"
    unfolding days_before_year_def Let_def A_def B_def C_def x ..
  ultimately show ?thesis
    using le m100 m400 y unfolding is_leap_def by (simp split: if_splits)
qed

lemma month_estimate:
  fixes r :: nat and leap :: bool
  assumes r: "r < 365"
  defines "mo \<equiv> drop_bit 5 (r + 50)"
  defines "pre \<equiv> DAYS_BEFORE_MONTH ! mo + (if mo > 2 \<and> leap then 1 else 0)"
  defines "mo' \<equiv> (if pre > r then mo - 1 else mo)"
  defines "pre' \<equiv> (if pre > r then pre - (DAYS_IN_MONTH ! mo' + (if mo' = 2 \<and> leap then 1 else 0)) else pre)"
  shows "1 \<le> mo' \<and> mo' \<le> 12 \<and>
        pre' = DAYS_BEFORE_MONTH ! mo' + (if mo' > 2 \<and> leap then 1 else 0) \<and>
        pre' \<le> r \<and> r < pre' + (if mo' = 2 \<and> leap then 29 else DAYS_IN_MONTH ! mo')"
proof -
  have lo: "32 * mo \<le> r + 50" unfolding mo_def drop_bit_eq_div by simp
  have hi: "r + 50 < 32 * mo + 32" unfolding mo_def drop_bit_eq_div by simp
  from lo hi r have "1 \<le> mo" "mo \<le> 12" by simp_all
  then have "mo = 1 \<or> mo = 2 \<or> mo = 3 \<or> mo = 4 \<or> mo = 5 \<or> mo = 6 \<or> mo = 7 \<or>
      mo = 8 \<or> mo = 9 \<or> mo = 10 \<or> mo = 11 \<or> mo = 12"
    by (simp add: le_Suc_eq numeral_eq_Suc)
  then show ?thesis
    using lo hi r unfolding pre'_def mo'_def pre_def
    by (elim disjE; cases leap) (simp_all add: DAYS_BEFORE_MONTH_def DAYS_IN_MONTH_def)
qed


subsection \<open>Ordinals: \<open>fromordinal\<close> inverts \<open>toordinal\<close>\<close>

lemma fromordinal_cycles:
  assumes "1 \<le> n"
  obtains n400 n100 n4 n1 r where
    "n - 1 = 146097 * n400 + 36524 * n100 + 1461 * n4 + 365 * n1 + r"
    "n100 \<le> 4" "n4 \<le> 24" "n1 \<le> 4" "r < 365"
    "n100 = 4 \<Longrightarrow> n4 = 0 \<and> n1 = 0 \<and> r = 0"
    "n1 = 4 \<Longrightarrow> r = 0 \<and> n4 \<le> 23 \<and> n100 \<le> 3"
    "fromordinal n =
       (let y = n400 * 400 + 1 + n100 * 100 + n4 * 4 + n1 in
        if n1 = 4 \<or> n100 = 4 then \<lparr>year = y - 1, month = 12, day = 31\<rparr>
        else
          (let leapyear = (n1 = 3 \<and> (n4 \<noteq> 24 \<or> n100 = 3));
               mo = drop_bit 5 (r + 50);
               preceding = DAYS_BEFORE_MONTH ! mo + (if mo > 2 \<and> leapyear then 1 else 0)
           in if preceding > r then
                (let mo' = mo - 1;
                     preceding' = preceding -
                       (DAYS_IN_MONTH ! mo' + (if mo' = 2 \<and> leapyear then 1 else 0))
                 in \<lparr>year = y, month = mo', day = r - preceding' + 1\<rparr>)
              else \<lparr>year = y, month = mo, day = r - preceding + 1\<rparr>))"
proof -
  define m where "m = n - 1"
  define n400 where "n400 = m div 146097"
  define r400 where "r400 = m mod 146097"
  define n100 where "n100 = r400 div 36524"
  define r100 where "r100 = r400 mod 36524"
  define n4 where "n4 = r100 div 1461"
  define r4 where "r4 = r100 mod 1461"
  define n1 where "n1 = r4 div 365"
  define r where "r = r4 mod 365"
  have e400: "m = 146097 * n400 + r400" and b400: "r400 < 146097"
    unfolding n400_def r400_def by simp_all
  have e100: "r400 = 36524 * n100 + r100" and b100: "r100 < 36524"
    unfolding n100_def r100_def by simp_all
  have e4: "r100 = 1461 * n4 + r4" and b4: "r4 < 1461"
    unfolding n4_def r4_def by simp_all
  have e1: "r4 = 365 * n1 + r" and b1: "r < 365"
    unfolding n1_def r_def by simp_all
  have "n - 1 = 146097 * n400 + 36524 * n100 + 1461 * n4 + 365 * n1 + r"
    using e400 e100 e4 e1 m_def by simp
  moreover have "n100 \<le> 4" using e100 b400 by simp
  moreover have "n4 \<le> 24" using e4 b100 by simp
  moreover have "n1 \<le> 4" using e1 b4 by simp
  moreover note b1
  moreover have "n100 = 4 \<Longrightarrow> n4 = 0 \<and> n1 = 0 \<and> r = 0"
    using e100 b400 e4 e1 by simp
  moreover have "n1 = 4 \<Longrightarrow> r = 0 \<and> n4 \<le> 23 \<and> n100 \<le> 3"
    using e1 b4 e4 b100 e100 b400 by simp
  moreover have "fromordinal n =
       (let y = n400 * 400 + 1 + n100 * 100 + n4 * 4 + n1 in
        if n1 = 4 \<or> n100 = 4 then \<lparr>year = y - 1, month = 12, day = 31\<rparr>
        else
          (let leapyear = (n1 = 3 \<and> (n4 \<noteq> 24 \<or> n100 = 3));
               mo = drop_bit 5 (r + 50);
               preceding = DAYS_BEFORE_MONTH ! mo + (if mo > 2 \<and> leapyear then 1 else 0)
           in if preceding > r then
                (let mo' = mo - 1;
                     preceding' = preceding -
                       (DAYS_IN_MONTH ! mo' + (if mo' = 2 \<and> leapyear then 1 else 0))
                 in \<lparr>year = y, month = mo', day = r - preceding' + 1\<rparr>)
              else \<lparr>year = y, month = mo, day = r - preceding + 1\<rparr>))"
    unfolding fromordinal_def m_def [symmetric] n400_def [symmetric] r400_def [symmetric]
      n100_def [symmetric] r100_def [symmetric] n4_def [symmetric] r4_def [symmetric]
      n1_def [symmetric] r_def [symmetric] Let_def ..
  ultimately show ?thesis by (rule that)
qed

lemma fromordinal_props:
  assumes "1 \<le> n"
  shows "toordinal (fromordinal n) = n \<and> MINYEAR \<le> year (fromordinal n) \<and>
    1 \<le> month (fromordinal n) \<and> month (fromordinal n) \<le> 12 \<and> 1 \<le> day (fromordinal n) \<and>
    day (fromordinal n) \<le> days_in_month (year (fromordinal n)) (month (fromordinal n))"
    (is "?P (fromordinal n)")
proof (rule fromordinal_cycles [OF assms])
  fix n400 n100 n4 n1 r
  assume
    eq: "n - 1 = 146097 * n400 + 36524 * n100 + 1461 * n4 + 365 * n1 + r"
    and b100: "n100 \<le> 4" and b4: "n4 \<le> 24" and b1: "n1 \<le> 4" and br: "r < 365"
    and e100: "n100 = 4 \<Longrightarrow> n4 = 0 \<and> n1 = 0 \<and> r = 0"
    and e1: "n1 = 4 \<Longrightarrow> r = 0 \<and> n4 \<le> 23 \<and> n100 \<le> 3"
    and fo: "fromordinal n =
       (let y = n400 * 400 + 1 + n100 * 100 + n4 * 4 + n1 in
        if n1 = 4 \<or> n100 = 4 then \<lparr>year = y - 1, month = 12, day = 31\<rparr>
        else
          (let leapyear = (n1 = 3 \<and> (n4 \<noteq> 24 \<or> n100 = 3));
               mo = drop_bit 5 (r + 50);
               preceding = DAYS_BEFORE_MONTH ! mo + (if mo > 2 \<and> leapyear then 1 else 0)
           in if preceding > r then
                (let mo' = mo - 1;
                     preceding' = preceding -
                       (DAYS_IN_MONTH ! mo' + (if mo' = 2 \<and> leapyear then 1 else 0))
                 in \<lparr>year = y, month = mo', day = r - preceding' + 1\<rparr>)
              else \<lparr>year = y, month = mo, day = r - preceding + 1\<rparr>))"
  define y where "y = n400 * 400 + 1 + n100 * 100 + n4 * 4 + n1"
  show "?P (fromordinal n)"
  proof (cases "n1 = 4 \<or> n100 = 4")
    case True
    then have d: "fromordinal n = \<lparr>year = y - 1, month = 12, day = 31\<rparr>"
      using fo by (simp add: y_def Let_def)
    from True consider (one) "n1 = 4" | (hundred) "n100 = 4" by blast
    then show ?thesis
    proof cases
      case one
      with e1 have h: "r = 0" "n4 \<le> 23" "n100 \<le> 3" by simp_all
      have y1: "y - 1 = 400 * n400 + 100 * n100 + 4 * n4 + 3 + 1" using one by (simp add: y_def)
      have "days_before_year (y - 1) = 146097 * n400 + 36524 * n100 + 1461 * n4 + 365 * 3"
        unfolding y1 using h by (intro dby_decomp) simp_all
      moreover have "is_leap (y - 1)"
        unfolding y1 using h by (subst leap_decomp) simp_all
      ultimately show ?thesis
        using d eq one h assms
        by (simp add: toordinal_def days_before_month_def DAYS_BEFORE_MONTH_def MINYEAR_def
            days_in_month_def DAYS_IN_MONTH_def y_def)
    next
      case hundred
      with e100 have h: "n4 = 0" "n1 = 0" "r = 0" by simp_all
      have y1: "y - 1 = 400 * n400 + 100 * 3 + 4 * 24 + 3 + 1" using hundred h by (simp add: y_def)
      have "days_before_year (y - 1) = 146097 * n400 + 36524 * 3 + 1461 * 24 + 365 * 3"
        unfolding y1 by (intro dby_decomp) simp_all
      moreover have "is_leap (y - 1)"
        unfolding y1 by (subst leap_decomp) simp_all
      ultimately show ?thesis
        using d eq hundred h assms
        by (simp add: toordinal_def days_before_month_def DAYS_BEFORE_MONTH_def MINYEAR_def
            days_in_month_def DAYS_IN_MONTH_def y_def)
    qed
  next
    case False
    with b1 b100 have s1: "n1 \<le> 3" and s100: "n100 \<le> 3" by auto
    define lp where "lp = (n1 = 3 \<and> (n4 \<noteq> 24 \<or> n100 = 3))"
    define mo where "mo = (drop_bit 5 (r + 50) :: nat)"
    define pre where "pre = DAYS_BEFORE_MONTH ! mo + (if mo > 2 \<and> lp then 1 else 0)"
    define mo' where "mo' = (if pre > r then mo - 1 else mo)"
    define pre' where "pre' = (if pre > r then pre - (DAYS_IN_MONTH ! mo' + (if mo' = 2 \<and> lp then 1 else 0)) else pre)"
    have d: "fromordinal n = \<lparr>year = y, month = mo', day = r - pre' + 1\<rparr>"
      using fo False unfolding y_def lp_def mo_def pre_def mo'_def pre'_def
      by (simp add: Let_def)
    have est: "pre' = DAYS_BEFORE_MONTH ! mo' + (if mo' > 2 \<and> lp then 1 else 0)" "pre' \<le> r"
      "1 \<le> mo'" "mo' \<le> 12" "r < pre' + (if mo' = 2 \<and> lp then 29 else DAYS_IN_MONTH ! mo')"
      using month_estimate [OF br, of lp] unfolding pre'_def mo'_def pre_def mo_def by simp_all
    have y1: "y = 400 * n400 + 100 * n100 + 4 * n4 + n1 + 1" by (simp add: y_def)
    have dby: "days_before_year y = 146097 * n400 + 36524 * n100 + 1461 * n4 + 365 * n1"
      unfolding y1 using s1 s100 b4 by (intro dby_decomp) simp_all
    have leap: "is_leap y = lp"
      unfolding y1 lp_def using s1 s100 b4 by (subst leap_decomp) simp_all
    have t: "toordinal (fromordinal n) = n"
      using d est(1,2) eq assms dby leap by (simp add: toordinal_def days_before_month_def)
    have dim: "days_in_month y mo' = (if mo' = 2 \<and> lp then 29 else DAYS_IN_MONTH ! mo')"
      using leap by (simp add: days_in_month_def)
    have "1 \<le> y" by (simp add: y_def)
    with t d est(2-5) dim show ?thesis by (simp add: MINYEAR_def)
  qed
qed

lemma toordinal_fromordinal: "1 \<le> n \<Longrightarrow> toordinal (fromordinal n) = n"
  using fromordinal_props by blast

lemma month_1_12_cases:
  "1 \<le> m \<Longrightarrow> m \<le> (12::nat) \<Longrightarrow>
    m = 1 \<or> m = 2 \<or> m = 3 \<or> m = 4 \<or> m = 5 \<or> m = 6 \<or> m = 7 \<or> m = 8 \<or> m = 9 \<or> m = 10 \<or> m = 11 \<or> m = 12"
  by (simp add: le_Suc_eq numeral_eq_Suc)

lemma dby_step_le: "days_before_year y \<le> days_before_year (Suc y)"
proof (cases "y = 0")
  case True
  then show ?thesis by (simp add: days_before_year_def)
next
  case False
  then show ?thesis by (simp add: dby_Suc)
qed

lemma dby_mono: "a \<le> b \<Longrightarrow> days_before_year a \<le> days_before_year b"
  by (rule lift_Suc_mono_le [of days_before_year, OF dby_step_le])

lemma dbm_dim_Suc:
  "1 \<le> m \<Longrightarrow> m \<le> 11 \<Longrightarrow>
    days_before_month y m + days_in_month y m = days_before_month y (Suc m)"
  using month_1_12_cases [of m]
  by (auto simp: days_before_month_def days_in_month_def DAYS_BEFORE_MONTH_def DAYS_IN_MONTH_def)

lemma dbm_dim_12: "days_before_month y 12 + days_in_month y 12 = (if is_leap y then 366 else 365)"
  by (simp add: days_before_month_def days_in_month_def DAYS_BEFORE_MONTH_def DAYS_IN_MONTH_def)

lemma dbm_mono: "a \<le> b \<Longrightarrow> b \<le> 12 \<Longrightarrow> days_before_month y a \<le> days_before_month y b"
proof -
  assume ab: "a \<le> b" and b: "b \<le> 12"
  have "DAYS_BEFORE_MONTH ! a \<le> DAYS_BEFORE_MONTH ! b"
    using ab b by (intro sorted_nth_mono) (simp_all add: DAYS_BEFORE_MONTH_def)
  with ab show ?thesis by (auto simp: days_before_month_def)
qed

lemma month_end_le:
  "1 \<le> a \<Longrightarrow> a < b \<Longrightarrow> b \<le> 12 \<Longrightarrow>
    days_before_month y a + days_in_month y a \<le> days_before_month y b"
  by (simp add: dbm_dim_Suc dbm_mono)

lemma year_end_le:
  "1 \<le> m \<Longrightarrow> m \<le> 12 \<Longrightarrow>
    days_before_month y m + days_in_month y m \<le> (if is_leap y then 366 else 365)"
proof (cases "m = 12")
  case True
  then show ?thesis by (simp add: dbm_dim_12)
next
  case False
  assume "1 \<le> m" "m \<le> 12"
  with False have "days_before_month y m + days_in_month y m \<le> days_before_month y 12"
    by (intro month_end_le) simp_all
  also have "\<dots> \<le> days_before_month y 12 + days_in_month y 12" by simp
  finally show ?thesis by (simp add: dbm_dim_12)
qed

lemma toordinal_year_bounds:
  assumes "valid_date d"
  shows "days_before_year (year d) < toordinal d"
    and "toordinal d \<le> days_before_year (Suc (year d))"
proof -
  from assms show "days_before_year (year d) < toordinal d"
    by (simp add: valid_date_def toordinal_def)
  from assms have "days_before_month (year d) (month d) + day d \<le>
      days_before_month (year d) (month d) + days_in_month (year d) (month d)"
    by (simp add: valid_date_def)
  also have "\<dots> \<le> (if is_leap (year d) then 366 else 365)"
    using assms by (intro year_end_le) (simp_all add: valid_date_def)
  finally show "toordinal d \<le> days_before_year (Suc (year d))"
    using assms by (simp add: toordinal_def dby_Suc valid_date_def MINYEAR_def)
qed

text \<open>Python's order on dates, the lexicographic order of the tuples, is the order of
  the ordinals.\<close>

lemma toordinal_strict_mono:
  assumes a: "valid_date a" and b: "valid_date b" and lt: "date_less a b"
  shows "toordinal a < toordinal b"
proof -
  from lt consider (y) "year a < year b"
    | (m) "year a = year b" "month a < month b"
    | (d) "year a = year b" "month a = month b" "day a < day b"
    by (auto simp: date_less_def le_less)
  then show ?thesis
  proof cases
    case y
    have "toordinal a \<le> days_before_year (Suc (year a))" by (rule toordinal_year_bounds(2) [OF a])
    also have "\<dots> \<le> days_before_year (year b)" using y by (intro dby_mono) simp
    also have "\<dots> < toordinal b" by (rule toordinal_year_bounds(1) [OF b])
    finally show ?thesis .
  next
    case m
    have "days_before_month (year a) (month a) + day a \<le>
        days_before_month (year a) (month a) + days_in_month (year a) (month a)"
      using a by (simp add: valid_date_def)
    also have "\<dots> \<le> days_before_month (year a) (month b)"
      using a b m by (intro month_end_le) (simp_all add: valid_date_def)
    finally show ?thesis using m b by (simp add: toordinal_def valid_date_def)
  next
    case d
    then show ?thesis by (simp add: toordinal_def)
  qed
qed

lemma toordinal_inj:
  assumes a: "valid_date a" and b: "valid_date b" and eq: "toordinal a = toordinal b"
  shows "a = b"
proof -
  have "(year a, month a, day a) = (year b, month b, day b)"
  proof (rule ccontr)
    assume ne: "(year a, month a, day a) \<noteq> (year b, month b, day b)"
    then have "date_less a b \<or> date_less b a"
      unfolding date_less_def by (rule neqE) simp_all
    with a b eq show False by (auto dest: toordinal_strict_mono)
  qed
  then show ?thesis by simp
qed

lemma dby_MAXYEAR: "days_before_year (Suc MAXYEAR) = MAXORDINAL"
  by (simp add: days_before_year_def MAXYEAR_def MAXORDINAL_def)

lemma valid_fromordinal:
  assumes "1 \<le> n" and "n \<le> MAXORDINAL"
  shows "valid_date (fromordinal n)"
proof -
  let ?d = "fromordinal n"
  from fromordinal_props [OF assms(1)] have p: "toordinal ?d = n" "MINYEAR \<le> year ?d"
    "1 \<le> month ?d" "month ?d \<le> 12" "1 \<le> day ?d" "day ?d \<le> days_in_month (year ?d) (month ?d)"
    by simp_all
  have "year ?d \<le> MAXYEAR"
  proof (rule ccontr)
    assume "\<not> year ?d \<le> MAXYEAR"
    then have "days_before_year (Suc MAXYEAR) \<le> days_before_year (year ?d)"
      by (intro dby_mono) simp
    also have "\<dots> < toordinal ?d" using p by (simp add: toordinal_def)
    finally show False using p assms by (simp add: dby_MAXYEAR)
  qed
  with p show ?thesis by (simp add: valid_date_def)
qed

lemma toordinal_range:
  assumes "valid_date d"
  shows "1 \<le> toordinal d" and "toordinal d \<le> MAXORDINAL"
proof -
  from assms show "1 \<le> toordinal d" by (simp add: valid_date_def toordinal_def)
  have "toordinal d \<le> days_before_year (Suc (year d))" by (rule toordinal_year_bounds(2) [OF assms])
  also have "\<dots> \<le> days_before_year (Suc MAXYEAR)"
    using assms by (intro dby_mono) (simp add: valid_date_def)
  finally show "toordinal d \<le> MAXORDINAL" by (simp add: dby_MAXYEAR)
qed

text \<open>Round trip: \<open>fromordinal(d.toordinal()) == d\<close> for every date.\<close>

lemma fromordinal_toordinal:
  assumes "valid_date d"
  shows "fromordinal (toordinal d) = d"
proof (rule toordinal_inj)
  show "valid_date (fromordinal (toordinal d))"
    using toordinal_range [OF assms] by (rule valid_fromordinal)
  show "toordinal (fromordinal (toordinal d)) = toordinal d"
    using toordinal_range(1) [OF assms] by (rule toordinal_fromordinal)
qed (rule assms)

lemma date_less_iff_toordinal:
  assumes "valid_date a" and "valid_date b"
  shows "date_less a b \<longleftrightarrow> toordinal a < toordinal b"
proof
  assume "date_less a b"
  with assms show "toordinal a < toordinal b" by (rule toordinal_strict_mono)
next
  assume lt: "toordinal a < toordinal b"
  show "date_less a b"
  proof (rule ccontr)
    assume "\<not> date_less a b"
    then have "a = b \<or> date_less b a"
      by (auto simp: date_less_def not_less le_less)
    with assms lt show False by (auto dest: toordinal_strict_mono)
  qed
qed

lemma add_days_valid:
  assumes "valid_date d" and "0 \<le> i" and "int (toordinal d) + i \<le> int MAXORDINAL"
  shows "\<exists>d'. add_days d i = Inr d' \<and> valid_date d' \<and> int (toordinal d') = int (toordinal d) + i"
proof -
  have pos: "0 < int (toordinal d) + i" using toordinal_range(1) [OF assms(1)] assms(2) by simp
  let ?n = "nat (int (toordinal d) + i)"
  have n: "1 \<le> ?n" "?n \<le> MAXORDINAL" using pos assms(3) by simp_all
  have "add_days d i = Inr (fromordinal ?n)" using pos assms(3) by (simp add: add_days_def)
  moreover have "valid_date (fromordinal ?n)" using n by (rule valid_fromordinal)
  moreover have "int (toordinal (fromordinal ?n)) = int (toordinal d) + i"
    using toordinal_fromordinal [OF n(1)] pos by simp
  ultimately show ?thesis by blast
qed


subsection \<open>\<open>strftime\<close> and \<open>strptime\<close>\<close>

lemma show_nat_lt10: "n < 10 \<Longrightarrow> show_nat n = [digit_char n]"
  by (subst show_nat.simps) simp

lemma show_nat_lt100:
  "10 \<le> n \<Longrightarrow> n < 100 \<Longrightarrow> show_nat n = [digit_char (n div 10), digit_char (n mod 10)]"
  by (subst show_nat.simps) (simp add: show_nat_lt10)

lemma length_show_nat_ge: "10 ^ k \<le> n \<Longrightarrow> k < length (show_nat n)"
proof (induction n arbitrary: k rule: show_nat.induct)
  case (1 n)
  show ?case
  proof (cases k)
    case 0
    then show ?thesis by simp
  next
    case (Suc k')
    with "1.prems" have ge: "10 ^ k' \<le> n div 10"
      by (simp add: less_eq_div_iff_mult_less_eq mult.commute)
    have "(10::nat) \<le> 10 ^ k" using Suc by simp
    with "1.prems" have big: "\<not> n < 10" by linarith
    from "1.IH" [OF big ge] Suc big show ?thesis by (subst show_nat.simps) simp
  qed
qed

lemma digit_char_eq_iff: "a < 10 \<Longrightarrow> b < 10 \<Longrightarrow> digit_char a = digit_char b \<longleftrightarrow> a = b"
  by (metis digit_val_digit_char)

lemma is_nzdigit_digit_char: "n < 10 \<Longrightarrow> 0 < n \<Longrightarrow> is_nzdigit (digit_char n)"
  using digit_char_eq_iff [of n 0] by (simp add: is_nzdigit_def)

lemma re_day_zpad: "1 \<le> k \<Longrightarrow> k \<le> 31 \<Longrightarrow> re_day (zpad 2 (show_nat k))"
proof -
  assume k: "1 \<le> k" "k \<le> 31"
  then consider "k < 10" | "10 \<le> k" "k < 20" | "20 \<le> k" "k < 30" | "k = 30" | "k = 31"
    by linarith
  then show ?thesis
  proof cases
    case 1
    with k show ?thesis
      by (simp add: show_nat_lt10 zpad_def re_day_def is_nzdigit_digit_char)
  next
    case 2
    then have "k div 10 = 1" by (intro div_nat_eqI) simp_all
    with 2 show ?thesis by (simp add: show_nat_lt100 zpad_def re_day_def)
  next
    case 3
    then have "k div 10 = 2" by (intro div_nat_eqI) simp_all
    with 3 show ?thesis by (simp add: show_nat_lt100 zpad_def re_day_def)
  qed (simp_all add: show_nat_lt100 zpad_def re_day_def)
qed

lemma re_month_zpad: "1 \<le> k \<Longrightarrow> k \<le> 12 \<Longrightarrow> re_month (zpad 2 (show_nat k))"
proof -
  assume k: "1 \<le> k" "k \<le> 12"
  then consider "k < 10" | "k = 10" | "k = 11" | "k = 12" by linarith
  then show ?thesis
  proof cases
    case 1
    with k show ?thesis
      by (simp add: show_nat_lt10 zpad_def re_month_def is_nzdigit_digit_char)
  qed (simp_all add: show_nat_lt100 zpad_def re_month_def)
qed

lemma re_year_show_nat: "1000 \<le> y \<Longrightarrow> y \<le> 9999 \<Longrightarrow> re_year (show_nat y)"
proof -
  assume y: "1000 \<le> y" "y \<le> 9999"
  have "3 < length (show_nat y)" using y by (intro length_show_nat_ge) simp
  moreover have "length (show_nat y) \<le> max 1 4" using y by (intro length_show_nat_le) simp
  ultimately show ?thesis
    by (simp add: re_year_def list_all_iff show_nat_digits)
qed

lemma py_date_valid: "valid_date d \<Longrightarrow> py_date (int (year d)) (int (month d)) (int (day d)) = Inr d"
  by (simp add: py_date_def valid_date_def)

lemma py_date_Inr_valid: "py_date y m d = Inr dt \<Longrightarrow> valid_date dt"
  by (auto simp: py_date_def valid_date_def MINYEAR_def MAXYEAR_def split: if_splits)

lemma dash_not_digit: "is_digit c \<Longrightarrow> c \<noteq> CHR ''-''"
  by (auto simp: is_digit_def)

lemma no_dash_zpad: "CHR ''-'' \<notin> set (zpad w (show_nat n))"
  using zpad_show_nat_digits dash_not_digit by blast

lemma no_dash_show_nat: "CHR ''-'' \<notin> set (show_nat n)"
  using show_nat_digits dash_not_digit by blast

lemma py_split_strftime:
  "py_split CHR ''-'' (strftime_dmY d) =
    [zpad 2 (show_nat (day d)), zpad 2 (show_nat (month d)), show_nat (year d)]"
  by (simp add: strftime_dmY_def no_dash_zpad no_dash_show_nat)

lemma py_int_zpad: "py_int (zpad w (show_nat n)) = Inr (int n)"
  by (simp add: py_int_digits zpad_show_nat_digits)

lemma py_int_show_nat: "py_int (show_nat n) = Inr (int n)"
  by (simp add: py_int_digits show_nat_digits)

text \<open>Round trip: \<open>strptime(d.strftime("%d-%m-%Y"), "%d-%m-%Y") == d\<close> for every date
  with a four-digit year.\<close>

lemma strptime_strftime:
  assumes "valid_date d" and "1000 \<le> year d"
  shows "strptime_dmY (strftime_dmY d) = Inr d"
proof -
  from assms have ranges: "1 \<le> day d" "day d \<le> 31" "1 \<le> month d" "month d \<le> 12"
    "year d \<le> 9999"
  proof -
    have "days_in_month (year d) (month d) \<le> 31"
      using assms(1) month_1_12_cases [of "month d"]
      by (auto simp: valid_date_def days_in_month_def DAYS_IN_MONTH_def)
    with assms(1) show "1 \<le> day d" "day d \<le> 31" "1 \<le> month d" "month d \<le> 12" "year d \<le> 9999"
      by (auto simp: valid_date_def MAXYEAR_def)
  qed
  have "re_day (zpad 2 (show_nat (day d)))" using ranges by (intro re_day_zpad)
  moreover have "re_month (zpad 2 (show_nat (month d)))" using ranges by (intro re_month_zpad)
  moreover have "re_year (show_nat (year d))" using ranges assms(2) by (intro re_year_show_nat)
  ultimately show ?thesis
    using assms(1)
    by (simp add: strptime_dmY_def py_split_strftime py_int_zpad py_int_show_nat py_date_valid)
qed

lemma strptime_valid: "strptime_dmY s = Inr d \<Longrightarrow> valid_date d"
  by (auto simp: strptime_dmY_def ebind_eq_Inr split: list.splits if_splits
      intro: py_date_Inr_valid)

end
