(* ===== verification/World.thy ===== *)
theory World
  imports Soup Calendar
begin

text \<open>
  The outside world of the scripts, as the model's explicit state.  Every effect the
  repository has on it is an \<open>event\<close> appended to the \<open>trace\<close>: opening and closing a
  \<open>requests.Session\<close>, a GET or POST through that session, a module-level
  \<open>requests.get\<close> (the notifier's), and \<open>time.sleep\<close>.  What the world answers is
  fixed in advance: \<open>net n\<close> is the reply to the \<open>n\<close>-th HTTP request of the run (a
  response, or a failure that \<open>requests\<close> raises as \<open>RequestException\<close>: connection
  error or the 10 s timeout), and \<open>clock n\<close> the value of the \<open>n\<close>-th
  \<open>date.today()\<close>.  A response carries its status code, the document BeautifulSoup
  builds from its body, and its \<open>Set-Cookie\<close> pairs.

  \<open>'a pyst\<close> is a Python statement sequence over this world: it returns or raises,
  and hands on the world it leaves, so a raise keeps every effect made before it.
  \<open>bindE\<close> is sequencing, \<open>try_except\<close> Python's \<open>try: ... except Exception:\<close>
  (which lets \<open>SystemExit\<close> through), \<open>for_each\<close> a \<open>for\<close> loop over a list,
  \<open>poll\<close> the first rounds of \<open>while True\<close> and \<open>while_true\<close> the whole loop.
  Logging is not modelled: it writes a local file and never affects the rest.
\<close>

datatype event =
    SessionOpen
  | SessionGet string
  | SessionPost string "(string \<times> string) list" "(string \<times> string) list" "(string \<times> string) list"
  | SessionClose
  | HttpGet string
  | Sleep nat

record response =
  status_code :: nat
  resp_text :: "node list"
  set_cookies :: "(string \<times> string) list"

datatype reply = Reply response | Failure

record world =
  net :: "nat \<Rightarrow> reply"
  served :: nat
  clock :: "nat \<Rightarrow> date"
  asked :: nat
  trace :: "event list"

type_synonym 'a pyst = "world \<Rightarrow> 'a result \<times> world"

definition ret :: "'a \<Rightarrow> 'a pyst" where
  "ret a w = (Inr a, w)"

definition raise :: "exc \<Rightarrow> 'a pyst" where
  "raise e w = (Inl e, w)"

definition lift :: "'a result \<Rightarrow> 'a pyst" where
  "lift r w = (r, w)"

definition bindE :: "'a pyst \<Rightarrow> ('a \<Rightarrow> 'b pyst) \<Rightarrow> 'b pyst" where
  "bindE m f w = (case m w of (Inl e, w') \<Rightarrow> (Inl e, w') | (Inr a, w') \<Rightarrow> f a w')"

definition try_except :: "'a pyst \<Rightarrow> (exc \<Rightarrow> 'a pyst) \<Rightarrow> 'a pyst" where
  "try_except m h w =
     (case m w of (Inl e, w') \<Rightarrow> if is_exception e then h e w' else (Inl e, w') | r \<Rightarrow> r)"

fun for_each :: "('a \<Rightarrow> unit pyst) \<Rightarrow> 'a list \<Rightarrow> unit pyst" where
  "for_each f [] = ret ()"
| "for_each f (x # xs) = bindE (f x) (\<lambda>_. for_each f xs)"

text \<open>\<open>while True: body\<close>, run for \<open>k\<close> rounds: the program never leaves the loop
  normally, so a model of it is the prefix of its run that \<open>k\<close> rounds make.\<close>

fun poll :: "nat \<Rightarrow> unit pyst \<Rightarrow> unit pyst" where
  "poll 0 body = ret ()"
| "poll (Suc k) body = bindE body (\<lambda>_. poll k body)"

text \<open>\<open>while True: body\<close> itself: it leaves the loop only through an exception of a
  round, \<open>Some (e, w')\<close>; \<open>None\<close> is a run that never leaves it.\<close>

partial_function (option) while_true :: "unit pyst \<Rightarrow> world \<Rightarrow> (exc \<times> world) option" where
  "while_true body w =
     (case body w of
        (Inl e, w') \<Rightarrow> Some (e, w')
      | (Inr _, w') \<Rightarrow> while_true body w')"

definition emit :: "event \<Rightarrow> world \<Rightarrow> world" where
  "emit ev w = w\<lparr>trace := trace w @ [ev]\<rparr>"

text \<open>One HTTP exchange: the request is on the wire (in the trace) whatever the answer.\<close>

definition http :: "event \<Rightarrow> response pyst" where
  "http ev w =
     (let w' = (emit ev w)\<lparr>served := Suc (served w)\<rparr> in
      case net w (served w) of Reply r \<Rightarrow> (Inr r, w') | Failure \<Rightarrow> (Inl RequestException, w'))"

definition py_sleep :: "nat \<Rightarrow> unit pyst" where
  "py_sleep n w = (Inr (), emit (Sleep n) w)"

definition date_today :: "date pyst" where
  "date_today w = (Inr (clock w (asked w)), w\<lparr>asked := Suc (asked w)\<rparr>)"

subsection \<open>Running statements\<close>

named_theorems run_simps "evaluation of statements on a world"

lemma ret_run [run_simps]: "ret a w = (Inr a, w)"
  by (simp add: ret_def)

lemma raise_run [run_simps]: "raise e w = (Inl e, w)"
  by (simp add: raise_def)

lemma lift_run [run_simps]: "lift r w = (r, w)"
  by (simp add: lift_def)

lemma bindE_Inr [run_simps]: "m w = (Inr a, w') \<Longrightarrow> bindE m f w = f a w'"
  by (simp add: bindE_def)

lemma bindE_Inl [run_simps]: "m w = (Inl e, w') \<Longrightarrow> bindE m f w = (Inl e, w')"
  by (simp add: bindE_def)

lemma bindE_ret [simp]: "bindE (ret a) f = f a"
  by (simp add: bindE_def ret_def raise_def lift_def fun_eq_iff)

lemma bindE_raise [simp]: "bindE (raise e) f = raise e"
  by (simp add: bindE_def ret_def raise_def lift_def fun_eq_iff)

lemma bindE_lift_Inr [simp]: "bindE (lift (Inr a)) f = f a"
  by (simp add: bindE_def ret_def raise_def lift_def fun_eq_iff)

lemma bindE_lift_Inl [simp]: "bindE (lift (Inl e)) f = raise e"
  by (simp add: bindE_def ret_def raise_def lift_def fun_eq_iff)

lemma bindE_assoc: "bindE (bindE m f) g = bindE m (\<lambda>a. bindE (f a) g)"
  by (simp add: bindE_def fun_eq_iff split: prod.splits sum.splits)

lemma bindE_cases:
  assumes "bindE m f w = (r, w'')"
  obtains e w' where "m w = (Inl e, w')" "r = Inl e" "w'' = w'"
    | a w' where "m w = (Inr a, w')" "f a w' = (r, w'')"
  using assms by (cases "m w" rule: prod.exhaust) (auto simp: bindE_def split: sum.splits)

lemma try_except_Inr [run_simps]: "m w = (Inr a, w') \<Longrightarrow> try_except m h w = (Inr a, w')"
  by (simp add: try_except_def)

lemma try_except_catch [run_simps]:
  "m w = (Inl e, w') \<Longrightarrow> e \<noteq> SystemExit \<Longrightarrow> try_except m h w = h e w'"
  by (simp add: try_except_def is_exception_def)

lemma try_except_exit [run_simps]:
  "m w = (Inl SystemExit, w') \<Longrightarrow> try_except m h w = (Inl SystemExit, w')"
  by (simp add: try_except_def is_exception_def)

lemma emit_fields [simp]:
  "trace (emit ev w) = trace w @ [ev]" "net (emit ev w) = net w" "served (emit ev w) = served w"
  "clock (emit ev w) = clock w" "asked (emit ev w) = asked w"
  by (simp_all add: emit_def)

lemma http_reply [run_simps]:
  "net w (served w) = Reply r \<Longrightarrow>
   http ev w = (Inr r, (emit ev w)\<lparr>served := Suc (served w)\<rparr>)"
  by (simp add: http_def)

lemma http_failure [run_simps]:
  "net w (served w) = Failure \<Longrightarrow>
   http ev w = (Inl RequestException, (emit ev w)\<lparr>served := Suc (served w)\<rparr>)"
  by (simp add: http_def)

lemma http_exc: "http ev w = (Inl e, w') \<Longrightarrow> e = RequestException"
  by (auto simp: http_def Let_def split: reply.splits)

lemma for_each_append:
  "for_each f (xs @ ys) = bindE (for_each f xs) (\<lambda>_. for_each f ys)"
  by (induction xs) (simp_all add: bindE_assoc)

text \<open>A loop whose every round, from a world in the invariant \<open>P\<close>, returns and adds
  the same events and advances the oracles by the same amounts.\<close>

lemma poll_steady:
  assumes step: "\<And>v. P v \<Longrightarrow>
      body v = (Inr (), v\<lparr>trace := trace v @ evs, served := served v + c, asked := asked v + d\<rparr>)"
    and inv: "\<And>v. P v \<Longrightarrow> P (v\<lparr>trace := trace v @ evs, served := served v + c, asked := asked v + d\<rparr>)"
    and "P w"
  shows "poll k body w =
    (Inr (), w\<lparr>trace := trace w @ concat (replicate k evs), served := served w + k * c,
                asked := asked w + k * d\<rparr>)"
  using assms(3)
proof (induction k arbitrary: w)
  case 0
  then show ?case by (simp add: ret_def)
next
  case (Suc k)
  let ?v = "w\<lparr>trace := trace w @ evs, served := served w + c, asked := asked w + d\<rparr>"
  have "poll (Suc k) body w = poll k body ?v"
    using step [OF Suc.prems] by (simp add: bindE_def)
  also have "\<dots> = (Inr (), ?v\<lparr>trace := trace ?v @ concat (replicate k evs), served := served ?v + k * c,
                asked := asked ?v + k * d\<rparr>)"
    using Suc.IH [OF inv [OF Suc.prems]] .
  finally show ?case by (simp add: algebra_simps)
qed

text \<open>The fuel model is exact: the loop leaves with \<open>e\<close> exactly when some number of
  rounds raises \<open>e\<close>, and it never leaves exactly when every number of rounds returns.\<close>

lemma poll_Inl_while_true:
  "poll k body w = (Inl e, w') \<Longrightarrow> while_true body w = Some (e, w')"
proof (induction k arbitrary: w)
  case 0
  then show ?case by (simp add: ret_def)
next
  case (Suc k)
  show ?case
  proof (cases "body w")
    case (Pair r v)
    with Suc show ?thesis
      by (cases r) (auto simp: bindE_def while_true.simps)
  qed
qed

lemma while_true_poll_Inl:
  assumes "while_true body w = Some (e, w')"
  shows "\<exists>k. poll k body w = (Inl e, w')"
proof (rule while_true.raw_induct [where P = "\<lambda>body w r. \<exists>k. poll k body w = (Inl (fst r), snd r)",
      OF _ assms, simplified])
  fix f :: "unit pyst \<Rightarrow> world \<Rightarrow> (exc \<times> world) option" and body w r
  assume IH: "\<And>body w r. f body w = Some r \<Longrightarrow> \<exists>k. poll k body w = (Inl (fst r), snd r)"
    and eq: "(case body w of (Inl e, w') \<Rightarrow> Some (e, w') | (Inr _, w') \<Rightarrow> f body w') = Some r"
  show "\<exists>k. poll k body w = (Inl (fst r), snd r)"
  proof (cases "body w")
    case (Pair x v)
    show ?thesis
    proof (cases x)
      case (Inl e)
      with Pair eq have "poll (Suc 0) body w = (Inl (fst r), snd r)" by (auto simp: bindE_def)
      then show ?thesis ..
    next
      case (Inr u)
      with Pair eq have "f body v = Some r" by simp
      then obtain k where "poll k body v = (Inl (fst r), snd r)" using IH by blast
      with Pair Inr have "poll (Suc k) body w = (Inl (fst r), snd r)" by (simp add: bindE_def)
      then show ?thesis ..
    qed
  qed
qed

lemma while_true_Some_iff: "while_true body w = Some (e, w') \<longleftrightarrow> (\<exists>k. poll k body w = (Inl e, w'))"
  using poll_Inl_while_true while_true_poll_Inl by blast

lemma while_true_None_iff: "while_true body w = None \<longleftrightarrow> (\<forall>k. \<not> isl (fst (poll k body w)))"
proof
  assume n: "while_true body w = None"
  show "\<forall>k. \<not> isl (fst (poll k body w))"
  proof
    fix k
    show "\<not> isl (fst (poll k body w))"
    proof (cases "poll k body w")
      case (Pair x v)
      with n poll_Inl_while_true [of k body w _ v] show ?thesis by (cases x) auto
    qed
  qed
next
  assume a: "\<forall>k. \<not> isl (fst (poll k body w))"
  show "while_true body w = None"
  proof (rule ccontr)
    assume "while_true body w \<noteq> None"
    then obtain e w' where "while_true body w = Some (e, w')" by auto
    with while_true_poll_Inl obtain k where "poll k body w = (Inl e, w')" by blast
    with a show False by (metis fst_conv sum.disc(1))
  qed
qed

subsection \<open>Counting effects\<close>

text \<open>\<open>costs m a b\<close>: from any world, \<open>m\<close> sends at most \<open>a\<close> HTTP requests and adds at
  most \<open>b\<close> events to the trace, whether it returns or raises.\<close>

definition costs :: "'a pyst \<Rightarrow> nat \<Rightarrow> nat \<Rightarrow> bool" where
  "costs m a b \<longleftrightarrow> (\<forall>w. served (snd (m w)) \<le> served w + a \<and> length (trace (snd (m w))) \<le> length (trace w) + b)"

named_theorems costs_intros "bounds on the effects of statements"

lemma costs_ret [costs_intros]: "costs (ret x) 0 0"
  and costs_raise [costs_intros]: "costs (raise e) 0 0"
  and costs_lift [costs_intros]: "costs (lift r) 0 0"
  and costs_http [costs_intros]: "costs (http ev) 1 1"
  and costs_sleep [costs_intros]: "costs (py_sleep n) 0 1"
  by (auto simp: costs_def ret_def raise_def lift_def http_def py_sleep_def emit_def Let_def
      split: reply.splits)

lemma costs_mono: "costs m a b \<Longrightarrow> a \<le> a' \<Longrightarrow> b \<le> b' \<Longrightarrow> costs m a' b'"
  unfolding costs_def by (meson add_le_mono order_refl order_trans)

lemma costs_bindE [costs_intros]:
  assumes m: "costs m a b" and f: "\<And>x. costs (f x) c d"
  shows "costs (bindE m f) (a + c) (b + d)"
  unfolding costs_def
proof
  fix w
  obtain r w1 where mw: "m w = (r, w1)" by fastforce
  from m mw have 1: "served w1 \<le> served w + a \<and> length (trace w1) \<le> length (trace w) + b"
    unfolding costs_def by (metis snd_conv)
  show "served (snd (bindE m f w)) \<le> served w + (a + c) \<and>
      length (trace (snd (bindE m f w))) \<le> length (trace w) + (b + d)"
  proof (cases r)
    case (Inl e)
    with mw 1 show ?thesis by (simp add: bindE_def)
  next
    case (Inr x)
    from f [of x] have "served (snd (f x w1)) \<le> served w1 + c \<and>
        length (trace (snd (f x w1))) \<le> length (trace w1) + d"
      unfolding costs_def by blast
    with Inr mw 1 show ?thesis by (simp add: bindE_def)
  qed
qed

lemma costs_if [costs_intros]: "costs x a b \<Longrightarrow> costs y a b \<Longrightarrow> costs (if c then x else y) a b"
  by simp

end
