(* ===== verification/Requester.thy ===== *)
theory Requester
  imports World "HOL-Library.AList"
begin

text \<open>
  \<open>IDataRequester\<close> (\<open>src/core/idata_requester.py\<close>): one \<open>requests.Session\<close> against
  the booking site with its two anti-forgery tokens.  The object's state is the record
  \<open>requester\<close>: the session's cookie jar (an association list, updated as
  \<open>requests\<close> stores every \<open>Set-Cookie\<close> of a response, by name), and the two tokens
  \<open>__init__\<close> keeps.  \<open>receive_tokens\<close> is the GET of the appointment form with its
  two \<open>exit()\<close> guards; \<open>requester_init\<close> is \<open>__init__\<close>; \<open>with_requester body\<close> is
  \<open>with IDataRequester() as requester: body\<close>, whose \<open>__exit__\<close> closes the session
  on a return and on a raise alike.  The four \<open>post_*\<close> methods build their form data
  with \<open>str()\<close> of the integer ids and return \<open>response.text\<close>, here the document it
  parses to.  Each operation returns the updated object with its result.
\<close>

definition URL_APPOINTMENT_FORM :: string where
  "URL_APPOINTMENT_FORM = ''https://deu-schengen.idata.com.tr/tr/appointment-form''"

definition URL_GET_CALENDER_STATUS :: string where
  "URL_GET_CALENDER_STATUS = ''https://deu-schengen.idata.com.tr/tr/getcalendarstatus''"

definition URL_PASSPORT_CONTROL :: string where
  "URL_PASSPORT_CONTROL = ''https://deu-schengen.idata.com.tr/tr/personal/passport-control''"

definition URL_GET_DATE :: string where
  "URL_GET_DATE = ''https://deu-schengen.idata.com.tr/tr/getdate''"

definition URL_SEND_DATE :: string where
  "URL_SEND_DATE = ''https://deu-schengen.idata.com.tr/tr/senddate''"

record requester =
  jar :: "(string \<times> string) list"
  xsrf_token :: "string option"
  x_csrf_token :: string

text \<open>What \<open>requests\<close> does with the cookies of a response: each one stored by name,
  a later one of the same name replacing an earlier one.\<close>

definition store_cookies :: "(string \<times> string) list \<Rightarrow> (string \<times> string) list \<Rightarrow> (string \<times> string) list" where
  "store_cookies j cs = fold (\<lambda>(k, v). AList.update k v) cs j"

definition session_open :: "unit pyst" where
  "session_open w = (Inr (), emit SessionOpen w)"

definition session_close :: "unit pyst" where
  "session_close w = (Inr (), emit SessionClose w)"

definition receive_tokens :: "requester \<Rightarrow> (requester \<times> string option \<times> string) pyst" where
  "receive_tokens rq =
     bindE (http (SessionGet URL_APPOINTMENT_FORM)) (\<lambda>response.
       let rq = rq\<lparr>jar := store_cookies (jar rq) (set_cookies response)\<rparr> in
       if status_code response \<noteq> 200 then raise SystemExit
       else
         let xsrf = map_of (jar rq) ''XSRF-TOKEN'';
             csrf_meta = find_tag ''meta'' ''name'' ''csrf-token'' (resp_text response)
         in case csrf_meta of
              None \<Rightarrow> raise SystemExit
            | Some meta \<Rightarrow>
                bindE (lift (tag_getitem meta ''content'')) (\<lambda>x_csrf.
                  ret (rq\<lparr>jar := AList.update ''visited'' ''yes''
                                   (AList.update ''c_policy'' ''ok'' (jar rq))\<rparr>,
                       xsrf, x_csrf)))"

definition requester_init :: "requester pyst" where
  "requester_init =
     bindE session_open (\<lambda>_.
       bindE (receive_tokens \<lparr>jar = [], xsrf_token = None, x_csrf_token = []\<rparr>) (\<lambda>(rq, xsrf, x_csrf).
         ret (rq\<lparr>xsrf_token := xsrf, x_csrf_token := x_csrf\<rparr>)))"

definition with_requester :: "(requester \<Rightarrow> (requester \<times> 'a) pyst) \<Rightarrow> 'a pyst" where
  "with_requester body =
     bindE requester_init (\<lambda>rq w.
       (case body rq w of
          (Inl e, w') \<Rightarrow> (Inl e, snd (session_close w'))
        | (Inr (rq', a), w') \<Rightarrow> (Inr a, snd (session_close w'))))"

definition get_headers :: "requester \<Rightarrow> (string \<times> string) list" where
  "get_headers rq =
     [(''User-Agent'', ''Mozilla/5.0 (Macintosh; Intel Mac OS X 10.15; rv:109.0)''),
      (''Accept'', ''*/*''),
      (''Accept-Language'', ''tr,en-US;q=0.7,en;q=0.3''),
      (''Content-Type'', ''application/x-www-form-urlencoded; charset=UTF-8''),
      (''X-CSRF-TOKEN'', x_csrf_token rq),
      (''X-Requested-With'', ''XMLHttpRequest''),
      (''Sec-Fetch-Dest'', ''empty''),
      (''Sec-Fetch-Mode'', ''cors''),
      (''Sec-Fetch-Site'', ''same-origin'')]"

definition post_request ::
  "requester \<Rightarrow> string \<Rightarrow> (string \<times> string) list \<Rightarrow> (requester \<times> response) pyst" where
  "post_request rq url data =
     bindE (http (SessionPost url (get_headers rq) data (jar rq))) (\<lambda>response.
       ret (rq\<lparr>jar := store_cookies (jar rq) (set_cookies response)\<rparr>, response))"

definition post_getcalenderstatus :: "requester \<Rightarrow> int \<Rightarrow> int \<Rightarrow> int \<Rightarrow> (requester \<times> node list) pyst" where
  "post_getcalenderstatus rq visa_office_id service_type_id visa_country_id =
     (let data = [(''getvisaofficeid'', py_str_int visa_office_id),
                  (''getservicetypeid'', py_str_int service_type_id),
                  (''getvisacountryid'', py_str_int visa_country_id)]
      in bindE (post_request rq URL_GET_CALENDER_STATUS data) (\<lambda>(rq', response).
           ret (rq', resp_text response)))"

definition post_passaport_control :: "requester \<Rightarrow> string \<Rightarrow> int \<Rightarrow> (requester \<times> node list) pyst" where
  "post_passaport_control rq passport country_id =
     (let data = [(''passport[]'', passport), (''country_id'', py_str_int country_id)]
      in bindE (post_request rq URL_PASSPORT_CONTROL data) (\<lambda>(rq', response).
           ret (rq', resp_text response)))"

definition getdate_data :: "int \<Rightarrow> int \<Rightarrow> int \<Rightarrow> int \<Rightarrow> int \<Rightarrow> (string \<times> string) list" where
  "getdate_data consular_id exit_id service_type_id calendar_type total_person =
     [(''consularid'', py_str_int consular_id),
      (''exitid'', py_str_int exit_id),
      (''servicetypeid'', py_str_int service_type_id),
      (''calendarType'', py_str_int calendar_type),
      (''totalperson'', py_str_int total_person)]"

definition post_getdate :: "requester \<Rightarrow> int \<Rightarrow> int \<Rightarrow> int \<Rightarrow> int \<Rightarrow> int \<Rightarrow> (requester \<times> node list) pyst" where
  "post_getdate rq consular_id exit_id service_type_id calendar_type total_person =
     bindE (post_request rq URL_GET_DATE
              (getdate_data consular_id exit_id service_type_id calendar_type total_person))
       (\<lambda>(rq', response). ret (rq', resp_text response))"

definition senddate_data ::
  "string \<Rightarrow> int \<Rightarrow> int \<Rightarrow> int \<Rightarrow> int \<Rightarrow> int \<Rightarrow> string \<Rightarrow> (string \<times> string) list" where
  "senddate_data full_date total_person set_new_consular_id set_new_exit_office_id calendar_type
     set_new_service_type_id personal_info =
     [(''fulldate'', full_date),
      (''totalperson'', py_str_int total_person),
      (''set_new_consular_id'', py_str_int set_new_consular_id),
      (''set_new_exit_office_id'', py_str_int set_new_exit_office_id),
      (''calendarType'', py_str_int calendar_type),
      (''set_new_service_type_id'', py_str_int set_new_service_type_id),
      (''personalinfo'', personal_info)]"

definition post_senddate ::
  "requester \<Rightarrow> string \<Rightarrow> int \<Rightarrow> int \<Rightarrow> int \<Rightarrow> int \<Rightarrow> int \<Rightarrow> string \<Rightarrow> (requester \<times> node list) pyst" where
  "post_senddate rq full_date total_person set_new_consular_id set_new_exit_office_id calendar_type
     set_new_service_type_id personal_info =
     bindE (post_request rq URL_SEND_DATE
              (senddate_data full_date total_person set_new_consular_id set_new_exit_office_id
                 calendar_type set_new_service_type_id personal_info))
       (\<lambda>(rq', response). ret (rq', resp_text response))"

text \<open>The anti-forgery token the form page carries, as \<open>receive_tokens\<close> reads it:
  \<open>SystemExit\<close> when there is no \<open>meta\<close> tag, \<open>KeyError\<close> when it has no content.\<close>

definition csrf_of :: "node list \<Rightarrow> string result" where
  "csrf_of doc =
     (case find_tag ''meta'' ''name'' ''csrf-token'' doc of
        None \<Rightarrow> Inl SystemExit
      | Some meta \<Rightarrow> tag_getitem meta ''content'')"

text \<open>The session a successful \<open>__init__\<close> leaves: the cookies of the form page plus
  the two consent cookies.\<close>

definition init_requester :: "response \<Rightarrow> string \<Rightarrow> requester" where
  "init_requester r tok =
     (let j = store_cookies [] (set_cookies r) in
      \<lparr>jar = AList.update ''visited'' ''yes'' (AList.update ''c_policy'' ''ok'' j),
       xsrf_token = map_of j ''XSRF-TOKEN'', x_csrf_token = tok\<rparr>)"

subsection \<open>Running the requester\<close>

lemma map_of_store_cookies: "map_of (store_cookies j cs) = map_of j ++ map_of (rev cs)"
proof (induction cs arbitrary: j)
  case Nil
  then show ?case by (simp add: store_cookies_def)
next
  case (Cons c cs)
  obtain k v where c: "c = (k, v)" by fastforce
  from Cons [of "AList.update k v j"] c show ?case
    by (simp add: store_cookies_def update_conv' map_add_def fun_eq_iff split: option.splits)
qed

lemma x_csrf_token_init [simp]: "x_csrf_token (init_requester r tok) = tok"
  by (simp add: init_requester_def Let_def)

lemma jar_consent: "map_of (jar (init_requester r tok)) ''c_policy'' = Some ''ok''"
  "map_of (jar (init_requester r tok)) ''visited'' = Some ''yes''"
  by (simp_all add: init_requester_def Let_def update_conv')

text \<open>\<open>__init__\<close> on every branch: the session is opened and the form page fetched,
  then \<open>RequestException\<close>, the two \<open>exit()\<close>s, the \<open>KeyError\<close> of a tag without
  content, or the initialised object.\<close>

lemma requester_init_eq:
  "requester_init w =
     (case net w (served w) of
        Failure \<Rightarrow> Inl RequestException
      | Reply r \<Rightarrow> if status_code r \<noteq> 200 then Inl SystemExit
                   else map_sum id (init_requester r) (csrf_of (resp_text r)),
      w\<lparr>trace := trace w @ [SessionOpen, SessionGet URL_APPOINTMENT_FORM], served := Suc (served w)\<rparr>)"
proof (cases "net w (served w)")
  case Failure
  then show ?thesis
    by (simp add: requester_init_def session_open_def receive_tokens_def bindE_def http_def emit_def)
next
  case (Reply r)
  show ?thesis
  proof (cases "status_code r = 200")
    case False
    with Reply show ?thesis
      by (simp add: requester_init_def session_open_def receive_tokens_def bindE_def http_def emit_def
          raise_def Let_def)
  next
    case True
    with Reply show ?thesis
      by (simp add: requester_init_def session_open_def receive_tokens_def bindE_def http_def emit_def
          raise_def ret_def lift_def Let_def csrf_of_def init_requester_def
          split: option.split sum.split)
  qed
qed

lemma requester_init_ok [run_simps]:
  assumes "net w (served w) = Reply r" and "status_code r = 200" and "csrf_of (resp_text r) = Inr tok"
  shows "requester_init w =
    (Inr (init_requester r tok),
     w\<lparr>trace := trace w @ [SessionOpen, SessionGet URL_APPOINTMENT_FORM], served := Suc (served w)\<rparr>)"
  using assms by (simp add: requester_init_eq)

lemma requester_init_raise:
  assumes "requester_init w = (Inl e, w')"
  shows "w' = w\<lparr>trace := trace w @ [SessionOpen, SessionGet URL_APPOINTMENT_FORM], served := Suc (served w)\<rparr> \<and>
    (e = RequestException \<and> net w (served w) = Failure \<or>
     (\<exists>r. net w (served w) = Reply r \<and>
        (if status_code r \<noteq> 200 then e = SystemExit else csrf_of (resp_text r) = Inl e)))"
  using assms
  by (auto simp: requester_init_eq map_sum_def split: reply.splits if_splits sum.splits)

lemma with_requester_init_raise [run_simps]:
  "requester_init w = (Inl e, w') \<Longrightarrow> with_requester body w = (Inl e, w')"
  by (simp add: with_requester_def bindE_def)

lemma with_requester_run [run_simps]:
  "requester_init w = (Inr rq, w1) \<Longrightarrow> body rq w1 = (r, w2) \<Longrightarrow>
   with_requester body w = (map_sum id snd r, emit SessionClose w2)"
  by (cases r) (auto simp: with_requester_def bindE_def session_close_def)

lemma with_requester_eq:
  "requester_init w = (Inr rq, w1) \<Longrightarrow>
   with_requester body w = (case body rq w1 of (r, w2) \<Rightarrow> (map_sum id snd r, emit SessionClose w2))"
  by (cases "body rq w1") (simp add: with_requester_run)

lemma post_request_ok [run_simps]:
  "net w (served w) = Reply r \<Longrightarrow>
   post_request rq url data w =
     (Inr (rq\<lparr>jar := store_cookies (jar rq) (set_cookies r)\<rparr>, r),
      w\<lparr>trace := trace w @ [SessionPost url (get_headers rq) data (jar rq)], served := Suc (served w)\<rparr>)"
  by (simp add: post_request_def bindE_def ret_def http_def emit_def)

lemma post_request_fail [run_simps]:
  "net w (served w) = Failure \<Longrightarrow>
   post_request rq url data w =
     (Inl RequestException,
      w\<lparr>trace := trace w @ [SessionPost url (get_headers rq) data (jar rq)], served := Suc (served w)\<rparr>)"
  by (simp add: post_request_def bindE_def ret_def http_def emit_def)

lemma post_getdate_run [run_simps]:
  "post_getdate rq c e s t p w =
     (case post_request rq URL_GET_DATE (getdate_data c e s t p) w of
        (Inl ex, w') \<Rightarrow> (Inl ex, w') | (Inr (rq', r), w') \<Rightarrow> (Inr (rq', resp_text r), w'))"
  by (simp add: post_getdate_def bindE_def ret_def split: prod.splits sum.splits)

lemma post_senddate_run [run_simps]:
  "post_senddate rq d t c e k s p w =
     (case post_request rq URL_SEND_DATE (senddate_data d t c e k s p) w of
        (Inl ex, w') \<Rightarrow> (Inl ex, w') | (Inr (rq', r), w') \<Rightarrow> (Inr (rq', resp_text r), w'))"
  by (simp add: post_senddate_def bindE_def ret_def split: prod.splits sum.splits)

lemma post_getcalenderstatus_run [run_simps]:
  "post_getcalenderstatus rq a b c w =
     (case post_request rq URL_GET_CALENDER_STATUS
             [(''getvisaofficeid'', py_str_int a), (''getservicetypeid'', py_str_int b),
              (''getvisacountryid'', py_str_int c)] w of
        (Inl ex, w') \<Rightarrow> (Inl ex, w') | (Inr (rq', r), w') \<Rightarrow> (Inr (rq', resp_text r), w'))"
  by (simp add: post_getcalenderstatus_def bindE_def ret_def split: prod.splits sum.splits)

lemma post_passaport_control_run [run_simps]:
  "post_passaport_control rq passport c w =
     (case post_request rq URL_PASSPORT_CONTROL [(''passport[]'', passport), (''country_id'', py_str_int c)] w of
        (Inl ex, w') \<Rightarrow> (Inl ex, w') | (Inr (rq', r), w') \<Rightarrow> (Inr (rq', resp_text r), w'))"
  by (simp add: post_passaport_control_def bindE_def ret_def split: prod.splits sum.splits)

lemma get_headers_token: "map_of (get_headers rq) ''X-CSRF-TOKEN'' = Some (x_csrf_token rq)"
  by (simp add: get_headers_def)

lemma costs_requester_init: "costs requester_init 1 2"
  by (auto simp: costs_def requester_init_eq split: reply.split)

lemma costs_with_requester:
  assumes "\<And>rq. costs (body rq) a b"
  shows "costs (with_requester body) (1 + a) (2 + Suc b)"
  unfolding with_requester_def
proof (rule costs_bindE [OF costs_requester_init])
  fix rq
  show "costs (\<lambda>w. case body rq w of (Inl e, w') \<Rightarrow> (Inl e, snd (session_close w'))
      | (Inr (rq', a), w') \<Rightarrow> (Inr a, snd (session_close w'))) a (Suc b)"
    unfolding costs_def
  proof
    fix w
    obtain r w1 where bw: "body rq w = (r, w1)" by fastforce
    from assms [of rq] bw have "served w1 \<le> served w + a \<and> length (trace w1) \<le> length (trace w) + b"
      unfolding costs_def by (metis snd_conv)
    with bw show "served (snd (case body rq w of (Inl e, w') \<Rightarrow> (Inl e, snd (session_close w'))
      | (Inr (rq', a), w') \<Rightarrow> (Inr a, snd (session_close w')))) \<le> served w + a \<and>
      length (trace (snd (case body rq w of (Inl e, w') \<Rightarrow> (Inl e, snd (session_close w'))
      | (Inr (rq', a), w') \<Rightarrow> (Inr a, snd (session_close w'))))) \<le> length (trace w) + Suc b"
      by (cases r) (auto simp: session_close_def)
  qed
qed

lemma costs_post_request: "costs (post_request rq url data) 1 1"
  using costs_bindE [OF costs_http costs_ret] by (simp add: post_request_def)

lemma costs_post_getdate: "costs (post_getdate rq c e s t p) 1 1"
  using costs_bindE [OF costs_post_request, of "\<lambda>(rq', response). ret (rq', resp_text response)" 0 0]
  by (simp add: post_getdate_def split_def costs_ret)

lemma costs_post_senddate: "costs (post_senddate rq d t c e k s p) 1 1"
  using costs_bindE [OF costs_post_request, of "\<lambda>(rq', response). ret (rq', resp_text response)" 0 0]
  by (simp add: post_senddate_def split_def costs_ret)

subsection \<open>Properties of the requester\<close>

text \<open>C4: the \<open>with\<close> block releases the session on every path once \<open>__init__\<close> has
  succeeded: the trace of the block is the body's followed by \<open>SessionClose\<close>, and the
  block's outcome is the body's, its return value or its exception.\<close>

theorem with_requester_closes:
  assumes "requester_init w = (Inr rq, w1)" and "with_requester body w = (r, w')"
  shows "trace w' = trace (snd (body rq w1)) @ [SessionClose] \<and> r = map_sum id snd (fst (body rq w1))"
  using assms(2) by (cases "body rq w1") (auto simp: with_requester_eq [OF assms(1)])

theorem with_requester_closes_witness:
  "requester_init \<lparr>net = \<lambda>_. Reply \<lparr>status_code = 200,
        resp_text = [Tag ''meta'' [(''name'', ''csrf-token''), (''content'', ''t'')] []], set_cookies = []\<rparr>,
      served = 0, clock = \<lambda>_. \<lparr>year = 2023, month = 11, day = 8\<rparr>, asked = 0, trace = []\<rparr> =
     (Inr \<lparr>jar = [(''c_policy'', ''ok''), (''visited'', ''yes'')], xsrf_token = None, x_csrf_token = ''t''\<rparr>,
      \<lparr>net = \<lambda>_. Reply \<lparr>status_code = 200,
        resp_text = [Tag ''meta'' [(''name'', ''csrf-token''), (''content'', ''t'')] []], set_cookies = []\<rparr>,
      served = 1, clock = \<lambda>_. \<lparr>year = 2023, month = 11, day = 8\<rparr>, asked = 0,
      trace = [SessionOpen, SessionGet URL_APPOINTMENT_FORM]\<rparr>) \<and>
   with_requester (\<lambda>rq. raise KeyError :: (requester \<times> unit) pyst)
     \<lparr>net = \<lambda>_. Reply \<lparr>status_code = 200,
        resp_text = [Tag ''meta'' [(''name'', ''csrf-token''), (''content'', ''t'')] []], set_cookies = []\<rparr>,
      served = 0, clock = \<lambda>_. \<lparr>year = 2023, month = 11, day = 8\<rparr>, asked = 0, trace = []\<rparr> =
     (Inl KeyError,
      \<lparr>net = \<lambda>_. Reply \<lparr>status_code = 200,
        resp_text = [Tag ''meta'' [(''name'', ''csrf-token''), (''content'', ''t'')] []], set_cookies = []\<rparr>,
      served = 1, clock = \<lambda>_. \<lparr>year = 2023, month = 11, day = 8\<rparr>, asked = 0,
      trace = [SessionOpen, SessionGet URL_APPOINTMENT_FORM, SessionClose]\<rparr>) \<and>
   [SessionOpen, SessionGet URL_APPOINTMENT_FORM, SessionClose] =
     [SessionOpen, SessionGet URL_APPOINTMENT_FORM] @ [SessionClose] \<and>
   (Inl KeyError :: unit result) = map_sum id snd (Inl KeyError)"
proof -
  have i: "requester_init \<lparr>net = \<lambda>_. Reply \<lparr>status_code = 200,
        resp_text = [Tag ''meta'' [(''name'', ''csrf-token''), (''content'', ''t'')] []], set_cookies = []\<rparr>,
      served = 0, clock = \<lambda>_. \<lparr>year = 2023, month = 11, day = 8\<rparr>, asked = 0, trace = []\<rparr> =
     (Inr \<lparr>jar = [(''c_policy'', ''ok''), (''visited'', ''yes'')], xsrf_token = None, x_csrf_token = ''t''\<rparr>,
      \<lparr>net = \<lambda>_. Reply \<lparr>status_code = 200,
        resp_text = [Tag ''meta'' [(''name'', ''csrf-token''), (''content'', ''t'')] []], set_cookies = []\<rparr>,
      served = 1, clock = \<lambda>_. \<lparr>year = 2023, month = 11, day = 8\<rparr>, asked = 0,
      trace = [SessionOpen, SessionGet URL_APPOINTMENT_FORM]\<rparr>)"
    by (simp add: requester_init_eq csrf_of_def find_tag_def tag_getitem_def init_requester_def
        store_cookies_def)
  have b: "with_requester (\<lambda>rq. raise KeyError :: (requester \<times> unit) pyst)
     \<lparr>net = \<lambda>_. Reply \<lparr>status_code = 200,
        resp_text = [Tag ''meta'' [(''name'', ''csrf-token''), (''content'', ''t'')] []], set_cookies = []\<rparr>,
      served = 0, clock = \<lambda>_. \<lparr>year = 2023, month = 11, day = 8\<rparr>, asked = 0, trace = []\<rparr> =
     (Inl KeyError,
      \<lparr>net = \<lambda>_. Reply \<lparr>status_code = 200,
        resp_text = [Tag ''meta'' [(''name'', ''csrf-token''), (''content'', ''t'')] []], set_cookies = []\<rparr>,
      served = 1, clock = \<lambda>_. \<lparr>year = 2023, month = 11, day = 8\<rparr>, asked = 0,
      trace = [SessionOpen, SessionGet URL_APPOINTMENT_FORM, SessionClose]\<rparr>)"
    by (simp add: with_requester_eq [OF i] raise_def emit_def)
  from with_requester_closes [OF i b] i b show ?thesis by (simp add: raise_def)
qed

text \<open>C14: \<open>__init__\<close> exits (\<open>SystemExit\<close>) on any status but 200, also on a success
  status such as 204, after opening the session and fetching the form page.\<close>

theorem requester_init_status_exit:
  assumes "net w (served w) = Reply r" and "status_code r \<noteq> 200"
  shows "requester_init w =
    (Inl SystemExit,
     w\<lparr>trace := trace w @ [SessionOpen, SessionGet URL_APPOINTMENT_FORM], served := Suc (served w)\<rparr>)"
  using assms by (simp add: requester_init_eq)

theorem requester_init_status_exit_witness:
  "net \<lparr>net = \<lambda>_. Reply \<lparr>status_code = 204, resp_text = [], set_cookies = []\<rparr>, served = 0,
      clock = \<lambda>_. \<lparr>year = 2023, month = 11, day = 8\<rparr>, asked = 0, trace = []\<rparr> 0 =
     Reply \<lparr>status_code = 204, resp_text = [], set_cookies = []\<rparr> \<and>
   status_code \<lparr>status_code = 204, resp_text = [], set_cookies = []\<rparr> \<noteq> (200::nat) \<and>
   requester_init \<lparr>net = \<lambda>_. Reply \<lparr>status_code = 204, resp_text = [], set_cookies = []\<rparr>, served = 0,
      clock = \<lambda>_. \<lparr>year = 2023, month = 11, day = 8\<rparr>, asked = 0, trace = []\<rparr> =
   (Inl SystemExit,
    \<lparr>net = \<lambda>_. Reply \<lparr>status_code = 204, resp_text = [], set_cookies = []\<rparr>, served = 1,
      clock = \<lambda>_. \<lparr>year = 2023, month = 11, day = 8\<rparr>, asked = 0,
      trace = [SessionOpen, SessionGet URL_APPOINTMENT_FORM]\<rparr>)"
  using requester_init_status_exit [of "\<lparr>net = \<lambda>_. Reply \<lparr>status_code = 204, resp_text = [], set_cookies = []\<rparr>,
      served = 0, clock = \<lambda>_. \<lparr>year = 2023, month = 11, day = 8\<rparr>, asked = 0, trace = []\<rparr>"
      "\<lparr>status_code = 204, resp_text = [], set_cookies = []\<rparr>"]
  by simp

text \<open>C15: a successful \<open>__init__\<close> keeps the \<open>csrf-token\<close> meta content as the header
  token and sets both consent cookies; the \<open>XSRF-TOKEN\<close> cookie is read but never
  checked, so a form page without it still succeeds, with the token \<open>None\<close>.\<close>

theorem requester_init_tokens:
  assumes "net w (served w) = Reply r" and "status_code r = 200" and "csrf_of (resp_text r) = Inr tok"
  shows "\<exists>rq w'. requester_init w = (Inr rq, w') \<and> x_csrf_token rq = tok \<and>
    xsrf_token rq = map_of (rev (set_cookies r)) ''XSRF-TOKEN'' \<and>
    map_of (jar rq) ''c_policy'' = Some ''ok'' \<and> map_of (jar rq) ''visited'' = Some ''yes''"
  using requester_init_ok [OF assms] jar_consent [of r tok]
  by (simp add: init_requester_def Let_def map_of_store_cookies)

theorem requester_init_tokens_witness:
  "net \<lparr>net = \<lambda>_. Reply \<lparr>status_code = 200,
        resp_text = [Tag ''meta'' [(''name'', ''csrf-token''), (''content'', ''t'')] []], set_cookies = []\<rparr>,
      served = 0, clock = \<lambda>_. \<lparr>year = 2023, month = 11, day = 8\<rparr>, asked = 0, trace = []\<rparr> 0 =
     Reply \<lparr>status_code = 200,
        resp_text = [Tag ''meta'' [(''name'', ''csrf-token''), (''content'', ''t'')] []], set_cookies = []\<rparr> \<and>
   csrf_of [Tag ''meta'' [(''name'', ''csrf-token''), (''content'', ''t'')] []] = Inr ''t'' \<and>
   (\<exists>rq w'. requester_init \<lparr>net = \<lambda>_. Reply \<lparr>status_code = 200,
        resp_text = [Tag ''meta'' [(''name'', ''csrf-token''), (''content'', ''t'')] []], set_cookies = []\<rparr>,
      served = 0, clock = \<lambda>_. \<lparr>year = 2023, month = 11, day = 8\<rparr>, asked = 0, trace = []\<rparr> = (Inr rq, w') \<and>
      x_csrf_token rq = ''t'' \<and> xsrf_token rq = None)"
proof -
  have c: "csrf_of [Tag ''meta'' [(''name'', ''csrf-token''), (''content'', ''t'')] []] = Inr ''t''"
    by (simp add: csrf_of_def find_tag_def tag_getitem_def)
  show ?thesis
    using requester_init_tokens [where w = "\<lparr>net = \<lambda>_. Reply \<lparr>status_code = 200,
        resp_text = [Tag ''meta'' [(''name'', ''csrf-token''), (''content'', ''t'')] []], set_cookies = []\<rparr>,
      served = 0, clock = \<lambda>_. \<lparr>year = 2023, month = 11, day = 8\<rparr>, asked = 0, trace = []\<rparr>"
      and r = "\<lparr>status_code = 200,
        resp_text = [Tag ''meta'' [(''name'', ''csrf-token''), (''content'', ''t'')] []], set_cookies = []\<rparr>"
      and tok = "''t''"] c
    by auto
qed

text \<open>C28: the two POSTs no script calls: on a reply, each sends exactly one POST to its
  own URL with the session's headers and cookies and with form fields that read back
  (by \<open>int()\<close>) as its arguments, stores the reply's cookies and returns its text; on
  a network failure each raises \<open>RequestException\<close>.\<close>

theorem post_calendar_passport:
  assumes "net w (served w) = Reply r" and "net v (served v) = Failure"
  shows "(\<exists>data. post_getcalenderstatus rq a b c w =
       (Inr (rq\<lparr>jar := store_cookies (jar rq) (set_cookies r)\<rparr>, resp_text r),
        w\<lparr>trace := trace w @ [SessionPost URL_GET_CALENDER_STATUS (get_headers rq) data (jar rq)],
          served := Suc (served w)\<rparr>) \<and>
       map (\<lambda>(k, x). (k, py_int x)) data =
         [(''getvisaofficeid'', Inr a), (''getservicetypeid'', Inr b), (''getvisacountryid'', Inr c)]) \<and>
    (\<exists>data. post_passaport_control rq passport c w =
       (Inr (rq\<lparr>jar := store_cookies (jar rq) (set_cookies r)\<rparr>, resp_text r),
        w\<lparr>trace := trace w @ [SessionPost URL_PASSPORT_CONTROL (get_headers rq) data (jar rq)],
          served := Suc (served w)\<rparr>) \<and>
       map_of data ''passport[]'' = Some passport \<and> map_option py_int (map_of data ''country_id'') = Some (Inr c)) \<and>
    fst (post_getcalenderstatus rq a b c v) = Inl RequestException \<and>
    fst (post_passaport_control rq passport c v) = Inl RequestException"
  using assms
  apply (simp add: post_getcalenderstatus_run post_passaport_control_run post_request_ok post_request_fail)
  apply (intro conjI exI)
     apply (rule refl | simp add: py_int_str_int)+
  done

theorem post_calendar_passport_witness:
  "net \<lparr>net = \<lambda>_. Reply \<lparr>status_code = 200, resp_text = [Text ''ok''], set_cookies = []\<rparr>,
      served = 0, clock = \<lambda>_. \<lparr>year = 2023, month = 11, day = 8\<rparr>, asked = 0, trace = []\<rparr> 0 =
     Reply \<lparr>status_code = 200, resp_text = [Text ''ok''], set_cookies = []\<rparr> \<and>
   net \<lparr>net = \<lambda>_. Failure, served = 0, clock = \<lambda>_. \<lparr>year = 2023, month = 11, day = 8\<rparr>,
      asked = 0, trace = []\<rparr> 0 = Failure \<and>
   post_getcalenderstatus \<lparr>jar = [], xsrf_token = None, x_csrf_token = ''t''\<rparr> 2 1 (- 3)
     \<lparr>net = \<lambda>_. Reply \<lparr>status_code = 200, resp_text = [Text ''ok''], set_cookies = []\<rparr>,
      served = 0, clock = \<lambda>_. \<lparr>year = 2023, month = 11, day = 8\<rparr>, asked = 0, trace = []\<rparr> =
     (Inr (\<lparr>jar = [], xsrf_token = None, x_csrf_token = ''t''\<rparr>, [Text ''ok'']),
      \<lparr>net = \<lambda>_. Reply \<lparr>status_code = 200, resp_text = [Text ''ok''], set_cookies = []\<rparr>,
       served = 1, clock = \<lambda>_. \<lparr>year = 2023, month = 11, day = 8\<rparr>, asked = 0,
       trace = [SessionPost URL_GET_CALENDER_STATUS (get_headers \<lparr>jar = [], xsrf_token = None, x_csrf_token = ''t''\<rparr>)
         [(''getvisaofficeid'', ''2''), (''getservicetypeid'', ''1''), (''getvisacountryid'', ''-3'')] []]\<rparr>) \<and>
   fst (post_passaport_control \<lparr>jar = [], xsrf_token = None, x_csrf_token = ''t''\<rparr> ''U123'' (- 3)
     \<lparr>net = \<lambda>_. Failure, served = 0, clock = \<lambda>_. \<lparr>year = 2023, month = 11, day = 8\<rparr>,
      asked = 0, trace = []\<rparr>) = Inl RequestException"
proof -
  have s: "py_str_int 2 = ''2''" "py_str_int 1 = ''1''" "py_str_int (- 3) = ''-3''"
    by (simp_all add: py_str_int_def show_nat.simps)
  show ?thesis
    using post_calendar_passport [where w = "\<lparr>net = \<lambda>_. Reply \<lparr>status_code = 200,
        resp_text = [Text ''ok''], set_cookies = []\<rparr>, served = 0,
        clock = \<lambda>_. \<lparr>year = 2023, month = 11, day = 8\<rparr>, asked = 0, trace = []\<rparr>"
      and v = "\<lparr>net = \<lambda>_. Failure, served = 0, clock = \<lambda>_. \<lparr>year = 2023, month = 11, day = 8\<rparr>,
        asked = 0, trace = []\<rparr>"
      and r = "\<lparr>status_code = 200, resp_text = [Text ''ok''], set_cookies = []\<rparr>"
      and rq = "\<lparr>jar = [], xsrf_token = None, x_csrf_token = ''t''\<rparr>" and a = 2 and b = 1 and c = "- 3"
      and passport = "''U123''"]
    by (simp add: post_getcalenderstatus_run post_request_ok s store_cookies_def)
qed

end
