(* ===== verification/Utils.thy ===== *)
theory Utils
  imports Calendar Soup
begin

text \<open>
  \<open>IDataUtilities\<close> (\<open>src/core/utils.py\<close>): the four static helpers.  The HTML
  arguments are the parsed forest of \<open>Soup\<close> (what \<open>BeautifulSoup(html_code,
  'html.parser')\<close> builds); \<open>date.today()\<close>, read by \<open>get_dates_between\<close>, is its
  first argument.
\<close>

definition parse_available_dates :: "node list \<Rightarrow> string list" where
  "parse_available_dates soup =
     (let form_control_elements = find_all_class ''form-control'' soup
      in map get_text_strip form_control_elements)"

definition remove_dates_before :: "string list \<Rightarrow> string \<Rightarrow> string list result" where
  "remove_dates_before dates allow_before =
     ebind (strptime_dmY allow_before) (\<lambda>allow_before_date.
       filter_exc (\<lambda>d. ebind (strptime_dmY d) (\<lambda>dt. Inr (date_less dt allow_before_date))) dates)"

definition parse_available_hours :: "node list \<Rightarrow> string \<Rightarrow> string list" where
  "parse_available_hours soup time_slot_type =
     (let button_elements =
        (if time_slot_type = ''free'' then find_all_class ''noPrime'' soup
         else if time_slot_type = ''prime'' then find_all_class ''yesPrime'' soup
         else if time_slot_type = ''vip'' then find_all_class ''yesVip'' soup
         else find_all_class ''getdatebtnhour'' soup)
      in map get_text_strip button_elements)"

text \<open>\<open>day, month, year = s.split("-")\<close> followed by
  \<open>date(int(year), int(month), int(day))\<close>, written twice in \<open>get_dates_between\<close>.\<close>

definition date_of_dmy :: "string \<Rightarrow> date result" where
  "date_of_dmy s =
     (case py_split CHR ''-'' s of
        [d, m, y] \<Rightarrow> ebind (py_int y) (\<lambda>yy. ebind (py_int m) (\<lambda>mm. ebind (py_int d) (\<lambda>dd.
                       py_date yy mm dd)))
      | _ \<Rightarrow> Inl ValueError)"

definition get_dates_between :: "date \<Rightarrow> string \<Rightarrow> string \<Rightarrow> string list result" where
  "get_dates_between today from_date until_date =
     ebind (if from_date = ''today'' then Inr today else date_of_dmy from_date) (\<lambda>start_date.
     ebind (date_of_dmy until_date) (\<lambda>end_date.
       (let time_difference = date_sub end_date start_date in
        ebind (map_exc (\<lambda>i. add_days start_date (int i)) [0..<nat (time_difference + 1)])
          (\<lambda>dates. Inr (map strftime_dmY dates)))))"


lemmas date_eval_simps = strptime_dmY_def py_split_def re_day_def re_month_def re_year_def
  is_digit_def is_nzdigit_def py_int_def py_strip_def is_py_space_def digits_value_def digit_val_def
  py_date_def MINYEAR_def MAXYEAR_def days_in_month_def is_leap_def DAYS_IN_MONTH_def date_of_dmy_def

lemmas soup_eval_simps = find_all_class_def has_class_def py_words_def is_py_space_def
  get_text_strip_def text_strings_def py_strip_def

subsection \<open>Helpers\<close>

lemma py_int_Inl: "py_int s = Inl e \<Longrightarrow> e = ValueError"
  by (auto simp: py_int_def Let_def split: if_splits)

lemma py_date_Inl: "py_date y m d = Inl e \<Longrightarrow> e = ValueError"
  by (auto simp: py_date_def split: if_splits)

lemma strptime_dmY_Inl: "strptime_dmY s = Inl e \<Longrightarrow> e = ValueError"
  by (auto simp: strptime_dmY_def ebind_eq_Inl split: list.splits if_splits
      dest: py_int_Inl py_date_Inl)

lemma remove_dates_before_filter:
  assumes cut: "strptime_dmY allow_before = Inr c"
    and all: "\<forall>s \<in> set dates. \<exists>d. strptime_dmY s = Inr d"
  shows "remove_dates_before dates allow_before =
    Inr (filter (\<lambda>s. \<exists>d. strptime_dmY s = Inr d \<and> date_less d c) dates)"
proof -
  have "filter_exc (\<lambda>d. ebind (strptime_dmY d) (\<lambda>dt. Inr (date_less dt c))) dates =
      Inr (filter (\<lambda>s. \<exists>d. strptime_dmY s = Inr d \<and> date_less d c) dates)"
  proof (rule filter_exc_total)
    fix s assume "s \<in> set dates"
    with all obtain d where "strptime_dmY s = Inr d" by blast
    then show "ebind (strptime_dmY s) (\<lambda>dt. Inr (date_less dt c)) =
        Inr (\<exists>d. strptime_dmY s = Inr d \<and> date_less d c)" by simp
  qed
  with cut show ?thesis by (simp add: remove_dates_before_def)
qed

lemma remove_dates_before_Inr:
  assumes "remove_dates_before dates allow_before = Inr r"
  shows "\<exists>c. strptime_dmY allow_before = Inr c \<and> subseq r dates \<and>
    (\<forall>s \<in> set r. \<exists>d. strptime_dmY s = Inr d \<and> date_less d c)"
proof -
  from assms obtain c where cut: "strptime_dmY allow_before = Inr c" and
    fe: "filter_exc (\<lambda>d. ebind (strptime_dmY d) (\<lambda>dt. Inr (date_less dt c))) dates = Inr r"
    by (auto simp: remove_dates_before_def ebind_eq_Inr)
  from filter_exc_Inr [OF fe] have
    r: "r = filter (\<lambda>x. ebind (strptime_dmY x) (\<lambda>dt. Inr (date_less dt c)) = Inr True) dates"
    by blast
  have "\<forall>s \<in> set r. \<exists>d. strptime_dmY s = Inr d \<and> date_less d c"
    unfolding r by (auto simp: ebind_eq_Inr)
  with cut fe show ?thesis by (blast dest: filter_exc_subseq)
qed

lemma date_of_dmy_valid: "date_of_dmy s = Inr d \<Longrightarrow> valid_date d"
  by (auto simp: date_of_dmy_def ebind_eq_Inr split: list.splits intro: py_date_Inr_valid)

lemma date_of_dmy_strftime: "valid_date d \<Longrightarrow> date_of_dmy (strftime_dmY d) = Inr d"
  by (simp add: date_of_dmy_def py_split_strftime py_int_zpad py_int_show_nat py_date_valid)

lemma add_days_within:
  assumes s: "valid_date s" and e: "valid_date e" and k: "toordinal s + k \<le> toordinal e"
  shows "add_days s (int k) = Inr (fromordinal (toordinal s + k))"
proof -
  have "1 \<le> toordinal s" by (rule toordinal_range(1) [OF s])
  moreover have "toordinal e \<le> MAXORDINAL" by (rule toordinal_range(2) [OF e])
  ultimately show ?thesis using k by (simp add: add_days_def nat_add_distrib)
qed

lemma range_bound:
  "k < nat (int b - int a + 1) \<Longrightarrow> a + k \<le> (b::nat)"
  by linarith

lemma get_dates_between_Inr:
  assumes start: "(if from_date = ''today'' then Inr today else date_of_dmy from_date) = Inr s"
    and s: "valid_date s" and fin: "date_of_dmy until_date = Inr e"
  shows "get_dates_between today from_date until_date =
    Inr (map (\<lambda>k. strftime_dmY (fromordinal (toordinal s + k)))
      [0..<nat (int (toordinal e) - int (toordinal s) + 1)])"
proof -
  let ?N = "nat (int (toordinal e) - int (toordinal s) + 1)"
  have e: "valid_date e" using fin by (rule date_of_dmy_valid)
  have "map_exc (\<lambda>i. add_days s (int i)) [0..<?N] = Inr (map (\<lambda>k. fromordinal (toordinal s + k)) [0..<?N])"
  proof (rule map_exc_total)
    fix k assume "k \<in> set [0..<?N]"
    then have "toordinal s + k \<le> toordinal e" by (simp add: range_bound)
    then show "add_days s (int k) = Inr (fromordinal (toordinal s + k))"
      by (rule add_days_within [OF s e])
  qed
  then show ?thesis
    unfolding get_dates_between_def start fin ebind_Inr Let_def date_sub_def by simp
qed

lemma start_valid:
  "valid_date today \<Longrightarrow> (if from_date = ''today'' then Inr today else date_of_dmy from_date) = Inr s
    \<Longrightarrow> valid_date s"
  by (auto split: if_splits dest: date_of_dmy_valid)

lemma get_dates_between_cases:
  assumes "get_dates_between today from_date until_date = Inr ds" and "valid_date today"
  obtains s e where "(if from_date = ''today'' then Inr today else date_of_dmy from_date) = Inr s"
    "valid_date s" "date_of_dmy until_date = Inr e" "valid_date e"
    "ds = map (\<lambda>k. strftime_dmY (fromordinal (toordinal s + k)))
      [0..<nat (int (toordinal e) - int (toordinal s) + 1)]"
proof -
  from assms(1) obtain s e where
    st: "(if from_date = ''today'' then Inr today else date_of_dmy from_date) = Inr s" and
    fin: "date_of_dmy until_date = Inr e"
    unfolding get_dates_between_def by (auto simp: ebind_eq_Inr)
  have s: "valid_date s" using start_valid [OF assms(2) st] .
  from get_dates_between_Inr [OF st s fin] assms(1)
  show ?thesis using that st s fin date_of_dmy_valid [OF fin] by simp
qed

lemma dates_across_new_year:
  "get_dates_between today ''30-12-2023'' ''02-01-2024'' =
     Inr [''30-12-2023'', ''31-12-2023'', ''01-01-2024'', ''02-01-2024'']"
proof -
  let ?s = "\<lparr>year = 2023, month = 12, day = 30\<rparr>" and ?e = "\<lparr>year = 2024, month = 1, day = 2\<rparr>"
  have vs: "valid_date ?s" and ve: "valid_date ?e"
    by (simp_all add: valid_date_def days_in_month_def DAYS_IN_MONTH_def MINYEAR_def MAXYEAR_def is_leap_def)
  have ds: "date_of_dmy ''30-12-2023'' = Inr ?s" and de: "date_of_dmy ''02-01-2024'' = Inr ?e"
    by (simp_all add: date_eval_simps)
  have os: "toordinal ?s = 738884" and oe: "toordinal ?e = 738887"
    by (simp_all add: toordinal_def days_before_year_def days_before_month_def DAYS_BEFORE_MONTH_def is_leap_def)
  have f: "fromordinal 738884 = ?s" "fromordinal 738885 = \<lparr>year = 2023, month = 12, day = 31\<rparr>"
    "fromordinal 738886 = \<lparr>year = 2024, month = 1, day = 1\<rparr>" "fromordinal 738887 = ?e"
    by (simp_all add: fromordinal_def Let_def DAYS_BEFORE_MONTH_def DAYS_IN_MONTH_def drop_bit_eq_div)
  have r: "[0..<nat (int 738887 - int 738884 + 1)] = [0, 1, 2, 3]" by (simp add: upt_rec)
  have "get_dates_between today ''30-12-2023'' ''02-01-2024'' =
     Inr (map (\<lambda>k. strftime_dmY (fromordinal (toordinal ?s + k)))
       [0..<nat (int (toordinal ?e) - int (toordinal ?s) + 1)])"
    by (rule get_dates_between_Inr [OF _ vs de]) (simp only: ds if_False list.inject char.inject simp_thms)
  also have "\<dots> = Inr (map (\<lambda>k. strftime_dmY (fromordinal (738884 + k))) [0, 1, 2, 3])"
    by (simp only: os oe r)
  also have "\<dots> = Inr [''30-12-2023'', ''31-12-2023'', ''01-01-2024'', ''02-01-2024'']"
    by (simp add: f strftime_dmY_def zpad_def show_nat.simps)
  finally show ?thesis .
qed

subsection \<open>\<open>remove_dates_before\<close>\<close>

text \<open>C2: when the cut-off and every entry parse as \<open>dd-mm-yyyy\<close> dates,
  \<open>remove_dates_before\<close> returns, in their original order, exactly the entries whose
  date is strictly earlier in the calendar than the cut-off (Python's tuple comparison of
  dates is the order of their day numbers).\<close>

theorem remove_dates_before_keeps_earlier:
  assumes "strptime_dmY allow_before = Inr c"
    and "\<forall>s \<in> set dates. \<exists>d. strptime_dmY s = Inr d"
  shows "remove_dates_before dates allow_before =
    Inr (filter (\<lambda>s. \<exists>d. strptime_dmY s = Inr d \<and> toordinal d < toordinal c) dates)"
proof -
  have "date_less d c \<longleftrightarrow> toordinal d < toordinal c" if "strptime_dmY s = Inr d" for s d
    by (rule date_less_iff_toordinal [OF strptime_valid [OF that] strptime_valid [OF assms(1)]])
  then have "filter (\<lambda>s. \<exists>d. strptime_dmY s = Inr d \<and> date_less d c) dates =
      filter (\<lambda>s. \<exists>d. strptime_dmY s = Inr d \<and> toordinal d < toordinal c) dates"
    by (intro filter_cong) auto
  with remove_dates_before_filter [OF assms] show ?thesis by simp
qed


theorem remove_dates_before_keeps_earlier_witness:
  "strptime_dmY ''18-11-2023'' = Inr \<lparr>year = 2023, month = 11, day = 18\<rparr> \<and>
   (\<exists>d. strptime_dmY ''10-11-2023'' = Inr d) \<and> (\<exists>d. strptime_dmY ''20-11-2023'' = Inr d) \<and>
   remove_dates_before [''10-11-2023'', ''20-11-2023''] ''18-11-2023'' =
     Inr (filter (\<lambda>s. \<exists>d. strptime_dmY s = Inr d \<and>
        toordinal d < toordinal \<lparr>year = 2023, month = 11, day = 18\<rparr>) [''10-11-2023'', ''20-11-2023''])"
proof -
  have c: "strptime_dmY ''18-11-2023'' = Inr \<lparr>year = 2023, month = 11, day = 18\<rparr>"
    by (simp add: date_eval_simps)
  have a: "\<forall>s \<in> set [''10-11-2023'', ''20-11-2023'']. \<exists>d. strptime_dmY s = Inr d"
    by (simp add: date_eval_simps)
  have "remove_dates_before [''10-11-2023'', ''20-11-2023''] ''18-11-2023'' =
     Inr (filter (\<lambda>s. \<exists>d. strptime_dmY s = Inr d \<and>
        toordinal d < toordinal \<lparr>year = 2023, month = 11, day = 18\<rparr>) [''10-11-2023'', ''20-11-2023''])"
    by (rule remove_dates_before_keeps_earlier [OF c a])
  with c a show ?thesis by simp
qed

text \<open>C12: whatever \<open>remove_dates_before\<close> returns is a subsequence of its input
  (original order kept) and every returned entry parses to a date strictly before the
  cut-off.\<close>

theorem remove_dates_before_sound:
  assumes "remove_dates_before dates allow_before = Inr r"
  shows "subseq r dates \<and> (\<forall>s \<in> set r. \<exists>d c. strptime_dmY s = Inr d \<and>
    strptime_dmY allow_before = Inr c \<and> toordinal d < toordinal c)"
proof -
  from remove_dates_before_Inr [OF assms] obtain c where cut: "strptime_dmY allow_before = Inr c"
    and sub: "subseq r dates" and each: "\<forall>s \<in> set r. \<exists>d. strptime_dmY s = Inr d \<and> date_less d c"
    by blast
  have "toordinal d < toordinal c" if "strptime_dmY s = Inr d" "date_less d c" for s d
    using date_less_iff_toordinal [OF strptime_valid [OF that(1)] strptime_valid [OF cut]] that(2)
    by simp
  with cut sub each show ?thesis by blast
qed


theorem remove_dates_before_sound_witness:
  "remove_dates_before [''10-11-2023'', ''20-11-2023''] ''18-11-2023'' = Inr [''10-11-2023''] \<and>
   subseq [''10-11-2023''] [''10-11-2023'', ''20-11-2023''] \<and>
   (\<exists>d c. strptime_dmY ''10-11-2023'' = Inr d \<and>
      strptime_dmY ''18-11-2023'' = Inr c \<and> toordinal d < toordinal c)"
proof -
  have r: "remove_dates_before [''10-11-2023'', ''20-11-2023''] ''18-11-2023'' = Inr [''10-11-2023'']"
    by (simp add: remove_dates_before_def date_less_def date_eval_simps)
  have "subseq [''10-11-2023''] [''10-11-2023'', ''20-11-2023''] \<and>
    (\<forall>s \<in> set [''10-11-2023'']. \<exists>d c. strptime_dmY s = Inr d \<and>
      strptime_dmY ''18-11-2023'' = Inr c \<and> toordinal d < toordinal c)"
    by (rule remove_dates_before_sound [OF r])
  with r show ?thesis by simp
qed

text \<open>C13: one entry that does not parse (here an impossible date) makes the whole call
  raise \<open>ValueError\<close>; nothing is skipped.\<close>

theorem remove_dates_before_fatal:
  assumes "s \<in> set dates" and "strptime_dmY s = Inl e"
  shows "remove_dates_before dates allow_before = Inl ValueError"
proof (cases "strptime_dmY allow_before")
  case (Inl e')
  then have "e' = ValueError" by (rule strptime_dmY_Inl)
  with Inl show ?thesis by (simp add: remove_dates_before_def)
next
  case (Inr c)
  let ?p = "\<lambda>d. ebind (strptime_dmY d) (\<lambda>dt. Inr (date_less dt c))"
  have "?p s = Inl e" using assms(2) by simp
  then obtain e' where fe: "filter_exc ?p dates = Inl e'"
    using assms(1) filter_exc_raises by metis
  then obtain x where "x \<in> set dates" "?p x = Inl e'" by (blast dest: filter_exc_Inl)
  then have "e' = ValueError" by (auto simp: ebind_eq_Inl dest: strptime_dmY_Inl)
  with Inr fe show ?thesis by (simp add: remove_dates_before_def)
qed


theorem remove_dates_before_fatal_witness:
  "''31-02-2023'' \<in> set [''10-11-2023'', ''31-02-2023''] \<and> strptime_dmY ''31-02-2023'' = Inl ValueError \<and>
   remove_dates_before [''10-11-2023'', ''31-02-2023''] ''18-11-2023'' = Inl ValueError"
proof -
  have m: "''31-02-2023'' \<in> set [''10-11-2023'', ''31-02-2023'']" by simp
  have p: "strptime_dmY ''31-02-2023'' = Inl ValueError" by (simp add: date_eval_simps)
  show ?thesis using remove_dates_before_fatal [OF m p] m p by blast
qed

subsection \<open>\<open>get_dates_between\<close>\<close>

text \<open>C3: a successful \<open>get_dates_between\<close> returns one string per day from the start
  (today, or the parsed \<open>from_date\<close>) to the parsed \<open>until_date\<close>: as many entries as
  the difference of their day numbers plus one, the \<open>i\<close>-th being the
  \<open>dd-mm-yyyy\<close> form of a valid date \<open>i\<close> days after the start.\<close>

theorem get_dates_between_consecutive:
  assumes "get_dates_between today from_date until_date = Inr ds" and "valid_date today"
  shows "\<exists>s e. (if from_date = ''today'' then s = today else date_of_dmy from_date = Inr s) \<and>
    date_of_dmy until_date = Inr e \<and> length ds = nat (int (toordinal e) - int (toordinal s) + 1) \<and>
    (\<forall>i < length ds. \<exists>d. valid_date d \<and> toordinal d = toordinal s + i \<and> ds ! i = strftime_dmY d)"
proof (rule get_dates_between_cases [OF assms])
  fix s e
  assume st: "(if from_date = ''today'' then Inr today else date_of_dmy from_date) = Inr s"
    and s: "valid_date s" and fin: "date_of_dmy until_date = Inr e" and e: "valid_date e"
    and ds: "ds = map (\<lambda>k. strftime_dmY (fromordinal (toordinal s + k)))
      [0..<nat (int (toordinal e) - int (toordinal s) + 1)]"
  have "\<exists>d. valid_date d \<and> toordinal d = toordinal s + i \<and> ds ! i = strftime_dmY d"
    if i: "i < length ds" for i
  proof -
    have le: "toordinal s + i \<le> toordinal e" using i ds by (simp add: range_bound)
    have one: "1 \<le> toordinal s + i" using toordinal_range(1) [OF s] by simp
    have "valid_date (fromordinal (toordinal s + i))"
      using one le toordinal_range(2) [OF e] by (intro valid_fromordinal) simp_all
    moreover have "toordinal (fromordinal (toordinal s + i)) = toordinal s + i"
      using one by (rule toordinal_fromordinal)
    ultimately show ?thesis using i ds by auto
  qed
  with st fin ds show ?thesis by (auto split: if_splits)
qed


theorem get_dates_between_consecutive_witness:
  "get_dates_between \<lparr>year = 2023, month = 11, day = 8\<rparr> ''30-12-2023'' ''02-01-2024'' =
     Inr [''30-12-2023'', ''31-12-2023'', ''01-01-2024'', ''02-01-2024''] \<and>
   valid_date \<lparr>year = 2023, month = 11, day = 8\<rparr> \<and>
   (\<exists>s e. (if ''30-12-2023'' = ''today'' then s = \<lparr>year = 2023, month = 11, day = 8\<rparr>
       else date_of_dmy ''30-12-2023'' = Inr s) \<and>
     date_of_dmy ''02-01-2024'' = Inr e \<and> length [''30-12-2023'', ''31-12-2023'', ''01-01-2024'', ''02-01-2024''] =
       nat (int (toordinal e) - int (toordinal s) + 1) \<and>
     (\<forall>i < length [''30-12-2023'', ''31-12-2023'', ''01-01-2024'', ''02-01-2024'']. \<exists>d. valid_date d \<and>
        toordinal d = toordinal s + i \<and>
        [''30-12-2023'', ''31-12-2023'', ''01-01-2024'', ''02-01-2024''] ! i = strftime_dmY d))"
proof -
  have g: "get_dates_between \<lparr>year = 2023, month = 11, day = 8\<rparr> ''30-12-2023'' ''02-01-2024'' =
     Inr [''30-12-2023'', ''31-12-2023'', ''01-01-2024'', ''02-01-2024'']"
    by (rule dates_across_new_year)
  have v: "valid_date \<lparr>year = 2023, month = 11, day = 8\<rparr>"
    by (simp add: valid_date_def days_in_month_def DAYS_IN_MONTH_def MINYEAR_def MAXYEAR_def is_leap_def)
  show ?thesis using get_dates_between_consecutive [OF g v] g v by blast
qed

text \<open>C20: a non-empty result starts with the start date and ends with
  \<open>until_date\<close>, both rendered as \<open>dd-mm-yyyy\<close>.\<close>

theorem get_dates_between_endpoints:
  assumes "get_dates_between today from_date until_date = Inr ds" and "valid_date today"
    and "ds \<noteq> []"
  shows "\<exists>s e. (if from_date = ''today'' then s = today else date_of_dmy from_date = Inr s) \<and>
    date_of_dmy until_date = Inr e \<and> hd ds = strftime_dmY s \<and> last ds = strftime_dmY e"
proof (rule get_dates_between_cases [OF assms(1,2)])
  fix s e
  assume st: "(if from_date = ''today'' then Inr today else date_of_dmy from_date) = Inr s"
    and s: "valid_date s" and fin: "date_of_dmy until_date = Inr e" and e: "valid_date e"
    and ds: "ds = map (\<lambda>k. strftime_dmY (fromordinal (toordinal s + k)))
      [0..<nat (int (toordinal e) - int (toordinal s) + 1)]"
  let ?N = "nat (int (toordinal e) - int (toordinal s) + 1)"
  have N: "0 < ?N" using assms(3) ds by auto
  then have last: "toordinal s + (?N - 1) = toordinal e" by linarith
  have "hd ds = strftime_dmY (fromordinal (toordinal s))" using N ds by (simp add: hd_map)
  also have "\<dots> = strftime_dmY s" by (simp add: fromordinal_toordinal [OF s])
  finally have h: "hd ds = strftime_dmY s" .
  have "last ds = strftime_dmY (fromordinal (toordinal s + (?N - 1)))" using N ds by (simp add: last_map)
  also have "\<dots> = strftime_dmY e" by (simp only: last fromordinal_toordinal [OF e])
  finally have l: "last ds = strftime_dmY e" .
  from st fin h l show ?thesis by (auto split: if_splits)
qed


theorem get_dates_between_endpoints_witness:
  "get_dates_between \<lparr>year = 2023, month = 11, day = 8\<rparr> ''30-12-2023'' ''02-01-2024'' =
     Inr [''30-12-2023'', ''31-12-2023'', ''01-01-2024'', ''02-01-2024''] \<and>
   valid_date \<lparr>year = 2023, month = 11, day = 8\<rparr> \<and>
   [''30-12-2023'', ''31-12-2023'', ''01-01-2024'', ''02-01-2024''] \<noteq> [] \<and>
   (\<exists>s e. (if ''30-12-2023'' = ''today'' then s = \<lparr>year = 2023, month = 11, day = 8\<rparr>
       else date_of_dmy ''30-12-2023'' = Inr s) \<and> date_of_dmy ''02-01-2024'' = Inr e \<and>
     hd [''30-12-2023'', ''31-12-2023'', ''01-01-2024'', ''02-01-2024''] = strftime_dmY s \<and>
     last [''30-12-2023'', ''31-12-2023'', ''01-01-2024'', ''02-01-2024''] = strftime_dmY e)"
proof -
  have g: "get_dates_between \<lparr>year = 2023, month = 11, day = 8\<rparr> ''30-12-2023'' ''02-01-2024'' =
     Inr [''30-12-2023'', ''31-12-2023'', ''01-01-2024'', ''02-01-2024'']"
    by (rule dates_across_new_year)
  have v: "valid_date \<lparr>year = 2023, month = 11, day = 8\<rparr>"
    by (simp add: valid_date_def days_in_month_def DAYS_IN_MONTH_def MINYEAR_def MAXYEAR_def is_leap_def)
  have n: "[''30-12-2023'', ''31-12-2023'', ''01-01-2024'', ''02-01-2024''] \<noteq> []" by simp
  show ?thesis using get_dates_between_endpoints [OF g v n] g v n by blast
qed

text \<open>C21: when \<open>until_date\<close> is earlier than the start, the result is the empty list,
  not an error (\<open>range\<close> of a non-positive count).\<close>

theorem get_dates_between_reversed:
  assumes "(if from_date = ''today'' then Inr today else date_of_dmy from_date) = Inr s"
    and "valid_date s" and "date_of_dmy until_date = Inr e" and "date_less e s"
  shows "get_dates_between today from_date until_date = Inr []"
proof -
  have "toordinal e < toordinal s"
    using assms(4) date_of_dmy_valid [OF assms(3)] assms(2) by (simp add: date_less_iff_toordinal)
  then show ?thesis using get_dates_between_Inr [OF assms(1-3)] by simp
qed


theorem get_dates_between_reversed_witness:
  "(if ''05-01-2024'' = ''today'' then Inr \<lparr>year = 2023, month = 11, day = 8\<rparr> else date_of_dmy ''05-01-2024'') =
     Inr \<lparr>year = 2024, month = 1, day = 5\<rparr> \<and>
   valid_date \<lparr>year = 2024, month = 1, day = 5\<rparr> \<and>
   date_of_dmy ''03-01-2024'' = Inr \<lparr>year = 2024, month = 1, day = 3\<rparr> \<and>
   date_less \<lparr>year = 2024, month = 1, day = 3\<rparr> \<lparr>year = 2024, month = 1, day = 5\<rparr> \<and>
   get_dates_between \<lparr>year = 2023, month = 11, day = 8\<rparr> ''05-01-2024'' ''03-01-2024'' = Inr []"
proof -
  have s: "(if ''05-01-2024'' = ''today'' then Inr \<lparr>year = 2023, month = 11, day = 8\<rparr> else date_of_dmy ''05-01-2024'') =
     Inr \<lparr>year = 2024, month = 1, day = 5\<rparr>"
    by (simp add: date_eval_simps)
  have v: "valid_date \<lparr>year = 2024, month = 1, day = 5\<rparr>"
    by (simp add: valid_date_def days_in_month_def DAYS_IN_MONTH_def MINYEAR_def MAXYEAR_def is_leap_def)
  have e: "date_of_dmy ''03-01-2024'' = Inr \<lparr>year = 2024, month = 1, day = 3\<rparr>"
    by (simp add: date_eval_simps)
  have l: "date_less \<lparr>year = 2024, month = 1, day = 3\<rparr> \<lparr>year = 2024, month = 1, day = 5\<rparr>"
    by (simp add: date_less_def)
  show ?thesis using get_dates_between_reversed [OF s v e l] s v e l by blast
qed

text \<open>C22: from today to today's own \<open>dd-mm-yyyy\<close> string the result is that one
  string.\<close>

theorem get_dates_between_today_only:
  assumes "valid_date today"
  shows "get_dates_between today ''today'' (strftime_dmY today) = Inr [strftime_dmY today]"
  using get_dates_between_Inr [of "''today''" today today "strftime_dmY today" today]
    assms date_of_dmy_strftime [OF assms] fromordinal_toordinal [OF assms]
  by simp


theorem get_dates_between_today_only_witness:
  "valid_date \<lparr>year = 2023, month = 11, day = 8\<rparr> \<and>
   get_dates_between \<lparr>year = 2023, month = 11, day = 8\<rparr> ''today'' ''08-11-2023'' = Inr [''08-11-2023'']"
proof -
  have v: "valid_date \<lparr>year = 2023, month = 11, day = 8\<rparr>"
    by (simp add: valid_date_def days_in_month_def DAYS_IN_MONTH_def MINYEAR_def MAXYEAR_def is_leap_def)
  have f: "strftime_dmY \<lparr>year = 2023, month = 11, day = 8\<rparr> = ''08-11-2023''"
    by (simp add: strftime_dmY_def zpad_def show_nat.simps)
  show ?thesis using get_dates_between_today_only [OF v] v f by simp
qed

subsection \<open>Parsing the responses\<close>

text \<open>C23: for the \<open>"free"\<close> slot type only \<open>noPrime\<close> elements are read; with
  none in the page the result is empty.\<close>

theorem parse_available_hours_free_none:
  assumes "\<forall>n \<in> set (descendants soup). \<not> has_class ''noPrime'' n"
  shows "parse_available_hours soup ''free'' = []"
  using assms by (simp add: parse_available_hours_def find_all_class_def filter_empty_conv)

definition "hours_soup = [Tag ''div'' [(''class'', ''hours'')]
  [Tag ''button'' [(''class'', ''getdatebtnhour yesPrime'')] [Text ''09:00''],
   Tag ''button'' [(''class'', ''getdatebtnhour noPrime'')] [Text '' 10:30 ''],
   Tag ''button'' [(''class'', ''getdatebtnhour yesVip'')] [Comment ''vip'', Text ''11:00'']]]"


theorem parse_available_hours_free_none_witness:
  "list_all (\<lambda>n. \<not> has_class ''noPrime'' n)
     (descendants [Tag ''button'' [(''class'', ''getdatebtnhour yesPrime'')] [Text ''09:00'']]) \<and>
   parse_available_hours [Tag ''button'' [(''class'', ''getdatebtnhour yesPrime'')] [Text ''09:00'']] ''free'' = []"
proof -
  have h: "\<forall>n \<in> set (descendants [Tag ''button'' [(''class'', ''getdatebtnhour yesPrime'')] [Text ''09:00'']]).
      \<not> has_class ''noPrime'' n"
    by (simp add: has_class_def py_words_def is_py_space_def)
  show ?thesis using parse_available_hours_free_none [OF h] h by (simp add: list_all_iff)
qed

end
