(* ===== verification/Finder.thy ===== *)
theory Finder
  imports Requester Utils
begin

text \<open>
  \<open>IDataAppointmentFinder\<close> (\<open>src/core/appointment_finder.py\<close>): the registered offices
  (a map from office name to exit id, filled by \<open>add_office\<close>) and the fixed request
  parameters \<open>__init__\<close> sets.  \<open>find_available_dates\<close> and
  \<open>check_for_specific_date\<close> look the office up (\<open>ValueError\<close> when it is not
  registered, before any request), then open a requester in a \<open>with\<close> block, send one
  POST, and parse its answer with \<open>IDataUtilities\<close>; the requester is closed whatever
  the body does.  Both early \<open>return []\<close>s are kept as branches.
\<close>

record finder =
  exit_ids :: "string \<rightharpoonup> int"
  consular_id :: int
  service_type_id :: int
  calendar_type :: int
  total_person :: int
  personal_id :: string

definition finder_init :: finder where
  "finder_init =
     \<lparr>exit_ids = Map.empty, consular_id = 2, service_type_id = 1, calendar_type = 2, total_person = 1,
      personal_id =
        ''eyJpdiI6ImUzRlYwV0JYbFRFaTdoR2luYkJ4eUE9PSIsInZh'' @
        ''bHVlIjoicVdUUHpOOWJZclR0OEYxVFJEYkhaZz09IiwibWFj'' @
        ''IjoiNzY3MGUyNDMxMWUxZDE1ZGQ3MjM4MTU2ODU1MTA1NjAx'' @
        ''NTA2M2NjOTFlYWQxZGY4YjYwZGIxZjIxMjczN2FhMyJ9''\<rparr>"

definition add_office :: "finder \<Rightarrow> string \<Rightarrow> int \<Rightarrow> finder" where
  "add_office f office_name office_id = f\<lparr>exit_ids := (exit_ids f)(office_name \<mapsto> office_id)\<rparr>"

definition find_available_dates :: "finder \<Rightarrow> string \<Rightarrow> string \<Rightarrow> string list pyst" where
  "find_available_dates f office_name search_before =
     (case exit_ids f office_name of
        None \<Rightarrow> raise ValueError
      | Some exit_id \<Rightarrow>
          with_requester (\<lambda>requester.
            bindE (post_getdate requester (consular_id f) exit_id (service_type_id f)
                     (calendar_type f) (total_person f)) (\<lambda>(requester, response).
              let available_dates = parse_available_dates response in
              if available_dates = [] then ret (requester, [])
              else
                bindE (lift (remove_dates_before available_dates search_before)) (\<lambda>dates_before.
                  if dates_before = [] then ret (requester, [])
                  else ret (requester, dates_before)))))"

definition check_for_specific_date :: "finder \<Rightarrow> string \<Rightarrow> string \<Rightarrow> string \<Rightarrow> string list pyst" where
  "check_for_specific_date f office_name date_to_check time_slot_type =
     (case exit_ids f office_name of
        None \<Rightarrow> raise ValueError
      | Some exit_id \<Rightarrow>
          with_requester (\<lambda>requester.
            bindE (post_senddate requester date_to_check (total_person f) (consular_id f) exit_id
                     (calendar_type f) (service_type_id f) (personal_id f)) (\<lambda>(requester, response).
              let available_hours = parse_available_hours response time_slot_type in
              if available_hours = [] then ret (requester, [])
              else ret (requester, available_hours))))"

text \<open>The events of one scoped requester that sends the POST \<open>post\<close>.\<close>

definition session_events :: "event \<Rightarrow> event list" where
  "session_events post = [SessionOpen, SessionGet URL_APPOINTMENT_FORM, post, SessionClose]"

text \<open>The form page a request of the finder needs before its POST: status 200 and a
  \<open>csrf-token\<close> meta tag with content, as the \<open>i\<close>-th reply of \<open>nt\<close>.\<close>

definition form_ok :: "(nat \<Rightarrow> reply) \<Rightarrow> nat \<Rightarrow> response \<Rightarrow> string \<Rightarrow> bool" where
  "form_ok nt i r tok \<longleftrightarrow> nt i = Reply r \<and> status_code r = 200 \<and> csrf_of (resp_text r) = Inr tok"

text \<open>The date query without its two shortcuts: the dates of the reply earlier than the
  cut-off, as the specification states the query.  The code returns \<open>[]\<close> early when the
  reply lists no date and when none of them is earlier.\<close>

definition find_available_dates_ref :: "finder \<Rightarrow> string \<Rightarrow> string \<Rightarrow> string list pyst" where
  "find_available_dates_ref f office_name search_before =
     (case exit_ids f office_name of
        None \<Rightarrow> raise ValueError
      | Some exit_id \<Rightarrow>
          with_requester (\<lambda>requester.
            bindE (post_getdate requester (consular_id f) exit_id (service_type_id f)
                     (calendar_type f) (total_person f)) (\<lambda>(requester, response).
              bindE (lift (remove_dates_before (parse_available_dates response) search_before))
                (\<lambda>dates_before. ret (requester, dates_before)))))"

subsection \<open>Running the finder\<close>

lemma exit_ids_add [simp]: "exit_ids (add_office f n i) = (exit_ids f)(n \<mapsto> i)"
  and params_add [simp]: "consular_id (add_office f n i) = consular_id f"
  "service_type_id (add_office f n i) = service_type_id f"
  "calendar_type (add_office f n i) = calendar_type f"
  "total_person (add_office f n i) = total_person f"
  "personal_id (add_office f n i) = personal_id f"
  by (simp_all add: add_office_def)

lemma finder_init_params [simp]:
  "exit_ids finder_init = Map.empty" "consular_id finder_init = 2" "service_type_id finder_init = 1"
  "calendar_type finder_init = 2" "total_person finder_init = 1"
  by (simp_all add: finder_init_def)

lemma find_available_dates_unregistered [run_simps]:
  "exit_ids f office = None \<Longrightarrow> find_available_dates f office sb w = (Inl ValueError, w)"
  by (simp add: find_available_dates_def raise_def)

lemma check_for_specific_date_unregistered [run_simps]:
  "exit_ids f office = None \<Longrightarrow> check_for_specific_date f office d t w = (Inl ValueError, w)"
  by (simp add: check_for_specific_date_def raise_def)

lemma find_available_dates_run:
  assumes "exit_ids f office = Some eid" and "form_ok (net w) (served w) r1 tok"
    and "net w (Suc (served w)) = Reply r2"
  shows "find_available_dates f office sb w =
    (let ds = parse_available_dates (resp_text r2) in
     if ds = [] then Inr [] else remove_dates_before ds sb,
     w\<lparr>trace := trace w @ session_events
        (SessionPost URL_GET_DATE (get_headers (init_requester r1 tok))
           (getdate_data (consular_id f) eid (service_type_id f) (calendar_type f) (total_person f))
           (jar (init_requester r1 tok))),
       served := Suc (Suc (served w))\<rparr>)"
proof -
  let ?w1 = "w\<lparr>trace := trace w @ [SessionOpen, SessionGet URL_APPOINTMENT_FORM], served := Suc (served w)\<rparr>"
  have init: "requester_init w = (Inr (init_requester r1 tok), ?w1)"
    using assms(2) unfolding form_ok_def by (blast intro: requester_init_ok)
  have post: "net ?w1 (served ?w1) = Reply r2" using assms(3) by simp
  show ?thesis
    using assms(1)
    by (simp add: find_available_dates_def with_requester_eq [OF init] post_getdate_run
        post_request_ok [OF post] session_events_def emit_def Let_def ret_def lift_def bindE_def
        split: sum.split)
qed

lemma check_for_specific_date_run:
  assumes "exit_ids f office = Some eid" and "form_ok (net w) (served w) r1 tok"
    and "net w (Suc (served w)) = Reply r2"
  shows "check_for_specific_date f office d slot w =
    (Inr (parse_available_hours (resp_text r2) slot),
     w\<lparr>trace := trace w @ session_events
        (SessionPost URL_SEND_DATE (get_headers (init_requester r1 tok))
           (senddate_data d (total_person f) (consular_id f) eid (calendar_type f) (service_type_id f)
              (personal_id f))
           (jar (init_requester r1 tok))),
       served := Suc (Suc (served w))\<rparr>)"
proof -
  let ?w1 = "w\<lparr>trace := trace w @ [SessionOpen, SessionGet URL_APPOINTMENT_FORM], served := Suc (served w)\<rparr>"
  have init: "requester_init w = (Inr (init_requester r1 tok), ?w1)"
    using assms(2) unfolding form_ok_def by (blast intro: requester_init_ok)
  have post: "net ?w1 (served ?w1) = Reply r2" using assms(3) by simp
  show ?thesis
    using assms(1)
    by (simp add: check_for_specific_date_def with_requester_eq [OF init] post_senddate_run
        post_request_ok [OF post] session_events_def emit_def Let_def ret_def bindE_def)
qed

lemma costs_zero_mono: "costs m 0 0 \<Longrightarrow> costs m a b"
  by (erule costs_mono) simp_all

lemma costs_bindE0: "costs m 0 0 \<Longrightarrow> (\<And>x. costs (f x) 0 0) \<Longrightarrow> costs (bindE m f) 0 0"
  using costs_bindE [of m 0 0 f 0 0] by simp

lemma costs_query:
  assumes "\<And>rq. costs (post rq) 1 1" and "\<And>x. costs (k x) 0 0"
  shows "costs (with_requester (\<lambda>rq. bindE (post rq) k)) 2 4"
proof -
  have "costs (bindE (post rq) k) 1 1" for rq
    using costs_bindE [OF assms(1) [of rq], of k 0 0] assms(2) by simp
  from costs_with_requester [where body = "\<lambda>rq. bindE (post rq) k", OF this] show ?thesis by (simp add: numeral_eq_Suc)
qed

subsection \<open>Properties of the finder\<close>

text \<open>C8: a query for an office that was never registered raises \<open>ValueError\<close> before any
  effect: no session is opened and no request is sent.\<close>

theorem finder_unregistered:
  assumes "exit_ids f office = None"
  shows "find_available_dates f office sb w = (Inl ValueError, w) \<and>
    check_for_specific_date f office d slot w = (Inl ValueError, w)"
  using assms by (simp add: find_available_dates_unregistered check_for_specific_date_unregistered)

theorem finder_unregistered_witness:
  "exit_ids (add_office finder_init ''Altunizade'' 8) ''Gayrettepe'' = None \<and>
   find_available_dates (add_office finder_init ''Altunizade'' 8) ''Gayrettepe'' ''18-11-2023''
     \<lparr>net = \<lambda>_. Failure, served = 0, clock = \<lambda>_. \<lparr>year = 2023, month = 11, day = 8\<rparr>, asked = 0,
      trace = []\<rparr> =
   (Inl ValueError, \<lparr>net = \<lambda>_. Failure, served = 0, clock = \<lambda>_. \<lparr>year = 2023, month = 11, day = 8\<rparr>,
      asked = 0, trace = []\<rparr>)"
  using finder_unregistered [of "add_office finder_init ''Altunizade'' 8" "''Gayrettepe''" "''18-11-2023''"
      "\<lparr>net = \<lambda>_. Failure, served = 0, clock = \<lambda>_. \<lparr>year = 2023, month = 11, day = 8\<rparr>, asked = 0,
        trace = []\<rparr>"]
  by simp

text \<open>C7: a date query of a registered office, when the form page carries the token,
  opens a session, fetches the form, sends one POST to the get-date endpoint and closes
  the session.  The POST carries the page's token as \<open>X-CSRF-TOKEN\<close>, the office's exit
  id, and both consent cookies.  The answer is \<open>[]\<close> when the page lists no dates; the
  cut-off is then not parsed at all.  Otherwise it is \<open>remove_dates_before\<close> of the
  listed dates.\<close>

theorem find_available_dates_request:
  assumes "exit_ids f office = Some eid" and "form_ok (net w) (served w) rf tok"
    and "net w (Suc (served w)) = Reply rd"
  shows "\<exists>hs data cs. find_available_dates f office sb w =
    (let ds = parse_available_dates (resp_text rd) in
     if ds = [] then Inr [] else remove_dates_before ds sb,
     w\<lparr>trace := trace w @ session_events (SessionPost URL_GET_DATE hs data cs),
       served := Suc (Suc (served w))\<rparr>) \<and>
    map_of hs ''X-CSRF-TOKEN'' = Some tok \<and> map_of data ''exitid'' = Some (py_str_int eid) \<and>
    map_of cs ''c_policy'' = Some ''ok'' \<and> map_of cs ''visited'' = Some ''yes''"
proof -
  let ?rq = "init_requester rf tok"
  have "find_available_dates f office sb w =
    (let ds = parse_available_dates (resp_text rd) in
     if ds = [] then Inr [] else remove_dates_before ds sb,
     w\<lparr>trace := trace w @ session_events (SessionPost URL_GET_DATE (get_headers ?rq)
        (getdate_data (consular_id f) eid (service_type_id f) (calendar_type f) (total_person f)) (jar ?rq)),
       served := Suc (Suc (served w))\<rparr>) \<and>
    map_of (get_headers ?rq) ''X-CSRF-TOKEN'' = Some tok \<and>
    map_of (getdate_data (consular_id f) eid (service_type_id f) (calendar_type f) (total_person f)) ''exitid''
      = Some (py_str_int eid) \<and>
    map_of (jar ?rq) ''c_policy'' = Some ''ok'' \<and> map_of (jar ?rq) ''visited'' = Some ''yes''"
    using find_available_dates_run [OF assms] jar_consent [of rf tok]
    by (simp add: get_headers_token getdate_data_def)
  then show ?thesis by blast
qed

theorem find_available_dates_request_witness:
  "exit_ids (add_office finder_init ''Altunizade'' 8) ''Altunizade'' = Some 8 \<and>
   form_ok (\<lambda>i. if i = 0 then Reply \<lparr>status_code = 200,
        resp_text = [Tag ''meta'' [(''name'', ''csrf-token''), (''content'', ''t'')] []], set_cookies = []\<rparr>
      else Reply \<lparr>status_code = 200,
        resp_text = [Tag ''div'' [(''class'', ''form-control'')] [Text ''10-11-2023'']], set_cookies = []\<rparr>)
     0 \<lparr>status_code = 200,
        resp_text = [Tag ''meta'' [(''name'', ''csrf-token''), (''content'', ''t'')] []], set_cookies = []\<rparr> ''t'' \<and>
   (\<exists>hs data cs. find_available_dates (add_office finder_init ''Altunizade'' 8) ''Altunizade'' ''18-11-2023''
     \<lparr>net = \<lambda>i. if i = 0 then Reply \<lparr>status_code = 200,
        resp_text = [Tag ''meta'' [(''name'', ''csrf-token''), (''content'', ''t'')] []], set_cookies = []\<rparr>
      else Reply \<lparr>status_code = 200,
        resp_text = [Tag ''div'' [(''class'', ''form-control'')] [Text ''10-11-2023'']], set_cookies = []\<rparr>,
      served = 0, clock = \<lambda>_. \<lparr>year = 2023, month = 11, day = 8\<rparr>, asked = 0, trace = []\<rparr> =
     (Inr [''10-11-2023''],
      \<lparr>net = \<lambda>i. if i = 0 then Reply \<lparr>status_code = 200,
        resp_text = [Tag ''meta'' [(''name'', ''csrf-token''), (''content'', ''t'')] []], set_cookies = []\<rparr>
      else Reply \<lparr>status_code = 200,
        resp_text = [Tag ''div'' [(''class'', ''form-control'')] [Text ''10-11-2023'']], set_cookies = []\<rparr>,
      served = 2, clock = \<lambda>_. \<lparr>year = 2023, month = 11, day = 8\<rparr>, asked = 0,
      trace = session_events (SessionPost URL_GET_DATE hs data cs)\<rparr>) \<and>
     map_of hs ''X-CSRF-TOKEN'' = Some ''t'' \<and> map_of data ''exitid'' = Some ''8'')"
proof -
  have f: "form_ok (\<lambda>i. if i = 0 then Reply \<lparr>status_code = 200,
        resp_text = [Tag ''meta'' [(''name'', ''csrf-token''), (''content'', ''t'')] []], set_cookies = []\<rparr>
      else Reply \<lparr>status_code = 200,
        resp_text = [Tag ''div'' [(''class'', ''form-control'')] [Text ''10-11-2023'']], set_cookies = []\<rparr>)
     0 \<lparr>status_code = 200,
        resp_text = [Tag ''meta'' [(''name'', ''csrf-token''), (''content'', ''t'')] []], set_cookies = []\<rparr> ''t''"
    by (simp add: form_ok_def csrf_of_def find_tag_def tag_getitem_def)
  have p: "parse_available_dates [Tag ''div'' [(''class'', ''form-control'')] [Text ''10-11-2023'']] = [''10-11-2023'']"
    by (simp add: parse_available_dates_def soup_eval_simps)
  have r: "remove_dates_before [''10-11-2023''] ''18-11-2023'' = Inr [''10-11-2023'']"
    by (simp add: remove_dates_before_def date_less_def date_eval_simps)
  have e: "py_str_int 8 = ''8''"
    by (simp add: py_str_int_def show_nat.simps)
  show ?thesis
    using find_available_dates_request [where f = "add_office finder_init ''Altunizade'' 8"
      and office = "''Altunizade''" and eid = 8 and sb = "''18-11-2023''"
      and w = "\<lparr>net = \<lambda>i. if i = 0 then Reply \<lparr>status_code = 200,
        resp_text = [Tag ''meta'' [(''name'', ''csrf-token''), (''content'', ''t'')] []], set_cookies = []\<rparr>
      else Reply \<lparr>status_code = 200,
        resp_text = [Tag ''div'' [(''class'', ''form-control'')] [Text ''10-11-2023'']], set_cookies = []\<rparr>,
      served = 0, clock = \<lambda>_. \<lparr>year = 2023, month = 11, day = 8\<rparr>, asked = 0, trace = []\<rparr>"
      and rf = "\<lparr>status_code = 200,
        resp_text = [Tag ''meta'' [(''name'', ''csrf-token''), (''content'', ''t'')] []], set_cookies = []\<rparr>"
      and tok = "''t''"
      and rd = "\<lparr>status_code = 200,
        resp_text = [Tag ''div'' [(''class'', ''form-control'')] [Text ''10-11-2023'']], set_cookies = []\<rparr>"]
      f p r e
    by (simp add: numeral_2_eq_2) blast
qed

text \<open>C19: each query of the finder sends at most two HTTP requests (the form page and
  one POST) and adds at most four events to the trace, on every path.\<close>

theorem finder_request_bound:
  "costs (find_available_dates f office sb) 2 4 \<and> costs (check_for_specific_date f office d slot) 2 4"
proof
  show "costs (find_available_dates f office sb) 2 4"
  proof (cases "exit_ids f office")
    case None
    then show ?thesis by (simp add: find_available_dates_def costs_zero_mono costs_raise)
  next
    case (Some eid)
    show ?thesis
      unfolding find_available_dates_def Some option.case
      by (rule costs_query [OF costs_post_getdate])
        (simp add: split_def Let_def costs_bindE0 costs_ret costs_lift)
  qed
  show "costs (check_for_specific_date f office d slot) 2 4"
  proof (cases "exit_ids f office")
    case None
    then show ?thesis by (simp add: check_for_specific_date_def costs_zero_mono costs_raise)
  next
    case (Some eid)
    show ?thesis
      unfolding check_for_specific_date_def Some option.case
      by (rule costs_query [OF costs_post_senddate]) (simp add: split_def Let_def costs_ret)
  qed
qed

lemma remove_dates_before_Nil:
  "strptime_dmY search_before = Inr cutoff \<Longrightarrow> remove_dates_before [] search_before = Inr []"
  by (simp add: remove_dates_before_def)

lemma lift_Inr_bindE: "bindE (lift (Inr a)) f = f a"
  by (simp add: fun_eq_iff bindE_def lift_def)

text \<open>C25: with a cut-off that \<open>strptime\<close> accepts, the code's date query, shortcuts
  included, is the reference query: same result, same exception, same requests, for
  every office and every server.\<close>

theorem find_available_dates_equiv_ref:
  assumes "strptime_dmY search_before = Inr cutoff"
  shows "find_available_dates f office_name search_before =
    find_available_dates_ref f office_name search_before"
proof -
  have same: "bindE m (\<lambda>d. if d = [] then ret (rq, []) else ret (rq, d)) = bindE m (\<lambda>d. ret (rq, d))"
    for m :: "string list pyst" and rq
    by (rule arg_cong [where f = "bindE m"]) (simp add: fun_eq_iff)
  have body: "(\<lambda>(requester, response).
      let available_dates = parse_available_dates response in
      if available_dates = [] then ret (requester, [])
      else bindE (lift (remove_dates_before available_dates search_before)) (\<lambda>dates_before.
        if dates_before = [] then ret (requester, []) else ret (requester, dates_before))) =
    (\<lambda>(requester, response).
      bindE (lift (remove_dates_before (parse_available_dates response) search_before))
        (\<lambda>dates_before. ret (requester, dates_before)))"
    unfolding same
    by (auto simp: fun_eq_iff Let_def remove_dates_before_Nil [OF assms] lift_Inr_bindE)
  show ?thesis
    unfolding find_available_dates_def find_available_dates_ref_def body ..
qed

theorem find_available_dates_equiv_ref_witness:
  "strptime_dmY ''18-11-2023'' = Inr \<lparr>year = 2023, month = 11, day = 18\<rparr> \<and>
   find_available_dates (add_office finder_init ''Altunizade'' 8) ''Altunizade'' ''18-11-2023'' =
   find_available_dates_ref (add_office finder_init ''Altunizade'' 8) ''Altunizade'' ''18-11-2023''"
proof -
  have s: "strptime_dmY ''18-11-2023'' = Inr \<lparr>year = 2023, month = 11, day = 18\<rparr>"
    by (simp add: date_eval_simps)
  show ?thesis using find_available_dates_equiv_ref [OF s] s by simp
qed

end
