(* ===== verification/Notifier.thy ===== *)
theory Notifier
  imports World
begin

text \<open>
  \<open>WhatsappNotifier\<close> (\<open>src/core/notifier.py\<close>): a map from phone numbers to API keys
  and the gateway's URL.  \<open>add_phone_api_key\<close> stores or overwrites a key;
  \<open>send_message\<close> exits (\<open>SystemExit\<close>) when the key is missing or empty
  (\<open>if not api_key\<close>), otherwise sends one module-level \<open>requests.get\<close> of the URL
  built by the f-string, with no encoding of its parts, and returns whether the status
  was 200.  A network failure or timeout of that GET is not caught.

  The gateway's side, \<open>query_param\<close>, reads a parameter back from the URL as it
  travels: \<open>requests\<close> re-quotes it (\<open>requote_uri\<close>), the query is what follows the
  first \<open>?\<close> up to a \<open>#\<close> (the fragment never leaves the client), it is split at
  every \<open>&\<close>, each field at its first \<open>=\<close>, PHP's \<open>$_GET\<close> decodes names and
  values (\<open>php_urldecode\<close>) and the last field of a name wins.  Strings are ASCII.
\<close>

record notifier =
  phones_api_keys :: "string \<rightharpoonup> string"
  api_url :: string

definition notifier_init :: notifier where
  "notifier_init = \<lparr>phones_api_keys = Map.empty, api_url = ''https://api.callmebot.com/whatsapp.php''\<rparr>"

definition add_phone_api_key :: "notifier \<Rightarrow> string \<Rightarrow> string \<Rightarrow> notifier" where
  "add_phone_api_key n phone_number api_key =
     n\<lparr>phones_api_keys := (phones_api_keys n)(phone_number \<mapsto> api_key)\<rparr>"

definition notify_url :: "notifier \<Rightarrow> string \<Rightarrow> string \<Rightarrow> string \<Rightarrow> string" where
  "notify_url n phone_number message api_key =
     api_url n @ ''?phone='' @ phone_number @ ''&text='' @ message @ ''&apikey='' @ api_key"

definition send_message :: "notifier \<Rightarrow> string \<Rightarrow> string \<Rightarrow> bool pyst" where
  "send_message n phone_number message =
     (case phones_api_keys n phone_number of
        None \<Rightarrow> raise SystemExit
      | Some api_key \<Rightarrow>
          if api_key = [] then raise SystemExit
          else
            let request_url = notify_url n phone_number message api_key in
            bindE (http (HttpGet request_url)) (\<lambda>response. ret (status_code response = 200)))"

text \<open>\<open>requests\<close> prepares the URL with \<open>requote_uri\<close>: \<open>unquote_unreserved\<close> decodes
  the escapes \<open>%XX\<close> of unreserved characters (\<open>None\<close>: \<open>InvalidURL\<close>, two
  alphanumerics that are not hex), then \<open>quote\<close> escapes, in upper-case hex, every
  character outside the letters, digits, \<open>_.-~\<close> and the safe set.\<close>

definition hex_val :: "char \<Rightarrow> nat option" where
  "hex_val c =
     (let n = of_char c :: nat in
      if 48 \<le> n \<and> n \<le> 57 then Some (n - 48)
      else if 65 \<le> n \<and> n \<le> 70 then Some (n - 55)
      else if 97 \<le> n \<and> n \<le> 102 then Some (n - 87)
      else None)"

definition url_hex :: "nat \<Rightarrow> char" where
  "url_hex n = (if n < 10 then digit_char n else char_of (55 + n))"

definition is_hex_code :: "char \<Rightarrow> bool" where
  "is_hex_code c \<longleftrightarrow> (let n = of_char c :: nat in (48 \<le> n \<and> n \<le> 57) \<or> (65 \<le> n \<and> n \<le> 70))"

definition is_alnum :: "char \<Rightarrow> bool" where
  "is_alnum c \<longleftrightarrow> (let n = of_char c :: nat in
     (48 \<le> n \<and> n \<le> 57) \<or> (65 \<le> n \<and> n \<le> 90) \<or> (97 \<le> n \<and> n \<le> 122))"

definition unreserved :: "char \<Rightarrow> bool" where
  "unreserved c \<longleftrightarrow> is_alnum c \<or> c \<in> set ''-._~''"

fun unquote_unreserved :: "string \<Rightarrow> string option" where
  "unquote_unreserved [] = Some []"
| "unquote_unreserved [c] = Some [c]"
| "unquote_unreserved [c, a] = Some [c, a]"
| "unquote_unreserved (c # a # b # rest) =
     (if c = CHR ''%'' \<and> is_alnum a \<and> is_alnum b then
        (case (hex_val a, hex_val b) of
           (Some x, Some y) \<Rightarrow>
             let ch = char_of (16 * x + y) in
             if unreserved ch then map_option (Cons ch) (unquote_unreserved rest)
             else map_option (\<lambda>r. c # a # b # r) (unquote_unreserved rest)
         | _ \<Rightarrow> None)
      else map_option (Cons c) (unquote_unreserved (a # b # rest)))"

definition url_quote :: "string \<Rightarrow> string \<Rightarrow> string" where
  "url_quote safe s =
     concat (map (\<lambda>c. if unreserved c \<or> c \<in> set safe then [c]
                       else [CHR ''%'', url_hex (of_char c div 16), url_hex (of_char c mod 16)]) s)"

definition requote_uri :: "string \<Rightarrow> string" where
  "requote_uri uri =
     (case unquote_unreserved uri of
        Some u \<Rightarrow> url_quote ''!#$%&'()*+,/:;=?@[]~'' u
      | None \<Rightarrow> url_quote ''!#$&'()*+,/:;=?@[]~'' uri)"

abbreviation URL_SAFE :: string where "URL_SAFE \<equiv> ''!#$%&'()*+,/:;=?@[]~''"

text \<open>PHP's \<open>php_url_decode\<close>, which \<open>$_GET\<close> applies to names and values: \<open>+\<close> is a
  space, \<open>%\<close> and two hex digits (either case) the byte they spell, anything else
  itself.\<close>

definition plus_space :: "char \<Rightarrow> char" where
  "plus_space c = (if c = CHR ''+'' then CHR '' '' else c)"

fun php_urldecode :: "string \<Rightarrow> string" where
  "php_urldecode [] = []"
| "php_urldecode [c] = [plus_space c]"
| "php_urldecode [c, a] = [plus_space c, plus_space a]"
| "php_urldecode (c # a # b # rest) =
     (if c = CHR ''%'' then
        (case (hex_val a, hex_val b) of
           (Some x, Some y) \<Rightarrow> char_of (16 * x + y) # php_urldecode rest
         | _ \<Rightarrow> c # php_urldecode (a # b # rest))
      else plus_space c # php_urldecode (a # b # rest))"

text \<open>The query the gateway receives: what follows the first \<open>?\<close> up to a \<open>#\<close> (the
  fragment never leaves the client), split at every \<open>&\<close>, each field at its first
  \<open>=\<close>.  \<open>query_param k url\<close> is \<open>$_GET[k]\<close> for the URL \<open>requests.get(url)\<close>
  sends: names and values decoded, the last field of a name winning.\<close>

definition query_string :: "string \<Rightarrow> string" where
  "query_string url = takeWhile (\<lambda>c. c \<noteq> CHR ''#'') (drop 1 (dropWhile (\<lambda>c. c \<noteq> CHR ''?'') url))"

definition query_params :: "string \<Rightarrow> (string \<times> string) list" where
  "query_params url =
     map (\<lambda>kv. (takeWhile (\<lambda>c. c \<noteq> CHR ''='') kv, drop 1 (dropWhile (\<lambda>c. c \<noteq> CHR ''='') kv)))
       (py_split CHR ''&'' (query_string url))"

definition query_param :: "string \<Rightarrow> string \<Rightarrow> string option" where
  "query_param k url =
     map_of (rev (map (\<lambda>(n, v). (php_urldecode n, php_urldecode v)) (query_params (requote_uri url)))) k"

subsection \<open>Sending\<close>

lemma send_message_no_key [run_simps]:
  "phones_api_keys n p = None \<Longrightarrow> send_message n p m w = (Inl SystemExit, w)"
  by (simp add: send_message_def raise_def)

lemma send_message_empty_key [run_simps]:
  "phones_api_keys n p = Some [] \<Longrightarrow> send_message n p m w = (Inl SystemExit, w)"
  by (simp add: send_message_def raise_def)

lemma send_message_reply [run_simps]:
  assumes "phones_api_keys n p = Some k" and "k \<noteq> []" and "net w (served w) = Reply r"
  shows "send_message n p m w =
    (Inr (status_code r = 200),
     w\<lparr>trace := trace w @ [HttpGet (notify_url n p m k)], served := Suc (served w)\<rparr>)"
  using assms by (simp add: send_message_def bindE_def http_def emit_def ret_def)

lemma send_message_failure [run_simps]:
  assumes "phones_api_keys n p = Some k" and "k \<noteq> []" and "net w (served w) = Failure"
  shows "send_message n p m w =
    (Inl RequestException,
     w\<lparr>trace := trace w @ [HttpGet (notify_url n p m k)], served := Suc (served w)\<rparr>)"
  using assms by (simp add: send_message_def bindE_def http_def emit_def)

lemma phones_api_keys_add [simp]:
  "phones_api_keys (add_phone_api_key n p k) = (phones_api_keys n)(p \<mapsto> k)"
  "api_url (add_phone_api_key n p k) = api_url n"
  by (simp_all add: add_phone_api_key_def)

subsection \<open>Reading the URL back\<close>

lemma takeWhile_dropWhile_sep:
  "c \<notin> set xs \<Longrightarrow> takeWhile (\<lambda>x. x \<noteq> c) (xs @ c # ys) = xs"
  "c \<notin> set xs \<Longrightarrow> dropWhile (\<lambda>x. x \<noteq> c) (xs @ c # ys) = c # ys"
  by (induction xs) auto

lemma takeWhile_all: "c \<notin> set xs \<Longrightarrow> takeWhile (\<lambda>x. x \<noteq> c) xs = xs"
  by (induction xs) auto

lemma query_params_notify_url:
  assumes "CHR ''?'' \<notin> set (api_url n)" "CHR ''#'' \<notin> set (api_url n)"
    and "CHR ''&'' \<notin> set p" "CHR ''&'' \<notin> set m" "CHR ''&'' \<notin> set k"
    and "CHR ''#'' \<notin> set p" "CHR ''#'' \<notin> set m" "CHR ''#'' \<notin> set k"
  shows "query_params (notify_url n p m k) = [(''phone'', p), (''text'', m), (''apikey'', k)]"
proof -
  have q: "query_string (notify_url n p m k) = ''phone='' @ p @ ''&text='' @ m @ ''&apikey='' @ k"
    using assms unfolding query_string_def notify_url_def
    by (simp add: takeWhile_dropWhile_sep takeWhile_all)
  have s: "py_split CHR ''&'' (''phone='' @ p @ ''&text='' @ m @ ''&apikey='' @ k) =
      [''phone='' @ p, ''text='' @ m, ''apikey='' @ k]"
    using py_split_append_sep [where c = "CHR ''&''" and xs = "''phone='' @ p"
        and ys = "''text='' @ m @ ''&apikey='' @ k"]
      py_split_append_sep [where c = "CHR ''&''" and xs = "''text='' @ m" and ys = "''apikey='' @ k"]
      assms(3-5)
    by simp
  show ?thesis
    unfolding query_params_def q s
    using takeWhile_dropWhile_sep [of "CHR ''=''"] by simp
qed

lemma notify_url_add [simp]: "notify_url (add_phone_api_key n p k) = notify_url n"
  by (simp add: notify_url_def add_phone_api_key_def fun_eq_iff)

lemma notifier_init_url: "CHR ''?'' \<notin> set (api_url notifier_init)" "CHR ''#'' \<notin> set (api_url notifier_init)"
  by (simp_all add: notifier_init_def)

lemma unquote_unreserved_plain: "CHR ''%'' \<notin> set s \<Longrightarrow> unquote_unreserved s = Some s"
  by (induction s rule: unquote_unreserved.induct) auto

lemma url_quote_append: "url_quote safe (xs @ ys) = url_quote safe xs @ url_quote safe ys"
  by (simp add: url_quote_def)

lemma url_hex_digit:
  assumes "d < 16"
  shows "hex_val (url_hex d) = Some d" and "is_hex_code (url_hex d)"
proof -
  consider (a) "d < 10" | (b) "10 \<le> d" "d < 16" using assms by linarith
  then show "hex_val (url_hex d) = Some d"
    by cases (simp_all add: hex_val_def url_hex_def digit_char_def of_char_of Let_def)
  from assms show "is_hex_code (url_hex d)"
    by (cases "d < 10") (simp_all add: is_hex_code_def url_hex_def digit_char_def of_char_of)
qed

lemma url_quote_set: "c \<in> set (url_quote safe s) \<Longrightarrow> c \<in> set s \<or> c = CHR ''%'' \<or> is_hex_code c"
proof -
  have "is_hex_code (url_hex (of_char c div 16))" "is_hex_code (url_hex (of_char c mod 16))" for c :: char
    using nat_of_char_less_256 [of c] by (simp_all add: url_hex_digit(2) div_less_iff_less_mult)
  then show "c \<in> set (url_quote safe s) \<Longrightarrow> c \<in> set s \<or> c = CHR ''%'' \<or> is_hex_code c"
    by (auto simp: url_quote_def split: if_splits)
qed

lemma url_quote_notin:
  "x \<notin> set s \<Longrightarrow> x \<noteq> CHR ''%'' \<Longrightarrow> \<not> is_hex_code x \<Longrightarrow> x \<notin> set (url_quote safe s)"
  using url_quote_set by blast

lemma php_urldecode_plain: "c \<noteq> CHR ''%'' \<Longrightarrow> php_urldecode (c # xs) = plus_space c # php_urldecode xs"
proof (cases xs)
  case (Cons a ys)
  then show "c \<noteq> CHR ''%'' \<Longrightarrow> ?thesis" by (cases ys) simp_all
qed simp

lemma hex_code_sep: "\<not> is_hex_code CHR ''&''" "\<not> is_hex_code CHR ''#''"
  by (simp_all add: is_hex_code_def)

lemma php_urldecode_escape:
  assumes "n < 256"
  shows "php_urldecode (CHR ''%'' # url_hex (n div 16) # url_hex (n mod 16) # rest) = char_of n # php_urldecode rest"
proof -
  have "n div 16 < 16" using assms by simp
  then show ?thesis by (simp add: url_hex_digit(1))
qed

text \<open>What PHP reads back from what \<open>requests\<close> quoted: the string itself, with \<open>+\<close> a space.\<close>

lemma php_urldecode_url_quote:
  assumes "CHR ''%'' \<notin> set s" and "CHR ''+'' \<in> set safe"
  shows "php_urldecode (url_quote safe s) = map plus_space s"
  using assms(1)
proof (induction s)
  case (Cons c s)
  then have c: "c \<noteq> CHR ''%''" and IH: "php_urldecode (url_quote safe s) = map plus_space s" by auto
  show ?case
  proof (cases "unreserved c \<or> c \<in> set safe")
    case True
    with c IH show ?thesis by (simp add: url_quote_def php_urldecode_plain)
  next
    case False
    then have "c \<noteq> CHR ''+''" using assms(2) by auto
    then have "plus_space c = c" by (simp add: plus_space_def)
    with False IH php_urldecode_escape [OF nat_of_char_less_256 [of c]] show ?thesis
      by (simp add: url_quote_def char_of_char)
  qed
qed (simp add: url_quote_def)

lemma requote_notify_url:
  assumes "CHR ''%'' \<notin> set p" "CHR ''%'' \<notin> set m" "CHR ''%'' \<notin> set k"
  shows "requote_uri (notify_url notifier_init p m k) =
    notify_url notifier_init (url_quote URL_SAFE p) (url_quote URL_SAFE m) (url_quote URL_SAFE k)"
proof -
  have "CHR ''%'' \<notin> set (notify_url notifier_init p m k)"
    using assms by (simp add: notify_url_def notifier_init_def)
  then show ?thesis
    by (simp add: requote_uri_def unquote_unreserved_plain notify_url_def notifier_init_def url_quote_append)
      (simp add: url_quote_def unreserved_def is_alnum_def)
qed

subsection \<open>Properties of the notifier\<close>

text \<open>C9: sending to an unregistered phone is fatal (\<open>SystemExit\<close>) and sends nothing;
  once the phone is registered with a non-empty key, the same call sends exactly one
  GET of the gateway URL and returns whether the answer was status 200.\<close>

theorem send_message_registration:
  assumes "phones_api_keys n p = None" and "k \<noteq> []" and "net w (served w) = Reply r"
  shows "send_message n p m w = (Inl SystemExit, w) \<and>
    send_message (add_phone_api_key n p k) p m w =
      (Inr (status_code r = 200),
       w\<lparr>trace := trace w @ [HttpGet (notify_url n p m k)], served := Suc (served w)\<rparr>)"
  using send_message_no_key [OF assms(1)] send_message_reply [of "add_phone_api_key n p k" p k, OF _ assms(2,3)]
  by simp

theorem send_message_registration_witness:
  "phones_api_keys notifier_init ''+90xxxxx'' = None \<and> ''API_KEY'' \<noteq> [] \<and>
   net \<lparr>net = \<lambda>_. Reply \<lparr>status_code = 200, resp_text = [], set_cookies = []\<rparr>, served = 0,
      clock = \<lambda>_. \<lparr>year = 2023, month = 11, day = 8\<rparr>, asked = 0, trace = []\<rparr> 0 =
     Reply \<lparr>status_code = 200, resp_text = [], set_cookies = []\<rparr> \<and>
   send_message (add_phone_api_key notifier_init ''+90xxxxx'' ''API_KEY'') ''+90xxxxx'' ''hello''
     \<lparr>net = \<lambda>_. Reply \<lparr>status_code = 200, resp_text = [], set_cookies = []\<rparr>, served = 0,
      clock = \<lambda>_. \<lparr>year = 2023, month = 11, day = 8\<rparr>, asked = 0, trace = []\<rparr> =
   (Inr True, \<lparr>net = \<lambda>_. Reply \<lparr>status_code = 200, resp_text = [], set_cookies = []\<rparr>, served = 1,
      clock = \<lambda>_. \<lparr>year = 2023, month = 11, day = 8\<rparr>, asked = 0,
      trace = [HttpGet (notify_url notifier_init ''+90xxxxx'' ''hello'' ''API_KEY'')]\<rparr>)"
  using send_message_registration [where n = notifier_init and p = "''+90xxxxx''" and k = "''API_KEY''"
      and r = "\<lparr>status_code = 200, resp_text = [], set_cookies = []\<rparr>" and m = "''hello''"
      and w = "\<lparr>net = \<lambda>_. Reply \<lparr>status_code = 200, resp_text = [], set_cookies = []\<rparr>, served = 0,
      clock = \<lambda>_. \<lparr>year = 2023, month = 11, day = 8\<rparr>, asked = 0, trace = []\<rparr>"]
  by (simp add: notifier_init_def)

text \<open>C16: a network failure or timeout of the gateway GET is not turned into \<open>False\<close>:
  \<open>send_message\<close> raises \<open>RequestException\<close> to its caller.\<close>

theorem send_message_network_failure:
  assumes "phones_api_keys n p = Some k" and "k \<noteq> []" and "net w (served w) = Failure"
  shows "fst (send_message n p m w) = Inl RequestException"
  using send_message_failure [OF assms] by simp

theorem send_message_network_failure_witness:
  "phones_api_keys (add_phone_api_key notifier_init ''+90xxxxx'' ''API_KEY'') ''+90xxxxx'' = Some ''API_KEY'' \<and>
   ''API_KEY'' \<noteq> [] \<and>
   net \<lparr>net = \<lambda>_. Failure, served = 0, clock = \<lambda>_. \<lparr>year = 2023, month = 11, day = 8\<rparr>, asked = 0,
      trace = []\<rparr> 0 = Failure \<and>
   fst (send_message (add_phone_api_key notifier_init ''+90xxxxx'' ''API_KEY'') ''+90xxxxx'' ''hello''
     \<lparr>net = \<lambda>_. Failure, served = 0, clock = \<lambda>_. \<lparr>year = 2023, month = 11, day = 8\<rparr>, asked = 0,
      trace = []\<rparr>) = Inl RequestException"
  using send_message_network_failure [where n = "add_phone_api_key notifier_init ''+90xxxxx'' ''API_KEY''"
      and p = "''+90xxxxx''" and k = "''API_KEY''" and m = "''hello''"
      and w = "\<lparr>net = \<lambda>_. Failure, served = 0, clock = \<lambda>_. \<lparr>year = 2023, month = 11, day = 8\<rparr>,
        asked = 0, trace = []\<rparr>"]
  by simp

text \<open>C17: what the gateway reads from the URL \<open>send_message\<close> builds.  \<open>requests\<close>
  escapes what a URL cannot carry and PHP decodes it again, but \<open>+\<close> passes unescaped
  and PHP reads it as a space: when phone, message and key contain no \<open>&\<close>, \<open>#\<close> or
  \<open>%\<close>, the gateway reads each of them with every \<open>+\<close> turned into a space, so the
  scripts' numbers \<open>+90...\<close> arrive as \<open> 90...\<close>.\<close>

theorem notify_url_gateway_reads:
  assumes "CHR ''&'' \<notin> set p" "CHR ''&'' \<notin> set m" "CHR ''&'' \<notin> set k"
    and "CHR ''#'' \<notin> set p" "CHR ''#'' \<notin> set m" "CHR ''#'' \<notin> set k"
    and "CHR ''%'' \<notin> set p" "CHR ''%'' \<notin> set m" "CHR ''%'' \<notin> set k"
  shows "query_param ''phone'' (notify_url notifier_init p m k) = Some (map plus_space p) \<and>
    query_param ''text'' (notify_url notifier_init p m k) = Some (map plus_space m) \<and>
    query_param ''apikey'' (notify_url notifier_init p m k) = Some (map plus_space k)"
proof -
  have sep: "x \<notin> set (url_quote URL_SAFE s)" if "x \<notin> set s" "x \<in> {CHR ''&'', CHR ''#''}" for x s
    using that url_quote_notin hex_code_sep by auto
  have "query_params (requote_uri (notify_url notifier_init p m k)) =
      [(''phone'', url_quote URL_SAFE p), (''text'', url_quote URL_SAFE m), (''apikey'', url_quote URL_SAFE k)]"
    unfolding requote_notify_url [OF assms(7-9)]
    by (rule query_params_notify_url [OF notifier_init_url]) (simp_all add: sep assms(1-6))
  moreover have "php_urldecode ''phone'' = ''phone''" "php_urldecode ''text'' = ''text''"
    "php_urldecode ''apikey'' = ''apikey''"
    by (simp_all add: plus_space_def)
  ultimately show ?thesis
    by (simp add: query_param_def php_urldecode_url_quote assms(7-9))
qed

theorem notify_url_gateway_reads_witness:
  "query_param ''phone'' (notify_url notifier_init ''+90xxxxx''
      (''Free time slots in Altunizade, be quick! '' @ py_repr_list [''10:30'']) ''API_KEY'') =
     Some '' 90xxxxx'' \<and>
   query_param ''text'' (notify_url notifier_init ''+90xxxxx''
      (''Free time slots in Altunizade, be quick! '' @ py_repr_list [''10:30'']) ''API_KEY'') =
     Some (''Free time slots in Altunizade, be quick! '' @ py_repr_list [''10:30''])"
proof -
  have r: "py_repr_list [''10:30''] = [CHR ''['', CHR 0x27, CHR ''1'', CHR ''0'', CHR '':'', CHR ''3'', CHR ''0'',
      CHR 0x27, CHR '']'']"
    by (simp add: py_repr_list_def py_repr_str_def repr_char_def Let_def)
  show ?thesis
    using notify_url_gateway_reads [of "''+90xxxxx''"
        "''Free time slots in Altunizade, be quick! '' @ py_repr_list [''10:30'']" "''API_KEY''"]
    by (simp add: r plus_space_def)
qed

end
