(* ===== verification/Searchers.thy ===== *)
theory Searchers
  imports Finder Notifier
begin

text \<open>
  The three entry points, each the \<open>__main__\<close> block of its script: set up a notifier
  with two phone numbers and a finder with the offices, then poll in
  \<open>while True\<close> inside one \<open>try: ... except Exception as e:\<close> whose handler sends one
  error message to the first phone; after the handler the script ends.
  \<^item> \<open>src/available_date_searcher.py\<close> (\<open>ads_\<close>): each round asks both offices for
    dates before 18-11-2023, notifies both phones per office with a non-empty answer,
    then sleeps 60 seconds;
  \<^item> \<open>src/free_time_slot_searcher_altunizade.py\<close> (\<open>alt_\<close>) and
    \<open>src/free_time_slot_searcher_gayrettepe.py\<close> (\<open>gay_\<close>): each round checks every
    day from today to 17-11-2023 for free slots at the one office, notifies both phones
    for a day with slots, then sleeps 30 seconds.  Their common round is
    \<open>free_slot_sweep\<close>, instantiated with each script's office and texts.
  The loop runs for \<open>fuel\<close> rounds (\<open>poll\<close>); \<open>Polling\<close> is the outcome of a run still
  in the loop after them, \<open>Stopped\<close> of one that left it through the handler.
  \<open>str(e)\<close> is the parameter \<open>str_exc\<close>: the exception's message text is not modelled.
  \<open>free_slot_sweep\<close> reads \<open>date.today()\<close> once per round, as
  \<open>get_dates_between("today", ...)\<close> does.
\<close>

datatype run = Polling | Stopped

text \<open>\<open>whatsapp.send_message(p1, message); whatsapp.send_message(p2, message)\<close>.\<close>

definition notify_two :: "notifier \<Rightarrow> string \<Rightarrow> string \<Rightarrow> string \<Rightarrow> unit pyst" where
  "notify_two whatsapp phone1 phone2 message =
     bindE (send_message whatsapp phone1 message) (\<lambda>_.
       bindE (send_message whatsapp phone2 message) (\<lambda>_. ret ()))"

definition report_error :: "notifier \<Rightarrow> string \<Rightarrow> string \<Rightarrow> run pyst" where
  "report_error whatsapp phone message = bindE (send_message whatsapp phone message) (\<lambda>_. ret Stopped)"

subsection \<open>\<open>available_date_searcher.py\<close>\<close>

definition ADS_PHONE_NUMBER_1 :: string where "ADS_PHONE_NUMBER_1 = ''+90xxxxx''"
definition ADS_PHONE_NUMBER_2 :: string where "ADS_PHONE_NUMBER_2 = ''+90xxxxx''"

definition ads_whatsapp :: notifier where
  "ads_whatsapp =
     add_phone_api_key (add_phone_api_key notifier_init ADS_PHONE_NUMBER_1 ''API_KEY'')
       ADS_PHONE_NUMBER_2 ''API_KEY''"

definition ads_appointments :: finder where
  "ads_appointments = add_office (add_office finder_init ''Altunizade'' 8) ''Gayrettepe'' 1"

definition ads_office :: "finder \<Rightarrow> notifier \<Rightarrow> string \<Rightarrow> unit pyst" where
  "ads_office appointments whatsapp office =
     bindE (find_available_dates appointments office ''18-11-2023'') (\<lambda>free_dates.
       if free_dates \<noteq> [] then
         let message = office @ '' There is a free slot, be fast! '' @ py_repr_list free_dates in
         notify_two whatsapp ADS_PHONE_NUMBER_1 ADS_PHONE_NUMBER_2 message
       else ret ())"

definition ads_sweep :: "finder \<Rightarrow> notifier \<Rightarrow> unit pyst" where
  "ads_sweep appointments whatsapp =
     bindE (for_each (ads_office appointments whatsapp) [''Altunizade'', ''Gayrettepe'']) (\<lambda>_.
       py_sleep 60)"

definition ads_main :: "(exc \<Rightarrow> string) \<Rightarrow> nat \<Rightarrow> run pyst" where
  "ads_main str_exc fuel =
     (let whatsapp = ads_whatsapp in
      try_except
        (let appointments = ads_appointments in
         bindE (poll fuel (ads_sweep appointments whatsapp)) (\<lambda>_. ret Polling))
        (\<lambda>e. report_error whatsapp ADS_PHONE_NUMBER_1
               (''An error occured on iDataAvailableDateSearcher script: '' @ str_exc e)))"

subsection \<open>The free-slot searchers\<close>

definition free_slot_sweep ::
  "finder \<Rightarrow> notifier \<Rightarrow> string \<Rightarrow> string \<Rightarrow> string \<Rightarrow> string \<Rightarrow> unit pyst" where
  "free_slot_sweep appointments whatsapp office phone1 phone2 text_prefix =
     bindE date_today (\<lambda>today.
       bindE (lift (get_dates_between today ''today'' ''17-11-2023'')) (\<lambda>dates_to_check.
         bindE (for_each (\<lambda>date_check.
             bindE (check_for_specific_date appointments office date_check ''free'') (\<lambda>free_time_slots.
               if free_time_slots \<noteq> [] then
                 let message = text_prefix @ py_repr_list free_time_slots in
                 notify_two whatsapp phone1 phone2 message
               else ret ()))
           dates_to_check) (\<lambda>_.
         py_sleep 30)))"

definition ALT_PHONE_NUMBER_1 :: string where "ALT_PHONE_NUMBER_1 = ''+90xxxxx''"
definition ALT_PHONE_NUMBER_2 :: string where "ALT_PHONE_NUMBER_2 = ''+90xxxxx''"

definition alt_whatsapp :: notifier where
  "alt_whatsapp =
     add_phone_api_key (add_phone_api_key notifier_init ALT_PHONE_NUMBER_1 ''API_KEY'')
       ALT_PHONE_NUMBER_2 ''API_KEY''"

definition alt_main :: "(exc \<Rightarrow> string) \<Rightarrow> nat \<Rightarrow> run pyst" where
  "alt_main str_exc fuel =
     (let whatsapp = alt_whatsapp in
      try_except
        (let appointments = add_office finder_init ''Altunizade'' 8 in
         bindE (poll fuel (free_slot_sweep appointments whatsapp ''Altunizade''
                  ALT_PHONE_NUMBER_1 ALT_PHONE_NUMBER_2 ''Free time slots in Altunizade, be quick! '')) (\<lambda>_.
           ret Polling))
        (\<lambda>e. report_error whatsapp ALT_PHONE_NUMBER_1
               (''An error occured on Altunizade script: '' @ str_exc e)))"

definition TELEPHONE_NO_1 :: string where "TELEPHONE_NO_1 = ''+90xxxxxx''"
definition TELEPHONE_NO_2 :: string where "TELEPHONE_NO_2 = ''+90xxxxxx''"

definition gay_whatsapp :: notifier where
  "gay_whatsapp =
     add_phone_api_key (add_phone_api_key notifier_init TELEPHONE_NO_1 ''API_KEY'') TELEPHONE_NO_2 ''API_KEY''"

definition gay_main :: "(exc \<Rightarrow> string) \<Rightarrow> nat \<Rightarrow> run pyst" where
  "gay_main str_exc fuel =
     (let whatsapp = gay_whatsapp in
      try_except
        (let appointments = add_office finder_init ''Gayrettepe'' 1 in
         bindE (poll fuel (free_slot_sweep appointments whatsapp ''Gayrettepe''
                  TELEPHONE_NO_1 TELEPHONE_NO_2 ''There are some free slots in Gayrettepe, be quick: '')) (\<lambda>_.
           ret Polling))
        (\<lambda>e. report_error whatsapp TELEPHONE_NO_1
               (''An error occured on Gayrettepe script: '' @ str_exc e)))"

subsection \<open>Running the searchers\<close>

lemma whatsapp_keys [simp]:
  "phones_api_keys ads_whatsapp ''+90xxxxx'' = Some ''API_KEY''"
  "phones_api_keys alt_whatsapp ''+90xxxxx'' = Some ''API_KEY''"
  "phones_api_keys gay_whatsapp ''+90xxxxxx'' = Some ''API_KEY''"
  by (simp_all add: ads_whatsapp_def alt_whatsapp_def gay_whatsapp_def ADS_PHONE_NUMBER_1_def
      ADS_PHONE_NUMBER_2_def ALT_PHONE_NUMBER_1_def ALT_PHONE_NUMBER_2_def TELEPHONE_NO_1_def
      TELEPHONE_NO_2_def)

lemma report_error_run:
  assumes "phones_api_keys wa p = Some k" "k \<noteq> []" "net w (served w) = Reply r"
  shows "report_error wa p msg w =
    (Inr Stopped, w\<lparr>trace := trace w @ [HttpGet (notify_url wa p msg k)], served := Suc (served w)\<rparr>)"
  by (simp add: report_error_def bindE_def send_message_reply [OF assms] ret_def)

text \<open>One office's request against a server that answers every request with the same
  page, which has the form token and no dates.\<close>

lemma ads_office_quiet:
  assumes "net w = (\<lambda>_. Reply r)" "status_code r = 200" "csrf_of (resp_text r) = Inr tok"
    and "parse_available_dates (resp_text r) = []" and "exit_ids f office = Some eid"
  shows "ads_office f wa office w =
    (Inr (), w\<lparr>trace := trace w @ session_events
        (SessionPost URL_GET_DATE (get_headers (init_requester r tok))
           (getdate_data (consular_id f) eid (service_type_id f) (calendar_type f) (total_person f))
           (jar (init_requester r tok))),
       served := Suc (Suc (served w))\<rparr>)"
proof -
  have "form_ok (net w) (served w) r tok" using assms(1-3) by (simp add: form_ok_def)
  then show ?thesis
    using find_available_dates_run [OF assms(5), of w r tok r] assms
    by (simp add: ads_office_def bindE_def ret_def)
qed

lemma ads_sweep_quiet:
  assumes "net w = (\<lambda>_. Reply r)" "status_code r = 200" "csrf_of (resp_text r) = Inr tok"
    and "parse_available_dates (resp_text r) = []"
  shows "ads_sweep ads_appointments wa w =
    (Inr (), w\<lparr>trace := trace w @
        session_events (SessionPost URL_GET_DATE (get_headers (init_requester r tok))
           (getdate_data 2 8 1 2 1) (jar (init_requester r tok))) @
        session_events (SessionPost URL_GET_DATE (get_headers (init_requester r tok))
           (getdate_data 2 1 1 2 1) (jar (init_requester r tok))) @ [Sleep 60],
       served := served w + 4\<rparr>)"
proof -
  have ids: "exit_ids ads_appointments ''Altunizade'' = Some 8"
    "exit_ids ads_appointments ''Gayrettepe'' = Some 1"
    by (simp_all add: ads_appointments_def)
  note one = ads_office_quiet [OF _ assms(2-4)]
  show ?thesis
    using assms(1)
    by (simp add: ads_sweep_def bindE_def ret_def py_sleep_def emit_def one [OF _ ids(1)] one [OF _ ids(2)])
      (simp add: ads_appointments_def)
qed

lemma ads_main_loop:
  "ads_main str_exc fuel =
     try_except (bindE (poll fuel (ads_sweep ads_appointments ads_whatsapp)) (\<lambda>_. ret Polling))
       (\<lambda>e. report_error ads_whatsapp ''+90xxxxx''
              (''An error occured on iDataAvailableDateSearcher script: '' @ str_exc e))"
  by (simp add: ads_main_def ADS_PHONE_NUMBER_1_def)

lemma alt_main_loop:
  "alt_main str_exc fuel =
     try_except (bindE (poll fuel (free_slot_sweep (add_office finder_init ''Altunizade'' 8) alt_whatsapp
        ''Altunizade'' ALT_PHONE_NUMBER_1 ALT_PHONE_NUMBER_2 ''Free time slots in Altunizade, be quick! ''))
        (\<lambda>_. ret Polling))
       (\<lambda>e. report_error alt_whatsapp ''+90xxxxx'' (''An error occured on Altunizade script: '' @ str_exc e))"
  by (simp add: alt_main_def ALT_PHONE_NUMBER_1_def)

lemma get_dates_between_after:
  assumes "valid_date today" "date_of_dmy until_date = Inr e" "date_less e today"
  shows "get_dates_between today ''today'' until_date = Inr []"
proof -
  have "toordinal e < toordinal today"
    using assms date_of_dmy_valid [OF assms(2)] by (simp add: date_less_iff_toordinal)
  then show ?thesis using get_dates_between_Inr [of "''today''" today today, OF _ assms(1,2)] by simp
qed

lemma date_of_dmy_end: "date_of_dmy ''17-11-2023'' = Inr \<lparr>year = 2023, month = 11, day = 17\<rparr>"
  by (simp add: date_eval_simps)

lemma free_slot_sweep_idle:
  assumes "valid_date (clock w (asked w))"
    and "date_less \<lparr>year = 2023, month = 11, day = 17\<rparr> (clock w (asked w))"
  shows "free_slot_sweep f wa office p1 p2 t w =
    (Inr (), w\<lparr>trace := trace w @ [Sleep 30], asked := Suc (asked w)\<rparr>)"
  using get_dates_between_after [OF assms(1) date_of_dmy_end assms(2)]
  by (simp add: free_slot_sweep_def bindE_def date_today_def py_sleep_def ret_def emit_def)

lemma concat_replicate_single: "concat (replicate k [x]) = replicate k x"
  by (induction k) simp_all

lemma ads_sweep_init_raise:
  "requester_init w = (Inl e, w1) \<Longrightarrow> ads_sweep ads_appointments wa w = (Inl e, w1)"
  by (simp add: ads_sweep_def ads_office_def find_available_dates_def ads_appointments_def
      with_requester_init_raise bindE_def)

lemma ads_main_caught:
  assumes "poll fuel (ads_sweep ads_appointments ads_whatsapp) w = (Inl e, w1)" "e \<noteq> SystemExit"
  shows "ads_main str_exc fuel w =
    report_error ads_whatsapp ''+90xxxxx'' (''An error occured on iDataAvailableDateSearcher script: '' @ str_exc e) w1"
  using assms by (simp add: ads_main_loop bindE_def try_except_def is_exception_def)

lemma checks_quiet:
  assumes "net w = (\<lambda>_. Reply r)" "status_code r = 200" "csrf_of (resp_text r) = Inr tok"
    and "parse_available_hours (resp_text r) ''free'' = []" and "exit_ids f office = Some eid"
    and "g [] = ret ()"
  shows "for_each (\<lambda>d. bindE (check_for_specific_date f office d ''free'') g) ds w =
    (Inr (), w\<lparr>trace := trace w @ concat (map (\<lambda>d. session_events
        (SessionPost URL_SEND_DATE (get_headers (init_requester r tok))
          (senddate_data d (total_person f) (consular_id f) eid (calendar_type f) (service_type_id f)
             (personal_id f)) (jar (init_requester r tok)))) ds),
      served := served w + 2 * length ds\<rparr>)"
  using assms(1)
proof (induction ds arbitrary: w)
  case Nil
  then show ?case by (simp add: ret_def)
next
  case (Cons d ds)
  have "form_ok (net w) (served w) r tok" "net w (Suc (served w)) = Reply r"
    using Cons.prems assms(2,3) by (simp_all add: form_ok_def)
  from check_for_specific_date_run [OF assms(5) this, of d "''free''"] Cons.IH [of "w\<lparr>trace := _, served := _\<rparr>"]
    Cons.prems
  show ?case by (simp add: bindE_def assms(4,6) ret_def)
qed

lemma gay_main_loop:
  "gay_main str_exc fuel =
     try_except (bindE (poll fuel (free_slot_sweep (add_office finder_init ''Gayrettepe'' 1) gay_whatsapp
        ''Gayrettepe'' TELEPHONE_NO_1 TELEPHONE_NO_2 ''There are some free slots in Gayrettepe, be quick: ''))
        (\<lambda>_. ret Polling))
       (\<lambda>e. report_error gay_whatsapp ''+90xxxxxx'' (''An error occured on Gayrettepe script: '' @ str_exc e))"
  by (simp add: gay_main_def TELEPHONE_NO_1_def)

text \<open>After the fixed end date every free-slot round only sleeps, for any number of rounds.\<close>

lemma free_slot_poll_idle:
  assumes "\<forall>i. valid_date (clock w i) \<and> date_less \<lparr>year = 2023, month = 11, day = 17\<rparr> (clock w i)"
  shows "poll fuel (free_slot_sweep f wa office p1 p2 t) w =
    (Inr (), w\<lparr>trace := trace w @ replicate fuel (Sleep 30), asked := asked w + fuel\<rparr>)"
proof -
  have "poll fuel (free_slot_sweep f wa office p1 p2 t) w =
    (Inr (), w\<lparr>trace := trace w @ concat (replicate fuel [Sleep 30]), served := served w + fuel * 0,
       asked := asked w + fuel * 1\<rparr>)"
    by (rule poll_steady [where P = "\<lambda>v. clock v = clock w"]) (simp_all add: free_slot_sweep_idle assms)
  then show ?thesis by (simp add: concat_replicate_single)
qed

text \<open>The checks of one free-slot round against a server whose every page has the token
  and the free slots \<open>hs\<close>: per day one session with its send-date POST, then one
  message to each phone.\<close>

lemma checks_busy:
  assumes "net w = (\<lambda>_. Reply r)" "status_code r = 200" "csrf_of (resp_text r) = Inr tok"
    and "parse_available_hours (resp_text r) ''free'' = hs" "hs \<noteq> []" "exit_ids f office = Some eid"
    and "phones_api_keys wa phone_a = Some ka" "ka \<noteq> []" "phones_api_keys wa phone_b = Some kb" "kb \<noteq> []"
  shows "for_each (\<lambda>date_check.
      bindE (check_for_specific_date f office date_check ''free'') (\<lambda>free_time_slots.
        if free_time_slots \<noteq> [] then
          let message = t @ py_repr_list free_time_slots in notify_two wa phone_a phone_b message
        else ret ())) ds w =
    (Inr (), w\<lparr>trace := trace w @ concat (map (\<lambda>d. session_events
        (SessionPost URL_SEND_DATE (get_headers (init_requester r tok))
          (senddate_data d (total_person f) (consular_id f) eid (calendar_type f) (service_type_id f)
             (personal_id f)) (jar (init_requester r tok))) @
        [HttpGet (notify_url wa phone_a (t @ py_repr_list hs) ka), HttpGet (notify_url wa phone_b (t @ py_repr_list hs) kb)]) ds),
      served := served w + 4 * length ds\<rparr>)"
  using assms(1)
proof (induction ds arbitrary: w)
  case Nil
  then show ?case by (simp add: ret_def)
next
  case (Cons d ds)
  have "form_ok (net w) (served w) r tok" "net w (Suc (served w)) = Reply r"
    using Cons.prems assms(2,3) by (simp_all add: form_ok_def)
  note chk = check_for_specific_date_run [OF assms(6) this, of d "''free''"]
  let ?w2 = "w\<lparr>trace := trace w @ session_events
        (SessionPost URL_SEND_DATE (get_headers (init_requester r tok))
          (senddate_data d (total_person f) (consular_id f) eid (calendar_type f) (service_type_id f)
             (personal_id f)) (jar (init_requester r tok))), served := Suc (Suc (served w))\<rparr>"
  have n2: "net ?w2 (served ?w2) = Reply r" "net ?w2 (Suc (served ?w2)) = Reply r"
    using Cons.prems by simp_all
  have "notify_two wa phone_a phone_b (t @ py_repr_list hs) ?w2 =
    (Inr (), ?w2\<lparr>trace := trace ?w2 @ [HttpGet (notify_url wa phone_a (t @ py_repr_list hs) ka),
        HttpGet (notify_url wa phone_b (t @ py_repr_list hs) kb)], served := Suc (Suc (served ?w2))\<rparr>)"
    using send_message_reply [OF assms(7,8) n2(1)] send_message_reply [OF assms(9,10), of "?w2\<lparr>trace := _, served := _\<rparr>"]
      n2(2)
    by (simp add: notify_two_def bindE_def ret_def)
  with chk Cons.IH [of "?w2\<lparr>trace := _, served := _\<rparr>"] Cons.prems
  show ?case by (simp add: bindE_def assms(4,5) Let_def)
qed

lemma dates_last_two:
  "get_dates_between \<lparr>year = 2023, month = 11, day = 16\<rparr> ''today'' ''17-11-2023'' =
     Inr [''16-11-2023'', ''17-11-2023'']"
proof -
  let ?s = "\<lparr>year = 2023, month = 11, day = 16\<rparr>" and ?e = "\<lparr>year = 2023, month = 11, day = 17\<rparr>"
  have vs: "valid_date ?s"
    by (simp add: valid_date_def days_in_month_def DAYS_IN_MONTH_def MINYEAR_def MAXYEAR_def is_leap_def)
  have os: "toordinal ?s = 738840" and oe: "toordinal ?e = 738841"
    by (simp_all add: toordinal_def days_before_year_def days_before_month_def DAYS_BEFORE_MONTH_def is_leap_def)
  have f: "fromordinal 738840 = ?s" "fromordinal 738841 = ?e"
    by (simp_all add: fromordinal_def Let_def DAYS_BEFORE_MONTH_def DAYS_IN_MONTH_def drop_bit_eq_div)
  have r: "[0..<nat (int 738841 - int 738840 + 1)] = [0, 1]" by (simp add: upt_rec)
  have "get_dates_between ?s ''today'' ''17-11-2023'' =
     Inr (map (\<lambda>k. strftime_dmY (fromordinal (toordinal ?s + k)))
       [0..<nat (int (toordinal ?e) - int (toordinal ?s) + 1)])"
    by (rule get_dates_between_Inr [OF _ vs date_of_dmy_end]) simp
  also have "\<dots> = Inr (map (\<lambda>k. strftime_dmY (fromordinal (738840 + k))) [0, 1])"
    by (simp only: os oe r)
  also have "\<dots> = Inr [''16-11-2023'', ''17-11-2023'']"
    by (simp add: f strftime_dmY_def zpad_def show_nat.simps)
  finally show ?thesis .
qed

subsection \<open>Properties of the entry points\<close>

text \<open>C10: liveness of \<open>available_date_searcher.py\<close>: against a server that answers
  every request with a form page carrying the token and listing no dates, every round
  returns, so after any number of rounds the script is still polling; each round opens
  and closes one session per office, Altunizade (exit id 8) before Gayrettepe (exit id 1),
  and then sleeps 60 seconds.\<close>

theorem ads_main_quiet:
  assumes "net w = (\<lambda>_. Reply r)" "status_code r = 200" "csrf_of (resp_text r) = Inr tok"
    and "parse_available_dates (resp_text r) = []"
  shows "ads_main str_exc fuel w =
    (Inr Polling, w\<lparr>trace := trace w @ concat (replicate fuel
        (session_events (SessionPost URL_GET_DATE (get_headers (init_requester r tok))
           (getdate_data 2 8 1 2 1) (jar (init_requester r tok))) @
         session_events (SessionPost URL_GET_DATE (get_headers (init_requester r tok))
           (getdate_data 2 1 1 2 1) (jar (init_requester r tok))) @ [Sleep 60])),
       served := served w + fuel * 4\<rparr>)"
proof -
  have "poll fuel (ads_sweep ads_appointments ads_whatsapp) w =
    (Inr (), w\<lparr>trace := trace w @ concat (replicate fuel
        (session_events (SessionPost URL_GET_DATE (get_headers (init_requester r tok))
           (getdate_data 2 8 1 2 1) (jar (init_requester r tok))) @
         session_events (SessionPost URL_GET_DATE (get_headers (init_requester r tok))
           (getdate_data 2 1 1 2 1) (jar (init_requester r tok))) @ [Sleep 60])),
       served := served w + fuel * 4, asked := asked w + fuel * 0\<rparr>)"
    by (rule poll_steady [where P = "\<lambda>v. net v = (\<lambda>_. Reply r)"])
      (simp_all add: ads_sweep_quiet [OF _ assms(2-4)] assms(1))
  then show ?thesis by (simp add: ads_main_loop bindE_def try_except_def ret_def)
qed

theorem ads_main_quiet_witness:
  "ads_main (\<lambda>_. []) 2
     \<lparr>net = \<lambda>_. Reply \<lparr>status_code = 200,
        resp_text = [Tag ''meta'' [(''name'', ''csrf-token''), (''content'', ''tok'')] []], set_cookies = []\<rparr>,
      served = 0, clock = \<lambda>_. \<lparr>year = 2023, month = 11, day = 8\<rparr>, asked = 0, trace = []\<rparr> =
   (Inr Polling,
    \<lparr>net = \<lambda>_. Reply \<lparr>status_code = 200,
        resp_text = [Tag ''meta'' [(''name'', ''csrf-token''), (''content'', ''tok'')] []], set_cookies = []\<rparr>,
     served = 8, clock = \<lambda>_. \<lparr>year = 2023, month = 11, day = 8\<rparr>, asked = 0,
     trace = concat (replicate 2
        (session_events (SessionPost URL_GET_DATE (get_headers (init_requester \<lparr>status_code = 200,
           resp_text = [Tag ''meta'' [(''name'', ''csrf-token''), (''content'', ''tok'')] []], set_cookies = []\<rparr> ''tok''))
           (getdate_data 2 8 1 2 1) (jar (init_requester \<lparr>status_code = 200,
           resp_text = [Tag ''meta'' [(''name'', ''csrf-token''), (''content'', ''tok'')] []], set_cookies = []\<rparr> ''tok''))) @
         session_events (SessionPost URL_GET_DATE (get_headers (init_requester \<lparr>status_code = 200,
           resp_text = [Tag ''meta'' [(''name'', ''csrf-token''), (''content'', ''tok'')] []], set_cookies = []\<rparr> ''tok''))
           (getdate_data 2 1 1 2 1) (jar (init_requester \<lparr>status_code = 200,
           resp_text = [Tag ''meta'' [(''name'', ''csrf-token''), (''content'', ''tok'')] []], set_cookies = []\<rparr> ''tok''))) @
         [Sleep 60]))\<rparr>)"
proof -
  have c: "csrf_of [Tag ''meta'' [(''name'', ''csrf-token''), (''content'', ''tok'')] []] = Inr ''tok''"
    by (simp add: csrf_of_def find_tag_def tag_getitem_def)
  have d: "parse_available_dates [Tag ''meta'' [(''name'', ''csrf-token''), (''content'', ''tok'')] []] = []"
    by (simp add: parse_available_dates_def soup_eval_simps)
  show ?thesis
    using ads_main_quiet [where w = "\<lparr>net = \<lambda>_. Reply \<lparr>status_code = 200,
        resp_text = [Tag ''meta'' [(''name'', ''csrf-token''), (''content'', ''tok'')] []], set_cookies = []\<rparr>,
      served = 0, clock = \<lambda>_. \<lparr>year = 2023, month = 11, day = 8\<rparr>, asked = 0, trace = []\<rparr>"
      and r = "\<lparr>status_code = 200,
        resp_text = [Tag ''meta'' [(''name'', ''csrf-token''), (''content'', ''tok'')] []], set_cookies = []\<rparr>"
      and tok = "''tok''" and str_exc = "\<lambda>_. []" and fuel = 2] c d
    by simp
qed

text \<open>C18: in \<open>free_time_slot_searcher_altunizade.py\<close> the end of the date range is fixed
  at 17-11-2023: on every day after it the range is empty, so each round sends no request
  at all and only sleeps 30 seconds, forever.\<close>

theorem alt_main_idle:
  assumes "\<forall>i. valid_date (clock w i) \<and> date_less \<lparr>year = 2023, month = 11, day = 17\<rparr> (clock w i)"
  shows "alt_main str_exc fuel w =
    (Inr Polling, w\<lparr>trace := trace w @ replicate fuel (Sleep 30), asked := asked w + fuel\<rparr>)"
  by (simp add: alt_main_loop bindE_def try_except_def ret_def free_slot_poll_idle [OF assms])

theorem alt_main_idle_witness:
  "(\<forall>i. valid_date ((\<lambda>_. \<lparr>year = 2026, month = 11, day = 9\<rparr>) i) \<and>
      date_less \<lparr>year = 2023, month = 11, day = 17\<rparr> ((\<lambda>_. \<lparr>year = 2026, month = 11, day = 9\<rparr>) i)) \<and>
   alt_main (\<lambda>_. []) 3 \<lparr>net = \<lambda>_. Failure, served = 0, clock = \<lambda>_. \<lparr>year = 2026, month = 11, day = 9\<rparr>,
      asked = 0, trace = []\<rparr> =
   (Inr Polling, \<lparr>net = \<lambda>_. Failure, served = 0, clock = \<lambda>_. \<lparr>year = 2026, month = 11, day = 9\<rparr>,
      asked = 3, trace = [Sleep 30, Sleep 30, Sleep 30]\<rparr>)"
proof -
  have h: "\<forall>i. valid_date ((\<lambda>_. \<lparr>year = 2026, month = 11, day = 9\<rparr>) i) \<and>
      date_less \<lparr>year = 2023, month = 11, day = 17\<rparr> ((\<lambda>_. \<lparr>year = 2026, month = 11, day = 9\<rparr>) i)"
    by (simp add: valid_date_def days_in_month_def DAYS_IN_MONTH_def MINYEAR_def MAXYEAR_def is_leap_def
        date_less_def)
  show ?thesis
    using alt_main_idle [of "\<lparr>net = \<lambda>_. Failure, served = 0, clock = \<lambda>_. \<lparr>year = 2026, month = 11, day = 9\<rparr>,
      asked = 0, trace = []\<rparr>" "\<lambda>_. []" 3] h by (simp add: numeral_eq_Suc)
qed

text \<open>C5: an exception other than \<open>SystemExit\<close> that escapes the polling loop of
  \<open>available_date_searcher.py\<close> is reported by exactly one message, to the first phone,
  after which the script ends.\<close>

theorem ads_main_reports_error:
  assumes "poll fuel (ads_sweep ads_appointments ads_whatsapp) w = (Inl e, w1)" "e \<noteq> SystemExit"
    and "net w1 (served w1) = Reply r"
  shows "ads_main str_exc fuel w =
    (Inr Stopped, w1\<lparr>trace := trace w1 @ [HttpGet (notify_url ads_whatsapp ''+90xxxxx''
        (''An error occured on iDataAvailableDateSearcher script: '' @ str_exc e) ''API_KEY'')],
      served := Suc (served w1)\<rparr>)"
  using report_error_run [OF whatsapp_keys(1) _ assms(3)] by (simp add: ads_main_caught [OF assms(1,2)])

theorem ads_main_reports_error_witness:
  "poll 1 (ads_sweep ads_appointments ads_whatsapp)
     \<lparr>net = \<lambda>i. if i = 0 then Failure else Reply \<lparr>status_code = 200, resp_text = [], set_cookies = []\<rparr>,
      served = 0, clock = \<lambda>_. \<lparr>year = 2023, month = 11, day = 8\<rparr>, asked = 0, trace = []\<rparr> =
     (Inl RequestException,
      \<lparr>net = \<lambda>i. if i = 0 then Failure else Reply \<lparr>status_code = 200, resp_text = [], set_cookies = []\<rparr>,
       served = 1, clock = \<lambda>_. \<lparr>year = 2023, month = 11, day = 8\<rparr>, asked = 0,
       trace = [SessionOpen, SessionGet URL_APPOINTMENT_FORM]\<rparr>) \<and>
   RequestException \<noteq> SystemExit \<and>
   ads_main (\<lambda>_. ''timeout'') 1
     \<lparr>net = \<lambda>i. if i = 0 then Failure else Reply \<lparr>status_code = 200, resp_text = [], set_cookies = []\<rparr>,
      served = 0, clock = \<lambda>_. \<lparr>year = 2023, month = 11, day = 8\<rparr>, asked = 0, trace = []\<rparr> =
     (Inr Stopped,
      \<lparr>net = \<lambda>i. if i = 0 then Failure else Reply \<lparr>status_code = 200, resp_text = [], set_cookies = []\<rparr>,
       served = 2, clock = \<lambda>_. \<lparr>year = 2023, month = 11, day = 8\<rparr>, asked = 0,
       trace = [SessionOpen, SessionGet URL_APPOINTMENT_FORM,
         HttpGet (notify_url ads_whatsapp ''+90xxxxx''
           (''An error occured on iDataAvailableDateSearcher script: '' @ ''timeout'') ''API_KEY'')]\<rparr>)"
proof -
  have p: "poll 1 (ads_sweep ads_appointments ads_whatsapp)
     \<lparr>net = \<lambda>i. if i = 0 then Failure else Reply \<lparr>status_code = 200, resp_text = [], set_cookies = []\<rparr>,
      served = 0, clock = \<lambda>_. \<lparr>year = 2023, month = 11, day = 8\<rparr>, asked = 0, trace = []\<rparr> =
     (Inl RequestException,
      \<lparr>net = \<lambda>i. if i = 0 then Failure else Reply \<lparr>status_code = 200, resp_text = [], set_cookies = []\<rparr>,
       served = 1, clock = \<lambda>_. \<lparr>year = 2023, month = 11, day = 8\<rparr>, asked = 0,
       trace = [SessionOpen, SessionGet URL_APPOINTMENT_FORM]\<rparr>)"
    by (simp add: bindE_def ads_sweep_init_raise requester_init_eq)
  show ?thesis
    using ads_main_reports_error [OF p, where str_exc = "\<lambda>_. ''timeout''"
        and r = "\<lparr>status_code = 200, resp_text = [], set_cookies = []\<rparr>"] p by simp
qed

text \<open>C6: \<open>exit()\<close> raises \<open>SystemExit\<close>, which \<open>except Exception\<close> does not catch: when
  the loop of \<open>available_date_searcher.py\<close> exits (e.g. the form page is not status 200),
  the script ends with no error message sent.\<close>

theorem ads_main_exit_unreported:
  assumes "poll fuel (ads_sweep ads_appointments ads_whatsapp) w = (Inl SystemExit, w1)"
  shows "ads_main str_exc fuel w = (Inl SystemExit, w1)"
  using assms by (simp add: ads_main_loop bindE_def try_except_def is_exception_def)

theorem ads_main_exit_unreported_witness:
  "poll 1 (ads_sweep ads_appointments ads_whatsapp)
     \<lparr>net = \<lambda>_. Reply \<lparr>status_code = 503, resp_text = [], set_cookies = []\<rparr>,
      served = 0, clock = \<lambda>_. \<lparr>year = 2023, month = 11, day = 8\<rparr>, asked = 0, trace = []\<rparr> =
     (Inl SystemExit,
      \<lparr>net = \<lambda>_. Reply \<lparr>status_code = 503, resp_text = [], set_cookies = []\<rparr>,
       served = 1, clock = \<lambda>_. \<lparr>year = 2023, month = 11, day = 8\<rparr>, asked = 0,
       trace = [SessionOpen, SessionGet URL_APPOINTMENT_FORM]\<rparr>) \<and>
   ads_main (\<lambda>_. []) 1
     \<lparr>net = \<lambda>_. Reply \<lparr>status_code = 503, resp_text = [], set_cookies = []\<rparr>,
      served = 0, clock = \<lambda>_. \<lparr>year = 2023, month = 11, day = 8\<rparr>, asked = 0, trace = []\<rparr> =
     (Inl SystemExit,
      \<lparr>net = \<lambda>_. Reply \<lparr>status_code = 503, resp_text = [], set_cookies = []\<rparr>,
       served = 1, clock = \<lambda>_. \<lparr>year = 2023, month = 11, day = 8\<rparr>, asked = 0,
       trace = [SessionOpen, SessionGet URL_APPOINTMENT_FORM]\<rparr>)"
proof -
  have p: "poll 1 (ads_sweep ads_appointments ads_whatsapp)
     \<lparr>net = \<lambda>_. Reply \<lparr>status_code = 503, resp_text = [], set_cookies = []\<rparr>,
      served = 0, clock = \<lambda>_. \<lparr>year = 2023, month = 11, day = 8\<rparr>, asked = 0, trace = []\<rparr> =
     (Inl SystemExit,
      \<lparr>net = \<lambda>_. Reply \<lparr>status_code = 503, resp_text = [], set_cookies = []\<rparr>,
       served = 1, clock = \<lambda>_. \<lparr>year = 2023, month = 11, day = 8\<rparr>, asked = 0,
       trace = [SessionOpen, SessionGet URL_APPOINTMENT_FORM]\<rparr>)"
    by (simp add: bindE_def ads_sweep_init_raise requester_init_eq)
  show ?thesis using ads_main_exit_unreported [OF p, where str_exc = "\<lambda>_. []"] p by simp
qed

text \<open>C1: the specification's end-to-end scenario.  Altunizade (exit id 8) lists
  10-11-2023 and 20-11-2023, the cut-off is 18-11-2023, Gayrettepe lists nothing.  One
  round of \<open>available_date_searcher.py\<close> then sends the message naming
  \<open>['10-11-2023']\<close> once per registered phone entry; both entries are the same
  placeholder number, so that number receives it twice.  The round then queries
  Gayrettepe (exit id 1) and sleeps 60 seconds.\<close>

theorem ads_sweep_spec_scenario:
  assumes fa: "form_ok (net w) (served w) ra ta" and da: "net w (served w + 1) = Reply pa"
    and pa: "parse_available_dates (resp_text pa) = [''10-11-2023'', ''20-11-2023'']"
    and na: "net w (served w + 2) = Reply ma" and nb: "net w (served w + 3) = Reply mb"
    and fg: "form_ok (net w) (served w + 4) rg tg" and dg: "net w (served w + 5) = Reply pg"
    and pg: "parse_available_dates (resp_text pg) = []"
  shows "ads_sweep ads_appointments ads_whatsapp w =
    (Inr (), w\<lparr>trace := trace w @
        session_events (SessionPost URL_GET_DATE (get_headers (init_requester ra ta))
          (getdate_data 2 8 1 2 1) (jar (init_requester ra ta))) @
        [HttpGet (notify_url ads_whatsapp ''+90xxxxx''
           (''Altunizade There is a free slot, be fast! ['' @ [CHR 0x27] @ ''10-11-2023'' @ [CHR 0x27] @ '']'')
           ''API_KEY''),
         HttpGet (notify_url ads_whatsapp ''+90xxxxx''
           (''Altunizade There is a free slot, be fast! ['' @ [CHR 0x27] @ ''10-11-2023'' @ [CHR 0x27] @ '']'')
           ''API_KEY'')] @
        session_events (SessionPost URL_GET_DATE (get_headers (init_requester rg tg))
          (getdate_data 2 1 1 2 1) (jar (init_requester rg tg))) @ [Sleep 60],
      served := served w + 6\<rparr>)"
proof -
  let ?msg = "''Altunizade There is a free slot, be fast! ['' @ [CHR 0x27] @ ''10-11-2023'' @ [CHR 0x27] @ '']''"
  let ?u = "notify_url ads_whatsapp ''+90xxxxx'' ?msg ''API_KEY''"
  let ?ea = "SessionPost URL_GET_DATE (get_headers (init_requester ra ta)) (getdate_data 2 8 1 2 1)
    (jar (init_requester ra ta))"
  let ?eg = "SessionPost URL_GET_DATE (get_headers (init_requester rg tg)) (getdate_data 2 1 1 2 1)
    (jar (init_requester rg tg))"
  let ?w1 = "w\<lparr>trace := trace w @ session_events ?ea, served := Suc (Suc (served w))\<rparr>"
  let ?w2 = "?w1\<lparr>trace := trace ?w1 @ [HttpGet ?u, HttpGet ?u], served := Suc (Suc (served ?w1))\<rparr>"
  have ids: "exit_ids ads_appointments ''Altunizade'' = Some 8"
    "exit_ids ads_appointments ''Gayrettepe'' = Some 1"
    by (simp_all add: ads_appointments_def)
  have params: "consular_id ads_appointments = 2" "service_type_id ads_appointments = 1"
    "calendar_type ads_appointments = 2" "total_person ads_appointments = 1"
    by (simp_all add: ads_appointments_def)
  have cut: "remove_dates_before [''10-11-2023'', ''20-11-2023''] ''18-11-2023'' = Inr [''10-11-2023'']"
    by (simp add: remove_dates_before_def date_less_def date_eval_simps)
  have rep: "py_repr_list [''10-11-2023''] = ''['' @ [CHR 0x27] @ ''10-11-2023'' @ [CHR 0x27] @ '']''"
    by (simp add: py_repr_list_def py_repr_str_def repr_char_def Let_def)
  have a: "find_available_dates ads_appointments ''Altunizade'' ''18-11-2023'' w = (Inr [''10-11-2023''], ?w1)"
    using find_available_dates_run [OF ids(1) fa, of pa] da pa cut by (simp add: params)
  have n: "notify_two ads_whatsapp ADS_PHONE_NUMBER_1 ADS_PHONE_NUMBER_2 m ?w1 = (Inr (), ?w2)"
    if "m = ''Altunizade'' @ '' There is a free slot, be fast! '' @ py_repr_list [''10-11-2023'']" for m
  proof -
    have "net ?w1 (served ?w1) = Reply ma" "net ?w1 (Suc (served ?w1)) = Reply mb"
      using na nb by (simp_all add: numeral_eq_Suc)
    then show ?thesis
      using that by (simp add: notify_two_def bindE_def ret_def send_message_reply rep ADS_PHONE_NUMBER_1_def
          ADS_PHONE_NUMBER_2_def)
  qed
  have g: "find_available_dates ads_appointments ''Gayrettepe'' ''18-11-2023'' v =
      (Inr [], v\<lparr>trace := trace v @ session_events ?eg, served := Suc (Suc (served v))\<rparr>)"
    if "net v = net w" "served v = Suc (Suc (Suc (Suc (served w))))" for v
  proof -
    have "form_ok (net v) (served v) rg tg" "net v (Suc (served v)) = Reply pg"
      using fg dg that by (simp_all add: numeral_eq_Suc)
    from find_available_dates_run [OF ids(2) this] pg show ?thesis by (simp add: params)
  qed
  show ?thesis
    by (simp add: ads_sweep_def ads_office_def bindE_def a n rep g py_sleep_def emit_def ret_def)
qed

theorem ads_sweep_spec_scenario_witness:
  "ads_sweep ads_appointments ads_whatsapp
     \<lparr>net = \<lambda>i. if i = 1 then Reply \<lparr>status_code = 200, resp_text = [Tag ''div'' [(''class'', ''form-control'')] [Text ''10-11-2023''],
        Tag ''div'' [(''class'', ''form-control'')] [Text ''20-11-2023'']], set_cookies = []\<rparr> else Reply \<lparr>status_code = 200, resp_text = [Tag ''meta'' [(''name'', ''csrf-token''), (''content'', ''t'')] []],
        set_cookies = []\<rparr>,
      served = 0, clock = \<lambda>_. \<lparr>year = 2023, month = 11, day = 8\<rparr>, asked = 0, trace = []\<rparr> =
   (Inr (), \<lparr>net = \<lambda>i. if i = 1 then Reply \<lparr>status_code = 200, resp_text = [Tag ''div'' [(''class'', ''form-control'')] [Text ''10-11-2023''],
        Tag ''div'' [(''class'', ''form-control'')] [Text ''20-11-2023'']], set_cookies = []\<rparr> else Reply \<lparr>status_code = 200, resp_text = [Tag ''meta'' [(''name'', ''csrf-token''), (''content'', ''t'')] []],
        set_cookies = []\<rparr>,
      served = 6, clock = \<lambda>_. \<lparr>year = 2023, month = 11, day = 8\<rparr>, asked = 0,
      trace = session_events (SessionPost URL_GET_DATE (get_headers (init_requester \<lparr>status_code = 200, resp_text = [Tag ''meta'' [(''name'', ''csrf-token''), (''content'', ''t'')] []],
        set_cookies = []\<rparr> ''t''))
          (getdate_data 2 8 1 2 1) (jar (init_requester \<lparr>status_code = 200, resp_text = [Tag ''meta'' [(''name'', ''csrf-token''), (''content'', ''t'')] []],
        set_cookies = []\<rparr> ''t''))) @
        [HttpGet (notify_url ads_whatsapp ''+90xxxxx'' (''Altunizade There is a free slot, be fast! ['' @ [CHR 0x27] @ ''10-11-2023'' @ [CHR 0x27] @ '']'') ''API_KEY''),
         HttpGet (notify_url ads_whatsapp ''+90xxxxx'' (''Altunizade There is a free slot, be fast! ['' @ [CHR 0x27] @ ''10-11-2023'' @ [CHR 0x27] @ '']'') ''API_KEY'')] @
        session_events (SessionPost URL_GET_DATE (get_headers (init_requester \<lparr>status_code = 200, resp_text = [Tag ''meta'' [(''name'', ''csrf-token''), (''content'', ''t'')] []],
        set_cookies = []\<rparr> ''t''))
          (getdate_data 2 1 1 2 1) (jar (init_requester \<lparr>status_code = 200, resp_text = [Tag ''meta'' [(''name'', ''csrf-token''), (''content'', ''t'')] []],
        set_cookies = []\<rparr> ''t''))) @ [Sleep 60]\<rparr>)"
proof -
  have f: "form_ok (\<lambda>i. if i = 1 then Reply \<lparr>status_code = 200, resp_text = [Tag ''div'' [(''class'', ''form-control'')] [Text ''10-11-2023''],
        Tag ''div'' [(''class'', ''form-control'')] [Text ''20-11-2023'']], set_cookies = []\<rparr> else Reply \<lparr>status_code = 200, resp_text = [Tag ''meta'' [(''name'', ''csrf-token''), (''content'', ''t'')] []],
        set_cookies = []\<rparr>) n \<lparr>status_code = 200, resp_text = [Tag ''meta'' [(''name'', ''csrf-token''), (''content'', ''t'')] []],
        set_cookies = []\<rparr> ''t''" if "n \<noteq> 1" for n
    using that by (simp add: form_ok_def csrf_of_def find_tag_def tag_getitem_def)
  have pd: "parse_available_dates (resp_text \<lparr>status_code = 200, resp_text = [Tag ''div'' [(''class'', ''form-control'')] [Text ''10-11-2023''],
        Tag ''div'' [(''class'', ''form-control'')] [Text ''20-11-2023'']], set_cookies = []\<rparr>) = [''10-11-2023'', ''20-11-2023'']"
    by (simp add: parse_available_dates_def soup_eval_simps)
  have pf: "parse_available_dates (resp_text \<lparr>status_code = 200, resp_text = [Tag ''meta'' [(''name'', ''csrf-token''), (''content'', ''t'')] []],
        set_cookies = []\<rparr>) = []"
    by (simp add: parse_available_dates_def soup_eval_simps)
  show ?thesis
    using ads_sweep_spec_scenario [where w = "\<lparr>net = \<lambda>i. if i = 1 then Reply \<lparr>status_code = 200, resp_text = [Tag ''div'' [(''class'', ''form-control'')] [Text ''10-11-2023''],
        Tag ''div'' [(''class'', ''form-control'')] [Text ''20-11-2023'']], set_cookies = []\<rparr> else Reply \<lparr>status_code = 200, resp_text = [Tag ''meta'' [(''name'', ''csrf-token''), (''content'', ''t'')] []],
        set_cookies = []\<rparr>,
      served = 0, clock = \<lambda>_. \<lparr>year = 2023, month = 11, day = 8\<rparr>, asked = 0, trace = []\<rparr>"
      and ra = "\<lparr>status_code = 200, resp_text = [Tag ''meta'' [(''name'', ''csrf-token''), (''content'', ''t'')] []],
        set_cookies = []\<rparr>" and ta = "''t''" and rg = "\<lparr>status_code = 200, resp_text = [Tag ''meta'' [(''name'', ''csrf-token''), (''content'', ''t'')] []],
        set_cookies = []\<rparr>" and tg = "''t''"
      and pa = "\<lparr>status_code = 200, resp_text = [Tag ''div'' [(''class'', ''form-control'')] [Text ''10-11-2023''],
        Tag ''div'' [(''class'', ''form-control'')] [Text ''20-11-2023'']], set_cookies = []\<rparr>" and pg = "\<lparr>status_code = 200, resp_text = [Tag ''meta'' [(''name'', ''csrf-token''), (''content'', ''t'')] []],
        set_cookies = []\<rparr>"
      and ma = "\<lparr>status_code = 200, resp_text = [Tag ''meta'' [(''name'', ''csrf-token''), (''content'', ''t'')] []],
        set_cookies = []\<rparr>" and mb = "\<lparr>status_code = 200, resp_text = [Tag ''meta'' [(''name'', ''csrf-token''), (''content'', ''t'')] []],
        set_cookies = []\<rparr>"]
      f [of 0] f [of 4] pd pf
    by simp
qed

text \<open>C11: one round of the free-slot searcher for Altunizade checks the days of
  \<open>get_dates_between(today, "17-11-2023")\<close> in that order, one scoped requester and one
  send-date POST per day, with the day as \<open>fulldate\<close> and exit office id 8, and then
  sleeps 30 seconds (here against a server whose pages list no free slot).\<close>

theorem alt_sweep_checks_each_day:
  assumes "net w = (\<lambda>_. Reply r)" "status_code r = 200" "csrf_of (resp_text r) = Inr tok"
    and "parse_available_hours (resp_text r) ''free'' = []"
    and "get_dates_between (clock w (asked w)) ''today'' ''17-11-2023'' = Inr ds"
  shows "free_slot_sweep (add_office finder_init ''Altunizade'' 8) alt_whatsapp ''Altunizade''
      ALT_PHONE_NUMBER_1 ALT_PHONE_NUMBER_2 ''Free time slots in Altunizade, be quick! '' w =
    (Inr (), w\<lparr>trace := trace w @ concat (map (\<lambda>d. session_events
        (SessionPost URL_SEND_DATE (get_headers (init_requester r tok))
          (senddate_data d 1 2 8 2 1 (personal_id finder_init)) (jar (init_requester r tok)))) ds) @
        [Sleep 30],
      served := served w + 2 * length ds, asked := Suc (asked w)\<rparr>)"
proof -
  let ?w1 = "w\<lparr>asked := Suc (asked w)\<rparr>"
  have "net ?w1 = (\<lambda>_. Reply r)" using assms(1) by simp
  note c = checks_quiet [OF this assms(2-4), of "add_office finder_init ''Altunizade'' 8" "''Altunizade''" 8]
  show ?thesis
    using assms(5) c
    by (simp add: free_slot_sweep_def bindE_def date_today_def py_sleep_def emit_def)
qed

theorem alt_sweep_checks_each_day_witness:
  "get_dates_between \<lparr>year = 2023, month = 11, day = 17\<rparr> ''today'' ''17-11-2023'' = Inr [''17-11-2023''] \<and>
   free_slot_sweep (add_office finder_init ''Altunizade'' 8) alt_whatsapp ''Altunizade''
      ALT_PHONE_NUMBER_1 ALT_PHONE_NUMBER_2 ''Free time slots in Altunizade, be quick! ''
     \<lparr>net = \<lambda>_. Reply \<lparr>status_code = 200,
        resp_text = [Tag ''meta'' [(''name'', ''csrf-token''), (''content'', ''t'')] []], set_cookies = []\<rparr>,
      served = 0, clock = \<lambda>_. \<lparr>year = 2023, month = 11, day = 17\<rparr>, asked = 0, trace = []\<rparr> =
   (Inr (), \<lparr>net = \<lambda>_. Reply \<lparr>status_code = 200,
        resp_text = [Tag ''meta'' [(''name'', ''csrf-token''), (''content'', ''t'')] []], set_cookies = []\<rparr>,
      served = 2, clock = \<lambda>_. \<lparr>year = 2023, month = 11, day = 17\<rparr>, asked = 1,
      trace = session_events (SessionPost URL_SEND_DATE (get_headers (init_requester \<lparr>status_code = 200,
        resp_text = [Tag ''meta'' [(''name'', ''csrf-token''), (''content'', ''t'')] []], set_cookies = []\<rparr> ''t''))
          (senddate_data ''17-11-2023'' 1 2 8 2 1 (personal_id finder_init))
          (jar (init_requester \<lparr>status_code = 200,
        resp_text = [Tag ''meta'' [(''name'', ''csrf-token''), (''content'', ''t'')] []], set_cookies = []\<rparr> ''t''))) @
        [Sleep 30]\<rparr>)"
proof -
  let ?d = "\<lparr>year = 2023, month = 11, day = 17\<rparr>"
  have v: "valid_date ?d"
    by (simp add: valid_date_def days_in_month_def DAYS_IN_MONTH_def MINYEAR_def MAXYEAR_def is_leap_def)
  have g: "get_dates_between ?d ''today'' ''17-11-2023'' = Inr [''17-11-2023'']"
    using get_dates_between_Inr [of "''today''" ?d ?d, OF _ v date_of_dmy_end] fromordinal_toordinal [OF v]
    by (simp add: strftime_dmY_def zpad_def show_nat.simps)
  have c: "csrf_of [Tag ''meta'' [(''name'', ''csrf-token''), (''content'', ''t'')] []] = Inr ''t''"
    by (simp add: csrf_of_def find_tag_def tag_getitem_def)
  have h: "parse_available_hours [Tag ''meta'' [(''name'', ''csrf-token''), (''content'', ''t'')] []] ''free'' = []"
    by (simp add: parse_available_hours_def soup_eval_simps)
  show ?thesis
    using alt_sweep_checks_each_day [where w = "\<lparr>net = \<lambda>_. Reply \<lparr>status_code = 200,
        resp_text = [Tag ''meta'' [(''name'', ''csrf-token''), (''content'', ''t'')] []], set_cookies = []\<rparr>,
      served = 0, clock = \<lambda>_. ?d, asked = 0, trace = []\<rparr>"
      and r = "\<lparr>status_code = 200,
        resp_text = [Tag ''meta'' [(''name'', ''csrf-token''), (''content'', ''t'')] []], set_cookies = []\<rparr>"
      and tok = "''t''" and ds = "[''17-11-2023'']"] g c h
    by simp
qed

text \<open>C27: \<open>free_time_slot_searcher_gayrettepe.py\<close> has the same fixed end date: on
  every day after 17-11-2023 each round sends no request and only sleeps 30 seconds, so
  the script polls forever and never notifies.\<close>

theorem gay_main_idle:
  assumes "\<forall>i. valid_date (clock w i) \<and> date_less \<lparr>year = 2023, month = 11, day = 17\<rparr> (clock w i)"
  shows "gay_main str_exc fuel w =
    (Inr Polling, w\<lparr>trace := trace w @ replicate fuel (Sleep 30), asked := asked w + fuel\<rparr>)"
  by (simp add: gay_main_loop bindE_def try_except_def ret_def free_slot_poll_idle [OF assms])

theorem gay_main_idle_witness:
  "(\<forall>i. valid_date ((\<lambda>_. \<lparr>year = 2024, month = 2, day = 29\<rparr>) i) \<and>
      date_less \<lparr>year = 2023, month = 11, day = 17\<rparr> ((\<lambda>_. \<lparr>year = 2024, month = 2, day = 29\<rparr>) i)) \<and>
   gay_main (\<lambda>_. []) 2 \<lparr>net = \<lambda>_. Failure, served = 0, clock = \<lambda>_. \<lparr>year = 2024, month = 2, day = 29\<rparr>,
      asked = 0, trace = []\<rparr> =
   (Inr Polling, \<lparr>net = \<lambda>_. Failure, served = 0, clock = \<lambda>_. \<lparr>year = 2024, month = 2, day = 29\<rparr>,
      asked = 2, trace = [Sleep 30, Sleep 30]\<rparr>)"
proof -
  have h: "\<forall>i. valid_date ((\<lambda>_. \<lparr>year = 2024, month = 2, day = 29\<rparr>) i) \<and>
      date_less \<lparr>year = 2023, month = 11, day = 17\<rparr> ((\<lambda>_. \<lparr>year = 2024, month = 2, day = 29\<rparr>) i)"
    by (simp add: valid_date_def days_in_month_def DAYS_IN_MONTH_def MINYEAR_def MAXYEAR_def is_leap_def
        date_less_def)
  show ?thesis
    using gay_main_idle [of "\<lparr>net = \<lambda>_. Failure, served = 0, clock = \<lambda>_. \<lparr>year = 2024, month = 2, day = 29\<rparr>,
      asked = 0, trace = []\<rparr>" "\<lambda>_. []" 2] h by (simp add: numeral_eq_Suc)
qed

text \<open>C26: one round of a free-slot searcher against a server whose pages have the
  token and free slots \<open>hs\<close>: for each day of \<open>get_dates_between(today, 17-11-2023)\<close>, in
  order, one session with its send-date POST and then the message, the script's text
  followed by \<open>str(hs)\<close>, to the first and then the second phone; then it sleeps
  30 seconds.\<close>

theorem free_slot_sweep_notifies:
  assumes "net w = (\<lambda>_. Reply r)" "status_code r = 200" "csrf_of (resp_text r) = Inr tok"
    and "parse_available_hours (resp_text r) ''free'' = hs" "hs \<noteq> []" "exit_ids f office = Some eid"
    and "phones_api_keys wa phone_a = Some ka" "ka \<noteq> []" "phones_api_keys wa phone_b = Some kb" "kb \<noteq> []"
    and "get_dates_between (clock w (asked w)) ''today'' ''17-11-2023'' = Inr ds"
  shows "free_slot_sweep f wa office phone_a phone_b t w =
    (Inr (), w\<lparr>trace := trace w @ concat (map (\<lambda>d. session_events
        (SessionPost URL_SEND_DATE (get_headers (init_requester r tok))
          (senddate_data d (total_person f) (consular_id f) eid (calendar_type f) (service_type_id f)
             (personal_id f)) (jar (init_requester r tok))) @
        [HttpGet (notify_url wa phone_a (t @ py_repr_list hs) ka), HttpGet (notify_url wa phone_b (t @ py_repr_list hs) kb)]) ds)
        @ [Sleep 30],
      served := served w + 4 * length ds, asked := Suc (asked w)\<rparr>)"
proof -
  let ?w1 = "w\<lparr>asked := Suc (asked w)\<rparr>"
  have "net ?w1 = (\<lambda>_. Reply r)" using assms(1) by simp
  note run = checks_busy [OF this assms(2-10), of t ds]
  show ?thesis
    by (simp add: free_slot_sweep_def bindE_def date_today_def lift_def assms(11) run py_sleep_def emit_def)
qed

theorem free_slot_sweep_notifies_witness:
  "free_slot_sweep (add_office finder_init ''Altunizade'' 8) alt_whatsapp ''Altunizade''
      ALT_PHONE_NUMBER_1 ALT_PHONE_NUMBER_2 ''Free time slots in Altunizade, be quick! ''
      \<lparr>net = \<lambda>_. Reply \<lparr>status_code = 200,
         resp_text = [Tag ''meta'' [(''name'', ''csrf-token''), (''content'', ''tok'')] [],
                      Tag ''button'' [(''class'', ''getdatebtnhour noPrime'')] [Text ''10:30'']],
         set_cookies = []\<rparr>,
       served = 0, clock = \<lambda>_. \<lparr>year = 2023, month = 11, day = 16\<rparr>, asked = 0, trace = []\<rparr> =
   (Inr (), \<lparr>net = \<lambda>_. Reply \<lparr>status_code = 200,
         resp_text = [Tag ''meta'' [(''name'', ''csrf-token''), (''content'', ''tok'')] [],
                      Tag ''button'' [(''class'', ''getdatebtnhour noPrime'')] [Text ''10:30'']],
         set_cookies = []\<rparr>,
       served = 8, clock = \<lambda>_. \<lparr>year = 2023, month = 11, day = 16\<rparr>, asked = 1,
       trace = concat (map (\<lambda>d. session_events
        (SessionPost URL_SEND_DATE (get_headers (init_requester \<lparr>status_code = 200,
         resp_text = [Tag ''meta'' [(''name'', ''csrf-token''), (''content'', ''tok'')] [],
                      Tag ''button'' [(''class'', ''getdatebtnhour noPrime'')] [Text ''10:30'']],
         set_cookies = []\<rparr> ''tok''))
          (senddate_data d 1 2 8 2 1 (personal_id finder_init)) (jar (init_requester \<lparr>status_code = 200,
         resp_text = [Tag ''meta'' [(''name'', ''csrf-token''), (''content'', ''tok'')] [],
                      Tag ''button'' [(''class'', ''getdatebtnhour noPrime'')] [Text ''10:30'']],
         set_cookies = []\<rparr> ''tok''))) @
        [HttpGet (notify_url alt_whatsapp ''+90xxxxx'' (''Free time slots in Altunizade, be quick! '' @ py_repr_list [''10:30'']) ''API_KEY''),
         HttpGet (notify_url alt_whatsapp ''+90xxxxx'' (''Free time slots in Altunizade, be quick! '' @ py_repr_list [''10:30'']) ''API_KEY'')])
        [''16-11-2023'', ''17-11-2023''])
        @ [Sleep 30]\<rparr>)"
proof -
  let ?r = "\<lparr>status_code = 200,
         resp_text = [Tag ''meta'' [(''name'', ''csrf-token''), (''content'', ''tok'')] [],
                      Tag ''button'' [(''class'', ''getdatebtnhour noPrime'')] [Text ''10:30'']],
         set_cookies = []\<rparr>"
  have c: "csrf_of (resp_text ?r) = Inr ''tok''"
    by (simp add: csrf_of_def find_tag_def tag_getitem_def)
  have h: "parse_available_hours (resp_text ?r) ''free'' = [''10:30'']"
    by (simp add: parse_available_hours_def soup_eval_simps)
  have k: "phones_api_keys alt_whatsapp ALT_PHONE_NUMBER_1 = Some ''API_KEY''"
    "phones_api_keys alt_whatsapp ALT_PHONE_NUMBER_2 = Some ''API_KEY''"
    by (simp_all add: ALT_PHONE_NUMBER_1_def ALT_PHONE_NUMBER_2_def)
  have e: "exit_ids (add_office finder_init ''Altunizade'' 8) ''Altunizade'' = Some 8" by simp
  let ?w = "\<lparr>net = \<lambda>_. Reply ?r, served = 0,
        clock = \<lambda>_. \<lparr>year = 2023, month = 11, day = 16\<rparr>, asked = 0, trace = []\<rparr>"
  have d: "get_dates_between (clock ?w (asked ?w)) ''today'' ''17-11-2023'' = Inr [''16-11-2023'', ''17-11-2023'']"
    using dates_last_two by simp
  have n: "net ?w = (\<lambda>_. Reply ?r)" by simp
  show ?thesis
    using free_slot_sweep_notifies [where w = ?w and r = ?r and tok = "''tok''" and hs = "[''10:30'']"
      and eid = 8 and ka = "''API_KEY''" and kb = "''API_KEY''" and ds = "[''16-11-2023'', ''17-11-2023'']"
      and t = "''Free time slots in Altunizade, be quick! ''" and f = "add_office finder_init ''Altunizade'' 8"
      and office = "''Altunizade''" and wa = alt_whatsapp and phone_a = ALT_PHONE_NUMBER_1 and phone_b = ALT_PHONE_NUMBER_2,
      OF n _ c h _ e k(1) _ k(2) _ d]
    by (simp add: ALT_PHONE_NUMBER_1_def ALT_PHONE_NUMBER_2_def)
qed

text \<open>C29: termination of the polling loop of \<open>available_date_searcher.py\<close>, as
  \<open>while True\<close> itself: against a server that answers with the token and no dates it
  never returns, and when the form page is refused (a status other than 200) it returns
  in its first round, with the \<open>SystemExit\<close> of \<open>exit()\<close>.\<close>

theorem ads_loop_termination:
  assumes "net w = (\<lambda>_. Reply r)" "status_code r = 200" "csrf_of (resp_text r) = Inr tok"
    and "parse_available_dates (resp_text r) = []"
    and "net v (served v) = Reply rb" "status_code rb \<noteq> 200"
  shows "while_true (ads_sweep ads_appointments ads_whatsapp) w = None \<and>
    (\<exists>v'. while_true (ads_sweep ads_appointments ads_whatsapp) v = Some (SystemExit, v'))"
proof
  have "poll k (ads_sweep ads_appointments ads_whatsapp) w =
    (Inr (), w\<lparr>trace := trace w @ concat (replicate k
        (session_events (SessionPost URL_GET_DATE (get_headers (init_requester r tok))
           (getdate_data 2 8 1 2 1) (jar (init_requester r tok))) @
         session_events (SessionPost URL_GET_DATE (get_headers (init_requester r tok))
           (getdate_data 2 1 1 2 1) (jar (init_requester r tok))) @ [Sleep 60])),
       served := served w + k * 4, asked := asked w + k * 0\<rparr>)" for k
    by (rule poll_steady [where P = "\<lambda>v. net v = (\<lambda>_. Reply r)"])
      (simp_all add: ads_sweep_quiet [OF _ assms(2-4)] assms(1))
  then show "while_true (ads_sweep ads_appointments ads_whatsapp) w = None"
    by (simp add: while_true_None_iff)
next
  obtain v1 where "requester_init v = (Inl SystemExit, v1)"
    using assms(5,6) by (simp add: requester_init_eq)
  then have "ads_sweep ads_appointments ads_whatsapp v = (Inl SystemExit, v1)"
    by (rule ads_sweep_init_raise)
  then show "\<exists>v'. while_true (ads_sweep ads_appointments ads_whatsapp) v = Some (SystemExit, v')"
    by (simp add: while_true.simps)
qed

theorem ads_loop_termination_witness:
  "while_true (ads_sweep ads_appointments ads_whatsapp)
     \<lparr>net = \<lambda>_. Reply \<lparr>status_code = 200,
        resp_text = [Tag ''meta'' [(''name'', ''csrf-token''), (''content'', ''tok'')] []], set_cookies = []\<rparr>,
      served = 0, clock = \<lambda>_. \<lparr>year = 2023, month = 11, day = 8\<rparr>, asked = 0, trace = []\<rparr> = None \<and>
   (\<exists>v'. while_true (ads_sweep ads_appointments ads_whatsapp)
     \<lparr>net = \<lambda>_. Reply \<lparr>status_code = 503, resp_text = [], set_cookies = []\<rparr>,
      served = 0, clock = \<lambda>_. \<lparr>year = 2023, month = 11, day = 8\<rparr>, asked = 0, trace = []\<rparr> =
     Some (SystemExit, v'))"
proof -
  have c: "csrf_of [Tag ''meta'' [(''name'', ''csrf-token''), (''content'', ''tok'')] []] = Inr ''tok''"
    by (simp add: csrf_of_def find_tag_def tag_getitem_def)
  have d: "parse_available_dates [Tag ''meta'' [(''name'', ''csrf-token''), (''content'', ''tok'')] []] = []"
    by (simp add: parse_available_dates_def soup_eval_simps)
  show ?thesis
    using ads_loop_termination [where w = "\<lparr>net = \<lambda>_. Reply \<lparr>status_code = 200,
        resp_text = [Tag ''meta'' [(''name'', ''csrf-token''), (''content'', ''tok'')] []], set_cookies = []\<rparr>,
      served = 0, clock = \<lambda>_. \<lparr>year = 2023, month = 11, day = 8\<rparr>, asked = 0, trace = []\<rparr>"
      and r = "\<lparr>status_code = 200,
        resp_text = [Tag ''meta'' [(''name'', ''csrf-token''), (''content'', ''tok'')] []], set_cookies = []\<rparr>"
      and tok = "''tok''"
      and v = "\<lparr>net = \<lambda>_. Reply \<lparr>status_code = 503, resp_text = [], set_cookies = []\<rparr>,
      served = 0, clock = \<lambda>_. \<lparr>year = 2023, month = 11, day = 8\<rparr>, asked = 0, trace = []\<rparr>"
      and rb = "\<lparr>status_code = 503, resp_text = [], set_cookies = []\<rparr>"] c d
    by simp
qed

end
