(* ===== verification/Day_Range.thy ===== *)
theory Day_Range
  imports Utils
begin

text \<open>
  An abstract specification of the date range, by the calendar as a person counts it:
  \<open>next_day\<close> moves to the next day of the month, or to the first of the next month,
  or to the first of January of the next year; \<open>day_range s n\<close> is the \<open>n\<close> days from
  \<open>s\<close> on.  CPython computes \<open>date + timedelta(days=i)\<close> through day numbers
  (\<open>toordinal\<close>, \<open>fromordinal\<close>) instead.  The lemmas show that one step of the day
  numbers is \<open>next_day\<close>, so \<open>get_dates_between\<close> refines \<open>day_range\<close>.
\<close>

definition next_day :: "date \<Rightarrow> date" where
  "next_day d =
     (if day d < days_in_month (year d) (month d) then d\<lparr>day := Suc (day d)\<rparr>
      else if month d < 12 then \<lparr>year = year d, month = Suc (month d), day = 1\<rparr>
      else \<lparr>year = Suc (year d), month = 1, day = 1\<rparr>)"

fun day_range :: "date \<Rightarrow> nat \<Rightarrow> date list" where
  "day_range d 0 = []"
| "day_range d (Suc n) = d # day_range (next_day d) n"

subsection \<open>One day on\<close>

lemma days_in_month_pos: "1 \<le> m \<Longrightarrow> m \<le> 12 \<Longrightarrow> 1 \<le> days_in_month y m"
  using month_1_12_cases [of m] by (auto simp: days_in_month_def DAYS_IN_MONTH_def)

lemma toordinal_next_day:
  assumes v: "valid_date d"
  shows "toordinal (next_day d) = Suc (toordinal d)"
proof -
  have m: "1 \<le> month d" "month d \<le> 12" and dd: "day d \<le> days_in_month (year d) (month d)"
    and y: "1 \<le> year d"
    using v by (simp_all add: valid_date_def MINYEAR_def)
  consider (a) "day d < days_in_month (year d) (month d)"
    | (b) "day d = days_in_month (year d) (month d)" "month d < 12"
    | (c) "day d = days_in_month (year d) (month d)" "month d = 12"
    using dd m by linarith
  then show ?thesis
  proof cases
    case a
    then show ?thesis by (simp add: next_day_def toordinal_def)
  next
    case b
    with m dbm_dim_Suc [of "month d" "year d"] show ?thesis
      by (simp add: next_day_def toordinal_def)
  next
    case c
    with dbm_dim_12 [of "year d"] dby_Suc [OF y] show ?thesis
      by (simp add: next_day_def toordinal_def days_before_month_def DAYS_BEFORE_MONTH_def)
  qed
qed

lemma valid_next_day:
  assumes v: "valid_date d" and lt: "toordinal d < MAXORDINAL"
  shows "valid_date (next_day d)"
proof -
  have "valid_date (fromordinal (Suc (toordinal d)))"
    using lt by (intro valid_fromordinal) simp_all
  moreover have "1 \<le> toordinal (next_day d)" by (simp add: toordinal_next_day [OF v])
  moreover have "year d < MAXYEAR \<or> month d < 12 \<or> day d < days_in_month (year d) (month d)"
  proof (rule ccontr)
    assume "\<not> ?thesis"
    with v have "year d = MAXYEAR" "month d = 12" "day d = days_in_month (year d) (month d)"
      by (auto simp: valid_date_def)
    with dbm_dim_12 [of "year d"] dby_Suc [of "year d"] dby_MAXYEAR have "toordinal d = MAXORDINAL"
      by (simp add: toordinal_def MAXYEAR_def)
    with lt show False by simp
  qed
  ultimately show ?thesis
    using v days_in_month_pos [of 1 "Suc (year d)"] days_in_month_pos [of "Suc (month d)" "year d"]
    by (auto simp: next_day_def valid_date_def MAXYEAR_def MINYEAR_def)
qed

text \<open>One step of CPython's day numbers is the calendar's next day.\<close>

lemma fromordinal_Suc:
  assumes "valid_date d" and "toordinal d < MAXORDINAL"
  shows "fromordinal (Suc (toordinal d)) = next_day d"
  using fromordinal_toordinal [OF valid_next_day [OF assms]] by (simp add: toordinal_next_day [OF assms(1)])

lemma day_range_fromordinal:
  assumes "valid_date s" and "toordinal s + n \<le> Suc MAXORDINAL"
  shows "day_range s n = map (\<lambda>k. fromordinal (toordinal s + k)) [0..<n]"
  using assms
proof (induction n arbitrary: s)
  case 0
  then show ?case by simp
next
  case (Suc n)
  show ?case
  proof (cases n)
    case 0
    then show ?thesis using fromordinal_toordinal [OF Suc.prems(1)] by simp
  next
    case (Suc m)
    have lt: "toordinal s < MAXORDINAL" using Suc.prems(2) \<open>n = Suc m\<close> by simp
    have v: "valid_date (next_day s)" by (rule valid_next_day [OF Suc.prems(1) lt])
    have "toordinal (next_day s) + n \<le> Suc MAXORDINAL"
      using Suc.prems(2) by (simp add: toordinal_next_day [OF Suc.prems(1)])
    from Suc.IH [OF v this] have "day_range (next_day s) n =
        map (\<lambda>k. fromordinal (toordinal (next_day s) + k)) [0..<n]" .
    then show ?thesis
      using fromordinal_toordinal [OF Suc.prems(1)]
      by (simp add: toordinal_next_day [OF Suc.prems(1)] map_upt_Suc del: upt_Suc)
  qed
qed

subsection \<open>\<open>get_dates_between\<close> refines the calendar\<close>

text \<open>C24: a successful \<open>get_dates_between\<close> is the calendar's day range: the
  \<open>dd-mm-yyyy\<close> forms of the start day and of each following day by \<open>next_day\<close>,
  and when the range is not empty its last day is \<open>until_date\<close>.\<close>

theorem get_dates_between_refines_calendar:
  assumes "get_dates_between today from_date until_date = Inr ds" and "valid_date today"
  shows "\<exists>s e. (if from_date = ''today'' then Inr today else date_of_dmy from_date) = Inr s \<and>
    date_of_dmy until_date = Inr e \<and> ds = map strftime_dmY (day_range s (length ds)) \<and>
    (ds \<noteq> [] \<longrightarrow> last (day_range s (length ds)) = e)"
proof (rule get_dates_between_cases [OF assms])
  fix s e
  assume st: "(if from_date = ''today'' then Inr today else date_of_dmy from_date) = Inr s"
    and s: "valid_date s" and fin: "date_of_dmy until_date = Inr e" and e: "valid_date e"
    and ds: "ds = map (\<lambda>k. strftime_dmY (fromordinal (toordinal s + k)))
      [0..<nat (int (toordinal e) - int (toordinal s) + 1)]"
  let ?N = "nat (int (toordinal e) - int (toordinal s) + 1)"
  have len: "length ds = ?N" using ds by simp
  have bound: "toordinal s + ?N \<le> Suc MAXORDINAL"
    using toordinal_range(2) [OF e] toordinal_range(2) [OF s] by linarith
  have r: "day_range s ?N = map (\<lambda>k. fromordinal (toordinal s + k)) [0..<?N]"
    by (rule day_range_fromordinal [OF s bound])
  have "last (day_range s ?N) = e" if "?N \<noteq> 0"
  proof -
    have "toordinal s + (?N - 1) = toordinal e" using that by linarith
    with that r fromordinal_toordinal [OF e] show ?thesis by (simp add: last_map)
  qed
  with st fin ds len r show ?thesis by auto
qed

theorem get_dates_between_refines_calendar_witness:
  "get_dates_between \<lparr>year = 2023, month = 11, day = 8\<rparr> ''30-12-2023'' ''02-01-2024'' =
     Inr [''30-12-2023'', ''31-12-2023'', ''01-01-2024'', ''02-01-2024''] \<and>
   valid_date \<lparr>year = 2023, month = 11, day = 8\<rparr> \<and>
   (\<exists>s e. (if ''30-12-2023'' = ''today'' then Inr \<lparr>year = 2023, month = 11, day = 8\<rparr>
       else date_of_dmy ''30-12-2023'') = Inr s \<and> date_of_dmy ''02-01-2024'' = Inr e \<and>
     [''30-12-2023'', ''31-12-2023'', ''01-01-2024'', ''02-01-2024''] = map strftime_dmY (day_range s 4) \<and>
     last (day_range s 4) = e)"
proof -
  have g: "get_dates_between \<lparr>year = 2023, month = 11, day = 8\<rparr> ''30-12-2023'' ''02-01-2024'' =
     Inr [''30-12-2023'', ''31-12-2023'', ''01-01-2024'', ''02-01-2024'']"
    by (rule dates_across_new_year)
  have v: "valid_date \<lparr>year = 2023, month = 11, day = 8\<rparr>"
    by (simp add: valid_date_def days_in_month_def DAYS_IN_MONTH_def MINYEAR_def MAXYEAR_def is_leap_def)
  show ?thesis using get_dates_between_refines_calendar [OF g v] g v by (simp add: numeral_eq_Suc)
qed

end
