(* ===== verification/Spec2Isabelle.thy ===== *)
theory Spec2Isabelle
  imports Searchers Day_Range
begin

text \<open>
  \<^bold>\<open>A verification development for idata_python.\<close>  The repository polls the iDATA
  visa-appointment site for free dates or time slots and sends WhatsApp messages through
  the CallMeBot gateway.  Its parts, and the theories that model them (a shallow
  embedding: every function of \<open>src/\<close> is a HOL definition of the same name, or one
  prefixed by its script):

  \<^item> \<^bold>\<open>Prelude\<close>: Python's exceptions as values.  \<open>exc\<close> lists the exception classes the
    code raises or lets through, \<open>'a result = exc + 'a\<close>, \<open>ebind\<close> sequences,
    \<open>map_exc\<close>/\<open>filter_exc\<close> are list comprehensions whose body raises, and
    \<open>is_exception\<close> says what \<open>except Exception\<close> catches (not \<open>SystemExit\<close>).
  \<^item> \<^bold>\<open>Py_Builtins\<close>, \<^bold>\<open>Calendar\<close>, \<^bold>\<open>Soup\<close>: the library behaviour the code relies on,
    modelled from CPython and bs4: \<open>str.strip\<close>, \<open>split\<close>, \<open>int()\<close>, \<open>str()\<close> and
    \<open>repr()\<close>; \<open>datetime.date\<close> with CPython's \<open>_ymd2ord\<close>/\<open>_ord2ymd\<close> (proleptic
    Gregorian, years 1 to 9999, \<open>OverflowError\<close> past them), \<open>strftime\<close> and
    \<open>strptime\<close> with \<open>"%d-%m-%Y"\<close>; the parsed document and \<open>find_all(class_=...)\<close>,
    \<open>find\<close>, \<open>tag[key]\<close>, \<open>get_text(strip=True)\<close>.  Calendar proves both ordinal
    round trips, that tuple order is day-number order, and the strftime/strptime round trip.
  \<^item> \<^bold>\<open>Utils\<close> (\<open>src/core/utils.py\<close>, \<open>IDataUtilities\<close>): \<open>parse_available_dates\<close>,
    \<open>remove_dates_before\<close>, \<open>parse_available_hours\<close>, \<open>get_dates_between\<close> (with
    \<open>date_of_dmy\<close> for its \<open>split("-")\<close> and \<open>date(...)\<close>), pure functions of the document,
    the strings and the date \<open>date.today()\<close> returned.
  \<^item> \<^bold>\<open>World\<close>: the effects.  A world holds the replies the network will give, in order
    (\<open>net\<close>, \<open>served\<close>), the values of \<open>date.today()\<close> (\<open>clock\<close>, \<open>asked\<close>) and the
    trace of events made so far: session open and close, session GET and POST (URL,
    headers, form data, cookies sent), plain GET, sleep.  \<open>'a pyst\<close> is a statement over
    the world that returns or raises; \<open>bindE\<close>, \<open>try_except\<close>, \<open>for_each\<close> and \<open>poll\<close>
    (\<open>while True\<close>) compose statements.  Lemma groups: \<open>run_simps\<close> evaluate statements,
    \<open>costs_intros\<close> bound the requests.
  \<^item> \<^bold>\<open>Requester\<close> (\<open>src/core/idata_requester.py\<close>, \<open>IDataRequester\<close>): the record
    \<open>requester\<close> (cookie jar, both tokens), \<open>receive_tokens\<close>, \<open>requester_init\<close>
    (\<open>__init__\<close>), \<open>with_requester\<close> (\<open>with\<close>, \<open>__enter__\<close>/\<open>__exit__\<close>/\<open>__del__\<close>),
    \<open>get_headers\<close>, \<open>post_request\<close> and the four \<open>post_*\<close> requests.
  \<^item> \<^bold>\<open>Notifier\<close> (\<open>src/core/notifier.py\<close>, \<open>WhatsappNotifier\<close>): the record \<open>notifier\<close>,
    \<open>add_phone_api_key\<close>, \<open>send_message\<close> and the URL it builds, \<open>notify_url\<close>; and
    the gateway's reading of that URL, \<open>query_param\<close>: \<open>requests\<close>' \<open>requote_uri\<close>
    (\<open>unquote_unreserved\<close>, then \<open>url_quote\<close>), the query up to the fragment, and
    PHP's \<open>$_GET\<close> decoding (\<open>php_urldecode\<close>, in which \<open>+\<close> is a space).
  \<^item> \<^bold>\<open>Finder\<close> (\<open>src/core/appointment_finder.py\<close>, \<open>IDataAppointmentFinder\<close>): the
    record \<open>finder\<close>, \<open>add_office\<close>, \<open>find_available_dates\<close>, \<open>check_for_specific_date\<close>;
    each query opens its own requester, as the code's \<open>with\<close> block does.
  \<^item> \<^bold>\<open>Searchers\<close>: the three scripts' \<open>__main__\<close> blocks, \<open>ads_main\<close>
    (\<open>src/available_date_searcher.py\<close>), \<open>alt_main\<close> and \<open>gay_main\<close>
    (\<open>src/free_time_slot_searcher_altunizade.py\<close>, \<open>..._gayrettepe.py\<close>), with their
    rounds \<open>ads_sweep\<close> and \<open>free_slot_sweep\<close>.
  \<^item> \<^bold>\<open>Day_Range\<close>: an abstract specification of a date range as a person counts
    it (\<open>next_day\<close> rolls over the day, the month and the year; \<open>day_range s n\<close> is
    \<open>n\<close> days from \<open>s\<close>), against which \<open>get_dates_between\<close>, which counts through
    CPython's day numbers, is proved a refinement.

  Besides the operations, Finder holds \<open>find_available_dates_ref\<close>, the date query
  without the code's two early returns.

  \<^bold>\<open>What the theorems show.\<close>  C1 to C29 are listed in the project manifest in order of
  importance, each after a text block naming it.  They cover the specification's
  end-to-end scenario (C1); \<open>remove_dates_before\<close> (the exact filter, its soundness, the
  \<open>ValueError\<close> of one bad entry) and \<open>get_dates_between\<close> (consecutive days,
  endpoints, reversed and one-day ranges); the session discipline of the requester
  (released on every path, the exits of \<open>__init__\<close>, the tokens it keeps, the two POSTs
  no script calls); the notifier (unregistered phones, network failures, and what the
  gateway reads from the URL: each part with \<open>+\<close> turned into a space, so the scripts'
  \<open>+90...\<close> numbers arrive altered, C17); the finder (unknown offices, the exact requests
  of a query, at most two requests per query); the scripts (error reporting and the
  \<open>SystemExit\<close> that escapes it, liveness under a quiet server, the idle loop after the
  hard-coded end date in both free-slot scripts, the order of the per-day checks and the
  notification of both phones for a day with free slots, and termination of the real
  \<open>while True\<close> loop, C29).  Two theorems relate the code to a simpler statement of it:
  \<open>get_dates_between\<close> refines \<open>day_range\<close> (C24, by induction on the range with one
  day number per \<open>next_day\<close>), and \<open>find_available_dates\<close> equals its reference query
  whenever the cut-off parses (C25).

  \<^bold>\<open>Bounds and fuel.\<close>  \<open>while True\<close> never ends, so \<open>poll fuel body\<close> is the run of its
  first \<open>fuel\<close> rounds and \<open>Polling\<close> the outcome of a run still inside the loop.  The
  liveness theorems hold for every \<open>fuel\<close>, so no bound is assumed.  World also defines
  the loop itself, \<open>while_true\<close>, a \<open>partial_function (option)\<close> that returns only
  with the exception of a round (\<open>None\<close>: it never returns), and proves the fuel model
  exact: \<open>while_true\<close> returns \<open>e\<close> iff some number of rounds raises \<open>e\<close>, and
  never returns iff every number of rounds returns normally.  C29 uses it to show that
  the date searcher's loop never returns against a quiet server and ends at once on a
  refused form page.  Every other loop is a \<open>for\<close> over a finite list and is structural recursion.  Dates are bounded as
  CPython bounds them (\<open>MINYEAR\<close>, \<open>MAXYEAR\<close>, \<open>OverflowError\<close>); integers are
  unbounded as in Python.

  \<^bold>\<open>Not modelled.\<close>  The parsing of HTML text into a document (bs4's parser: the model
  starts from the tree); the message text of exceptions (\<open>str(e)\<close> is the parameter
  \<open>str_exc\<close>); logging and \<open>logging.basicConfig\<close>, which write a local file only: the log calls
  never change a request, a message or a result, and modelling them would turn the pure
  utilities, which log their results, into statements over the world;
  cookie domains and paths (the jar keeps one value per name, where \<open>requests\<close> keys it
  by domain, path and name; no theorem depends on two cookies of one name); non-ASCII
  characters in URLs; \<open>__del__\<close> run by the
  garbage collector after a failed \<open>__init__\<close>; real time (\<open>time.sleep\<close> is an event).
  Strings are ASCII, as every string the program handles is.
\<close>

end
